theory Spec2Isabelle
  imports Complex_Main "HOL-Library.Signed_Division" "HOL-Library.Multiset"
    "HOL-Library.Monad_Syntax"
begin

section \<open>Scan registration (scanRegistration.cpp): data model\<close>

text \<open>
  The C++ \<open>float\<close> and \<open>double\<close> values are modelled as exact reals: unless it names a
  definition with the suffix \<open>Float\<close>, a statement below is about the arithmetic the code
  writes down, not about its rounding.  C \<open>int\<close> values are
  modelled as \<open>int\<close>; the operators \<open>/\<close> and \<open>%\<close> on them are \<open>sdiv\<close> and \<open>smod\<close>
  (truncation towards zero).  A file-scope array is a function from the index to the
  element; the places where an index may leave the array are checked explicitly.
\<close>

definition scanPeriod :: real where
  "scanPeriod = 0.1"

definition systemDelay :: int where
  "systemDelay = 20"

definition N_SCANS :: int where
  "N_SCANS = 16"

definition imuQueLength :: int where
  "imuQueLength = 200"

text \<open>The file-scope variables of scanRegistration.cpp, with the names of the source.\<close>

record globals =
  systemInitCount :: int
  systemInited :: bool
  cloudCurvature :: "int \<Rightarrow> real"
  cloudSortInd :: "int \<Rightarrow> int"
  cloudNeighborPicked :: "int \<Rightarrow> int"
  cloudLabel :: "int \<Rightarrow> int"
  imuPointerFront :: int
  imuPointerLast :: int
  imuRollStart :: real
  imuPitchStart :: real
  imuYawStart :: real
  imuRollCur :: real
  imuPitchCur :: real
  imuYawCur :: real
  imuVeloXStart :: real
  imuVeloYStart :: real
  imuVeloZStart :: real
  imuShiftXStart :: real
  imuShiftYStart :: real
  imuShiftZStart :: real
  imuVeloXCur :: real
  imuVeloYCur :: real
  imuVeloZCur :: real
  imuShiftXCur :: real
  imuShiftYCur :: real
  imuShiftZCur :: real
  imuShiftFromStartXCur :: real
  imuShiftFromStartYCur :: real
  imuShiftFromStartZCur :: real
  imuVeloFromStartXCur :: real
  imuVeloFromStartYCur :: real
  imuVeloFromStartZCur :: real
  imuTime :: "int \<Rightarrow> real"
  imuRoll :: "int \<Rightarrow> real"
  imuPitch :: "int \<Rightarrow> real"
  imuYaw :: "int \<Rightarrow> real"
  imuAccX :: "int \<Rightarrow> real"
  imuAccY :: "int \<Rightarrow> real"
  imuAccZ :: "int \<Rightarrow> real"
  imuVeloX :: "int \<Rightarrow> real"
  imuVeloY :: "int \<Rightarrow> real"
  imuVeloZ :: "int \<Rightarrow> real"
  imuShiftX :: "int \<Rightarrow> real"
  imuShiftY :: "int \<Rightarrow> real"
  imuShiftZ :: "int \<Rightarrow> real"

text \<open>The initial values the source gives its file-scope variables.\<close>

definition init_globals :: globals where
  "init_globals =
     \<lparr> systemInitCount = 0, systemInited = False,
       cloudCurvature = (\<lambda>_. 0), cloudSortInd = (\<lambda>_. 0),
       cloudNeighborPicked = (\<lambda>_. 0), cloudLabel = (\<lambda>_. 0),
       imuPointerFront = 0, imuPointerLast = - 1,
       imuRollStart = 0, imuPitchStart = 0, imuYawStart = 0,
       imuRollCur = 0, imuPitchCur = 0, imuYawCur = 0,
       imuVeloXStart = 0, imuVeloYStart = 0, imuVeloZStart = 0,
       imuShiftXStart = 0, imuShiftYStart = 0, imuShiftZStart = 0,
       imuVeloXCur = 0, imuVeloYCur = 0, imuVeloZCur = 0,
       imuShiftXCur = 0, imuShiftYCur = 0, imuShiftZCur = 0,
       imuShiftFromStartXCur = 0, imuShiftFromStartYCur = 0, imuShiftFromStartZCur = 0,
       imuVeloFromStartXCur = 0, imuVeloFromStartYCur = 0, imuVeloFromStartZCur = 0,
       imuTime = (\<lambda>_. 0), imuRoll = (\<lambda>_. 0), imuPitch = (\<lambda>_. 0), imuYaw = (\<lambda>_. 0),
       imuAccX = (\<lambda>_. 0), imuAccY = (\<lambda>_. 0), imuAccZ = (\<lambda>_. 0),
       imuVeloX = (\<lambda>_. 0), imuVeloY = (\<lambda>_. 0), imuVeloZ = (\<lambda>_. 0),
       imuShiftX = (\<lambda>_. 0), imuShiftY = (\<lambda>_. 0), imuShiftZ = (\<lambda>_. 0) \<rparr>"

text \<open>
  An IMU message as \<open>imuHandler\<close> reads it: the time stamp, the roll, pitch and yaw that
  the tf library's \<open>getRPY\<close> extracts from the orientation quaternion (the library is not
  part of the repository, so its result is a field of the message), and the linear
  acceleration.
\<close>

record imu_msg =
  stamp :: real
  rpy_roll :: real
  rpy_pitch :: real
  rpy_yaw :: real
  linear_acceleration_x :: real
  linear_acceleration_y :: real
  linear_acceleration_z :: real

section \<open>The IMU ring\<close>

text \<open>\<open>AccumulateIMUShift\<close>, lines 234 to 275.\<close>

definition AccumulateIMUShift :: "globals \<Rightarrow> globals" where
  "AccumulateIMUShift g =
    (let roll = imuRoll g (imuPointerLast g);
         pitch = imuPitch g (imuPointerLast g);
         yaw = imuYaw g (imuPointerLast g);
         accX = imuAccX g (imuPointerLast g);
         accY = imuAccY g (imuPointerLast g);
         accZ = imuAccZ g (imuPointerLast g);
         x1 = cos roll * accX - sin roll * accY;
         y1 = sin roll * accX + cos roll * accY;
         z1 = accZ;
         x2 = x1;
         y2 = cos pitch * y1 - sin pitch * z1;
         z2 = sin pitch * y1 + cos pitch * z1;
         accX = cos yaw * x2 + sin yaw * z2;
         accY = y2;
         accZ = - sin yaw * x2 + cos yaw * z2;
         imuPointerBack = (imuPointerLast g + imuQueLength - 1) smod imuQueLength;
         timeDiff = imuTime g (imuPointerLast g) - imuTime g imuPointerBack
     in if timeDiff < scanPeriod then
          (let g = g\<lparr>imuShiftX := (imuShiftX g)(imuPointerLast g :=
                      imuShiftX g imuPointerBack + imuVeloX g imuPointerBack * timeDiff
                        + accX * timeDiff * timeDiff / 2)\<rparr>;
               g = g\<lparr>imuShiftY := (imuShiftY g)(imuPointerLast g :=
                      imuShiftY g imuPointerBack + imuVeloY g imuPointerBack * timeDiff
                        + accY * timeDiff * timeDiff / 2)\<rparr>;
               g = g\<lparr>imuShiftZ := (imuShiftZ g)(imuPointerLast g :=
                      imuShiftZ g imuPointerBack + imuVeloZ g imuPointerBack * timeDiff
                        + accZ * timeDiff * timeDiff / 2)\<rparr>;
               g = g\<lparr>imuVeloX := (imuVeloX g)(imuPointerLast g :=
                      imuVeloX g imuPointerBack + accX * timeDiff)\<rparr>;
               g = g\<lparr>imuVeloY := (imuVeloY g)(imuPointerLast g :=
                      imuVeloY g imuPointerBack + accY * timeDiff)\<rparr>;
               g = g\<lparr>imuVeloZ := (imuVeloZ g)(imuPointerLast g :=
                      imuVeloZ g imuPointerBack + accZ * timeDiff)\<rparr>
           in g)
        else g)"

text \<open>\<open>imuHandler\<close>, lines 772 to 799.\<close>

definition imuHandler :: "imu_msg \<Rightarrow> globals \<Rightarrow> globals" where
  "imuHandler imuIn g =
    (let roll = rpy_roll imuIn;
         pitch = rpy_pitch imuIn;
         yaw = rpy_yaw imuIn;
         accX = linear_acceleration_y imuIn - sin roll * cos pitch * 9.81;
         accY = linear_acceleration_z imuIn - cos roll * cos pitch * 9.81;
         accZ = linear_acceleration_x imuIn + sin pitch * 9.81;
         g = g\<lparr>imuPointerLast := (imuPointerLast g + 1) smod imuQueLength\<rparr>;
         g = g\<lparr>imuTime := (imuTime g)(imuPointerLast g := stamp imuIn)\<rparr>;
         g = g\<lparr>imuRoll := (imuRoll g)(imuPointerLast g := roll)\<rparr>;
         g = g\<lparr>imuPitch := (imuPitch g)(imuPointerLast g := pitch)\<rparr>;
         g = g\<lparr>imuYaw := (imuYaw g)(imuPointerLast g := yaw)\<rparr>;
         g = g\<lparr>imuAccX := (imuAccX g)(imuPointerLast g := accX)\<rparr>;
         g = g\<lparr>imuAccY := (imuAccY g)(imuPointerLast g := accY)\<rparr>;
         g = g\<lparr>imuAccZ := (imuAccZ g)(imuPointerLast g := accZ)\<rparr>
     in AccumulateIMUShift g)"

text \<open>The single-threaded dispatcher delivering a sequence of IMU messages in order.\<close>

definition imuRun :: "imu_msg list \<Rightarrow> globals \<Rightarrow> globals" where
  "imuRun msgs g = fold imuHandler msgs g"

text \<open>
  The rotation the specification names for the stored acceleration,
  \<open>Ry(yaw) \<cdot> Rx(pitch) \<cdot> Rz(roll)\<close>, written from the standard rotation matrices about the
  z, x and y axes.  It is compared below with what \<open>AccumulateIMUShift\<close> computes.
\<close>

type_synonym vec3 = "real \<times> real \<times> real"

definition Rz :: "real \<Rightarrow> vec3 \<Rightarrow> vec3" where
  "Rz a v = (case v of (x, y, z) \<Rightarrow> (cos a * x - sin a * y, sin a * x + cos a * y, z))"

definition Rx :: "real \<Rightarrow> vec3 \<Rightarrow> vec3" where
  "Rx a v = (case v of (x, y, z) \<Rightarrow> (x, cos a * y - sin a * z, sin a * y + cos a * z))"

definition Ry :: "real \<Rightarrow> vec3 \<Rightarrow> vec3" where
  "Ry a v = (case v of (x, y, z) \<Rightarrow> (cos a * x + sin a * z, y, - sin a * x + cos a * z))"

definition accWorld :: "globals \<Rightarrow> int \<Rightarrow> vec3" where
  "accWorld g i = Ry (imuYaw g i) (Rx (imuPitch g i) (Rz (imuRoll g i)
                    (imuAccX g i, imuAccY g i, imuAccZ g i)))"

text \<open>The ring cursor is \<open>-1\<close> before the first sample and a slot number afterwards.\<close>

definition ring_ok :: "globals \<Rightarrow> bool" where
  "ring_ok g \<longleftrightarrow> - 1 \<le> imuPointerLast g \<and> imuPointerLast g < imuQueLength"

text \<open>
  An IMU message of a platform with identity orientation whose acceleration, once gravity
  is removed and the axes are swapped, is \<open>(ax, ay, az)\<close>.
\<close>

definition levelMsg :: "real \<Rightarrow> vec3 \<Rightarrow> imu_msg" where
  "levelMsg t a = (case a of (ax, ay, az) \<Rightarrow>
     \<lparr> stamp = t, rpy_roll = 0, rpy_pitch = 0, rpy_yaw = 0,
       linear_acceleration_x = az, linear_acceleration_y = ax,
       linear_acceleration_z = ay + 9.81 \<rparr>)"

text \<open>
  The slot before the newest one, and the time between the two, as \<open>AccumulateIMUShift\<close>
  computes them (lines 258 and 260).
\<close>

definition imuBack :: "globals \<Rightarrow> int" where
  "imuBack g = (imuPointerLast g + imuQueLength - 1) smod imuQueLength"

definition imuDt :: "globals \<Rightarrow> real" where
  "imuDt g = imuTime g (imuPointerLast g) - imuTime g (imuBack g)"

text \<open>The first half of \<open>imuHandler\<close> (lines 783 to 796) as one record update.\<close>

definition imuStore :: "imu_msg \<Rightarrow> globals \<Rightarrow> globals" where
  "imuStore m g = (let l = (imuPointerLast g + 1) smod imuQueLength in
     g\<lparr>imuPointerLast := l,
       imuTime := (imuTime g)(l := stamp m),
       imuRoll := (imuRoll g)(l := rpy_roll m),
       imuPitch := (imuPitch g)(l := rpy_pitch m),
       imuYaw := (imuYaw g)(l := rpy_yaw m),
       imuAccX := (imuAccX g)(l := linear_acceleration_y m - sin (rpy_roll m) * cos (rpy_pitch m) * 9.81),
       imuAccY := (imuAccY g)(l := linear_acceleration_z m - cos (rpy_roll m) * cos (rpy_pitch m) * 9.81),
       imuAccZ := (imuAccZ g)(l := linear_acceleration_x m + sin (rpy_pitch m) * 9.81)\<rparr>)"

text \<open>
  \<open>n\<close> messages of a level platform with constant acceleration, spaced \<open>dt\<close> apart,
  the first one \<open>dt\<close> after \<open>t0\<close>.
\<close>

definition levelRun :: "real \<Rightarrow> real \<Rightarrow> vec3 \<Rightarrow> nat \<Rightarrow> imu_msg list" where
  "levelRun t0 dt a n = map (\<lambda>k. levelMsg (t0 + real k * dt) a) [1..<Suc n]"

text \<open>
  Concrete inputs: the state after one message at time 1000 s, and a run of 202 messages
  in which the second one is integrated and every later one follows a gap of one second,
  so that the last message falls on the slot of the second.
\<close>

definition firstSample :: globals where
  "firstSample = imuHandler (levelMsg 1000 (1, 0, 0)) init_globals"

definition staleRun :: "imu_msg list" where
  "staleRun = levelMsg 1000 (1, 0, 0) # levelMsg (1000 + 1 / 20) (1, 0, 0)
                # levelRun (1000 + 1 / 20) 1 (1, 0, 0) 200"

text \<open>
  A message of a platform rolled by a quarter turn whose acceleration, once gravity is
  removed and the axes are swapped, is \<open>(1, 2, 3)\<close> in the body frame; the state one
  such message 0.05 s after \<open>firstSample\<close>; and that state after 199 further messages one
  second apart, so that the cursor is on slot 0 and the next message falls on slot 1 again.
\<close>

definition rolledMsg :: "real \<Rightarrow> imu_msg" where
  "rolledMsg t = \<lparr> stamp = t, rpy_roll = pi / 2, rpy_pitch = 0, rpy_yaw = 0,
       linear_acceleration_x = 3, linear_acceleration_y = 1 + 9.81,
       linear_acceleration_z = 2 \<rparr>"

definition rolledSample :: globals where
  "rolledSample = imuHandler (rolledMsg (1000 + 1 / 20)) firstSample"

definition wrappedRing :: globals where
  "wrappedRing = imuRun (levelRun (1000 + 1 / 20) 1 (1, 0, 0) 199) rolledSample"


section \<open>Points and the C library\<close>

text \<open>
  \<open>pcl::PointXYZ\<close> and \<open>PointType\<close> (\<open>pcl::PointXYZI\<close>, from common.h).  The field names are
  those of the source.
\<close>

record PointXYZ =
  x :: real
  y :: real
  z :: real

record PointType = PointXYZ +
  intensity :: real

text \<open>
  The C library's \<open>atan2\<close> on finite arguments, by the usual case distinction on the
  quadrant (signed zeros are not modelled), and the conversion \<open>int(...)\<close> of a floating
  value, which truncates towards zero.
\<close>

definition atan2 :: "real \<Rightarrow> real \<Rightarrow> real" where
  "atan2 b a =
     (if 0 < a then arctan (b / a)
      else if a < 0 \<and> 0 \<le> b then arctan (b / a) + pi
      else if a < 0 then arctan (b / a) - pi
      else if 0 < b then pi / 2
      else if b < 0 then - pi / 2
      else 0)"

definition c_int :: "real \<Rightarrow> int" where
  "c_int r = (if 0 \<le> r then \<lfloor>r\<rfloor> else \<lceil>r\<rceil>)"

section \<open>Binary floating point\<close>

text \<open>
  Where a statement is decided by the rounding of the source, the lines concerned are
  modelled a second time with every \<open>float\<close> operation rounded to binary32 and every
  \<open>double\<close> operation rounded to binary64; these definitions carry the suffix \<open>Float\<close>.
\<close>

text \<open>
  Rounding to the nearest integer, ties to the even one, and rounding of a real number to
  the nearest binary floating-point number with \<open>p\<close> significant bits and least exponent
  \<open>emin\<close> (IEEE 754 roundTiesToEven, subnormal numbers included; overflow does not occur
  for the angles below).
\<close>

definition roundEven :: "real \<Rightarrow> int" where
  "roundEven r = (let f = \<lfloor>r\<rfloor> in
     if r - of_int f < 1 / 2 then f
     else if 1 / 2 < r - of_int f then f + 1
     else if even f then f else f + 1)"

definition roundTo :: "nat \<Rightarrow> int \<Rightarrow> real \<Rightarrow> real" where
  "roundTo p emin r = (if r = 0 then 0 else
     let e = max \<lfloor>log 2 \<bar>r\<bar>\<rfloor> emin;
         u = 2 powr of_int (e + 1 - int p)
     in of_int (roundEven (r / u)) * u)"

definition fl32 :: "real \<Rightarrow> real" where
  "fl32 = roundTo 24 (- 126)"

definition fl64 :: "real \<Rightarrow> real" where
  "fl64 = roundTo 53 (- 1022)"

text \<open>The constant \<open>M_PI\<close> of math.h, the binary64 number nearest to \<open>pi\<close>.\<close>

definition M_PI :: real where
  "M_PI = 884279719003555 / 281474976710656"

text \<open>
  \<open>std::atan2\<close>, \<open>std::sin\<close> and \<open>std::cos\<close> on \<open>float\<close> arguments, taken to return the binary32
  number nearest to the exact value.
\<close>

definition atan2f :: "real \<Rightarrow> real \<Rightarrow> real" where
  "atan2f b a = fl32 (atan2 b a)"



section \<open>Motion compensation\<close>

text \<open>\<open>ShiftToStartIMU\<close>, lines 133 to 160.\<close>

definition ShiftToStartIMU :: "real \<Rightarrow> globals \<Rightarrow> globals" where
  "ShiftToStartIMU pointTime g =
    (let g = g\<lparr>imuShiftFromStartXCur := imuShiftXCur g - imuShiftXStart g - imuVeloXStart g * pointTime\<rparr>;
         g = g\<lparr>imuShiftFromStartYCur := imuShiftYCur g - imuShiftYStart g - imuVeloYStart g * pointTime\<rparr>;
         g = g\<lparr>imuShiftFromStartZCur := imuShiftZCur g - imuShiftZStart g - imuVeloZStart g * pointTime\<rparr>;
         x1 = cos (imuYawStart g) * imuShiftFromStartXCur g - sin (imuYawStart g) * imuShiftFromStartZCur g;
         y1 = imuShiftFromStartYCur g;
         z1 = sin (imuYawStart g) * imuShiftFromStartXCur g + cos (imuYawStart g) * imuShiftFromStartZCur g;
         x2 = x1;
         y2 = cos (imuPitchStart g) * y1 + sin (imuPitchStart g) * z1;
         z2 = - sin (imuPitchStart g) * y1 + cos (imuPitchStart g) * z1;
         g = g\<lparr>imuShiftFromStartXCur := cos (imuRollStart g) * x2 + sin (imuRollStart g) * y2\<rparr>;
         g = g\<lparr>imuShiftFromStartYCur := - sin (imuRollStart g) * x2 + cos (imuRollStart g) * y2\<rparr>;
         g = g\<lparr>imuShiftFromStartZCur := z2\<rparr>
     in g)"

text \<open>\<open>VeloToStartIMU\<close>, lines 163 to 189.\<close>

definition VeloToStartIMU :: "globals \<Rightarrow> globals" where
  "VeloToStartIMU g =
    (let g = g\<lparr>imuVeloFromStartXCur := imuVeloXCur g - imuVeloXStart g\<rparr>;
         g = g\<lparr>imuVeloFromStartYCur := imuVeloYCur g - imuVeloYStart g\<rparr>;
         g = g\<lparr>imuVeloFromStartZCur := imuVeloZCur g - imuVeloZStart g\<rparr>;
         x1 = cos (imuYawStart g) * imuVeloFromStartXCur g - sin (imuYawStart g) * imuVeloFromStartZCur g;
         y1 = imuVeloFromStartYCur g;
         z1 = sin (imuYawStart g) * imuVeloFromStartXCur g + cos (imuYawStart g) * imuVeloFromStartZCur g;
         x2 = x1;
         y2 = cos (imuPitchStart g) * y1 + sin (imuPitchStart g) * z1;
         z2 = - sin (imuPitchStart g) * y1 + cos (imuPitchStart g) * z1;
         g = g\<lparr>imuVeloFromStartXCur := cos (imuRollStart g) * x2 + sin (imuRollStart g) * y2\<rparr>;
         g = g\<lparr>imuVeloFromStartYCur := - sin (imuRollStart g) * x2 + cos (imuRollStart g) * y2\<rparr>;
         g = g\<lparr>imuVeloFromStartZCur := z2\<rparr>
     in g)"

text \<open>
  \<open>TransformToStartIMU\<close>, lines 192 to 231.  The source overwrites the point it is handed;
  the model returns the new point.
\<close>

definition TransformToStartIMU :: "PointType \<Rightarrow> globals \<Rightarrow> PointType" where
  "TransformToStartIMU p g =
    (let x1 = cos (imuRollCur g) * x p - sin (imuRollCur g) * y p;
         y1 = sin (imuRollCur g) * x p + cos (imuRollCur g) * y p;
         z1 = z p;
         x2 = x1;
         y2 = cos (imuPitchCur g) * y1 - sin (imuPitchCur g) * z1;
         z2 = sin (imuPitchCur g) * y1 + cos (imuPitchCur g) * z1;
         x3 = cos (imuYawCur g) * x2 + sin (imuYawCur g) * z2;
         y3 = y2;
         z3 = - sin (imuYawCur g) * x2 + cos (imuYawCur g) * z2;
         x4 = cos (imuYawStart g) * x3 - sin (imuYawStart g) * z3;
         y4 = y3;
         z4 = sin (imuYawStart g) * x3 + cos (imuYawStart g) * z3;
         x5 = x4;
         y5 = cos (imuPitchStart g) * y4 + sin (imuPitchStart g) * z4;
         z5 = - sin (imuPitchStart g) * y4 + cos (imuPitchStart g) * z4
     in p\<lparr>x := cos (imuRollStart g) * x5 + sin (imuRollStart g) * y5 + imuShiftFromStartXCur g,
          y := - sin (imuRollStart g) * x5 + cos (imuRollStart g) * y5 + imuShiftFromStartYCur g,
          z := z5 + imuShiftFromStartZCur g\<rparr>)"






section \<open>The sweep callback: azimuth framing\<close>

text \<open>
  Reading element \<open>i\<close> of a \<open>std::vector\<close> with \<open>operator[]\<close>.  Outside the vector the
  behaviour of the program is undefined; the model returns \<open>None\<close> there, and \<open>None\<close>
  propagates to the result of the callback.
\<close>

definition points_at :: "'a list \<Rightarrow> int \<Rightarrow> 'a option" where
  "points_at ps i = (if 0 \<le> i \<and> i < int (length ps) then Some (ps ! nat i) else None)"

text \<open>Lines 310 to 314: the single correction of \<open>endOri\<close>.\<close>

definition normalizeEndOri :: "real \<Rightarrow> real \<Rightarrow> real" where
  "normalizeEndOri startOri endOri =
     (if endOri - startOri > 3 * pi then endOri - 2 * pi
      else if endOri - startOri < pi then endOri + 2 * pi
      else endOri)"

text \<open>Lines 301 to 314: \<open>startOri\<close> and the corrected \<open>endOri\<close> of a cloud.\<close>

definition azimuthFraming :: "PointXYZ list \<Rightarrow> (real \<times> real) option" where
  "azimuthFraming laserCloudIn =
     do {
       let cloudSize = int (length laserCloudIn);
       p0 \<leftarrow> points_at laserCloudIn 0;
       pN \<leftarrow> points_at laserCloudIn (cloudSize - 1);
       let startOri = - atan2 (y p0) (x p0);
       let endOri = - atan2 (y pN) (x pN) + 2 * pi;
       Some (startOri, normalizeEndOri startOri endOri)
     }"

text \<open>
  Lines 301 to 314 with the roundings of the source: \<open>startOri\<close> and \<open>endOri\<close> are \<open>float\<close>,
  \<open>2 * M_PI\<close> and \<open>3 * M_PI\<close> are \<open>double\<close> products, a \<open>float\<close> and a \<open>double\<close> are added
  in \<open>double\<close> and the sum is rounded again when it is stored in \<open>endOri\<close>, and
  \<open>endOri - startOri\<close> is a \<open>float\<close> difference.
\<close>

definition azimuthFramingFloat :: "PointXYZ list \<Rightarrow> (real \<times> real) option" where
  "azimuthFramingFloat laserCloudIn =
     do {
       let cloudSize = int (length laserCloudIn);
       p0 \<leftarrow> points_at laserCloudIn 0;
       pN \<leftarrow> points_at laserCloudIn (cloudSize - 1);
       let startOri = - atan2f (y p0) (x p0);
       let endOri = fl32 (fl64 (- atan2f (y pN) (x pN) + fl64 (2 * M_PI)));
       let endOri =
         (if fl32 (endOri - startOri) > fl64 (3 * M_PI) then fl32 (fl64 (endOri - fl64 (2 * M_PI)))
          else if fl32 (endOri - startOri) < M_PI then fl32 (fl64 (endOri + fl64 (2 * M_PI)))
          else endOri);
       Some (startOri, endOri)
     }"

text \<open>A raw point by its sensor coordinates.\<close>

definition rayPoint :: "real \<Rightarrow> real \<Rightarrow> real \<Rightarrow> PointXYZ" where
  "rayPoint a b c = \<lparr>x = a, y = b, z = c\<rparr>"

section \<open>The sweep callback: loops and checked accesses\<close>

text \<open>
  The \<open>for\<close> loops of the source.  A loop body returns \<open>None\<close> when it leaves an array,
  \<open>Some (Next s)\<close> to go on with the next index and \<open>Some (Break s)\<close> when it executes
  \<open>break\<close>.  \<open>for_lt i n\<close> is \<open>for (; i < n; i++)\<close>, \<open>for_le i n\<close> is \<open>for (; i <= n; i++)\<close>
  and \<open>for_ge i n\<close> is \<open>for (; i >= n; i--)\<close>.
\<close>

datatype 's ctl = Next 's | Break 's

function for_lt :: "int \<Rightarrow> int \<Rightarrow> (int \<Rightarrow> 's \<Rightarrow> 's ctl option) \<Rightarrow> 's \<Rightarrow> 's option" where
  "for_lt i n body s =
     (if i < n then
        (case body i s of
           None \<Rightarrow> None
         | Some (Break s') \<Rightarrow> Some s'
         | Some (Next s') \<Rightarrow> for_lt (i + 1) n body s')
      else Some s)"
  by pat_completeness auto
termination
  by (relation "measure (\<lambda>(i, n, body, s). nat (n - i))") auto

function for_le :: "int \<Rightarrow> int \<Rightarrow> (int \<Rightarrow> 's \<Rightarrow> 's ctl option) \<Rightarrow> 's \<Rightarrow> 's option" where
  "for_le i n body s =
     (if i \<le> n then
        (case body i s of
           None \<Rightarrow> None
         | Some (Break s') \<Rightarrow> Some s'
         | Some (Next s') \<Rightarrow> for_le (i + 1) n body s')
      else Some s)"
  by pat_completeness auto
termination
  by (relation "measure (\<lambda>(i, n, body, s). nat (n + 1 - i))") auto

function for_ge :: "int \<Rightarrow> int \<Rightarrow> (int \<Rightarrow> 's \<Rightarrow> 's ctl option) \<Rightarrow> 's \<Rightarrow> 's option" where
  "for_ge i n body s =
     (if i \<ge> n then
        (case body i s of
           None \<Rightarrow> None
         | Some (Break s') \<Rightarrow> Some s'
         | Some (Next s') \<Rightarrow> for_ge (i - 1) n body s')
      else Some s)"
  by pat_completeness auto
termination
  by (relation "measure (\<lambda>(i, n, body, s). nat (i + 1 - n))") auto

text \<open>
  The scratch arrays \<open>cloudCurvature\<close>, \<open>cloudSortInd\<close>, \<open>cloudNeighborPicked\<close> and
  \<open>cloudLabel\<close> have 40000 elements, the ring arrays \<open>imuQueLength\<close>.
\<close>

definition scratch_rd :: "(int \<Rightarrow> 'a) \<Rightarrow> int \<Rightarrow> 'a option" where
  "scratch_rd a i = (if 0 \<le> i \<and> i < 40000 then Some (a i) else None)"

definition scratch_wr :: "(int \<Rightarrow> 'a) \<Rightarrow> int \<Rightarrow> 'a \<Rightarrow> (int \<Rightarrow> 'a) option" where
  "scratch_wr a i v = (if 0 \<le> i \<and> i < 40000 then Some (a(i := v)) else None)"

definition ring_rd :: "(int \<Rightarrow> 'a) \<Rightarrow> int \<Rightarrow> 'a option" where
  "ring_rd a i = (if 0 \<le> i \<and> i < imuQueLength then Some (a i) else None)"

section \<open>The sweep callback: ingestion (lines 316 to 442)\<close>

text \<open>
  The message as the callback sees it after \<open>pcl::fromROSMsg\<close>: the time stamp and the
  points, where \<open>None\<close> stands for a point with a coordinate that is not finite.
  \<open>removeNaNFromPointCloud\<close> belongs to the PCL library; it keeps the finite points in
  their order.
\<close>

record sweep_msg =
  header_stamp :: real
  raw_points :: "PointXYZ option list"

definition removeNaNFromPointCloud :: "PointXYZ option list \<Rightarrow> PointXYZ list" where
  "removeNaNFromPointCloud ps = List.map_filter (\<lambda>p. p) ps"

text \<open>
  The loop \<open>while (imuPointerFront != imuPointerLast)\<close> of lines 376 to 381.  It has no
  bound of its own, so the model is a partial function: \<open>None\<close> is a read outside the
  ring or a loop that does not end.
\<close>

partial_function (option) advanceFront :: "real \<Rightarrow> globals \<Rightarrow> globals option" where
  "advanceFront t g =
     (if imuPointerFront g \<noteq> imuPointerLast g then
        (case ring_rd (imuTime g) (imuPointerFront g) of
           None \<Rightarrow> None
         | Some tf \<Rightarrow>
             if t < tf then Some g
             else advanceFront t
                    (g\<lparr>imuPointerFront := (imuPointerFront g + 1) smod imuQueLength\<rparr>))
      else Some g)"

text \<open>
  Lines 383 to 421: the IMU state at time \<open>t = timeScanCur + pointTime\<close>, either the newest
  sample or the interpolation between two samples.
\<close>

definition imuStateAt :: "real \<Rightarrow> globals \<Rightarrow> globals option" where
  "imuStateAt t g =
     do {
       let f = imuPointerFront g;
       tf \<leftarrow> ring_rd (imuTime g) f;
       if t > tf then
         Some (g\<lparr>imuRollCur := imuRoll g f, imuPitchCur := imuPitch g f, imuYawCur := imuYaw g f,
                 imuVeloXCur := imuVeloX g f, imuVeloYCur := imuVeloY g f,
                 imuVeloZCur := imuVeloZ g f,
                 imuShiftXCur := imuShiftX g f, imuShiftYCur := imuShiftY g f,
                 imuShiftZCur := imuShiftZ g f\<rparr>)
       else do {
         let b = (imuPointerFront g + imuQueLength - 1) smod imuQueLength;
         tb \<leftarrow> ring_rd (imuTime g) b;
         let ratioFront = (t - tb) / (tf - tb);
         let ratioBack = (tf - t) / (tf - tb);
         let yaw = (if imuYaw g f - imuYaw g b > pi
                    then imuYaw g f * ratioFront + (imuYaw g b + 2 * pi) * ratioBack
                    else if imuYaw g f - imuYaw g b < - pi
                    then imuYaw g f * ratioFront + (imuYaw g b - 2 * pi) * ratioBack
                    else imuYaw g f * ratioFront + imuYaw g b * ratioBack);
         Some (g\<lparr>imuRollCur := imuRoll g f * ratioFront + imuRoll g b * ratioBack,
                 imuPitchCur := imuPitch g f * ratioFront + imuPitch g b * ratioBack,
                 imuYawCur := yaw,
                 imuVeloXCur := imuVeloX g f * ratioFront + imuVeloX g b * ratioBack,
                 imuVeloYCur := imuVeloY g f * ratioFront + imuVeloY g b * ratioBack,
                 imuVeloZCur := imuVeloZ g f * ratioFront + imuVeloZ g b * ratioBack,
                 imuShiftXCur := imuShiftX g f * ratioFront + imuShiftX g b * ratioBack,
                 imuShiftYCur := imuShiftY g f * ratioFront + imuShiftY g b * ratioBack,
                 imuShiftZCur := imuShiftZ g f * ratioFront + imuShiftZ g b * ratioBack\<rparr>)
       }
     }"

text \<open>Lines 424 to 434: the first-point latch.\<close>

definition latchStart :: "globals \<Rightarrow> globals" where
  "latchStart g =
     g\<lparr>imuRollStart := imuRollCur g, imuPitchStart := imuPitchCur g, imuYawStart := imuYawCur g,
       imuVeloXStart := imuVeloXCur g, imuVeloYStart := imuVeloYCur g,
       imuVeloZStart := imuVeloZCur g,
       imuShiftXStart := imuShiftXCur g, imuShiftYStart := imuShiftYCur g,
       imuShiftZStart := imuShiftZCur g\<rparr>"

text \<open>Lines 373 to 440: the body of \<open>if (imuPointerLast >= 0)\<close> for point number \<open>i\<close>.\<close>

definition imuCompensate ::
    "real \<Rightarrow> real \<Rightarrow> int \<Rightarrow> PointType \<Rightarrow> globals \<Rightarrow> (globals \<times> PointType) option" where
  "imuCompensate timeScanCur relTime i point g =
     do {
       let pointTime = relTime * scanPeriod;
       g \<leftarrow> advanceFront (timeScanCur + pointTime) g;
       g \<leftarrow> imuStateAt (timeScanCur + pointTime) g;
       if i = 0 then Some (latchStart g, point)
       else do {
         let g = ShiftToStartIMU pointTime g;
         let g = VeloToStartIMU g;
         Some (g, TransformToStartIMU point g)
       }
     }"

text \<open>
  Line 327: \<open>atan(point.y / sqrt(point.x * point.x + point.z * point.z)) * 180 / M_PI\<close>.  When
  the point lies on the vertical axis the quotient is an IEEE infinity and \<open>atan\<close> returns
  a right angle; at the origin it is not a number, and its conversion to \<open>int\<close> in line 330
  is undefined, which the model renders as \<open>None\<close>.
\<close>

definition elevationAngle :: "PointType \<Rightarrow> real option" where
  "elevationAngle point =
     (let r = sqrt (x point * x point + z point * z point) in
      if r = 0 then
        (if y point > 0 then Some (pi / 2 * 180 / pi)
         else if y point < 0 then Some (- (pi / 2) * 180 / pi)
         else None)
      else Some (arctan (y point / r) * 180 / pi))"

text \<open>Lines 328 to 336: the beam index of an elevation angle.\<close>

definition scanIDOf :: "real \<Rightarrow> int" where
  "scanIDOf angle =
     (let roundedAngle = c_int (angle + (if angle < 0.0 then - 0.5 else 0.5)) in
      if roundedAngle > 0 then roundedAngle else roundedAngle + (N_SCANS - 1))"

text \<open>Lines 344 to 365: the azimuth of a point and the \<open>halfPassed\<close> latch.\<close>

definition azimuthOf :: "real \<Rightarrow> real \<Rightarrow> bool \<Rightarrow> PointType \<Rightarrow> real \<times> bool" where
  "azimuthOf startOri endOri halfPassed point =
     (let ori = - atan2 (x point) (z point) in
      if \<not> halfPassed then
        (let ori = (if ori < startOri - pi / 2 then ori + 2 * pi
                    else if ori > startOri + pi * 3 / 2 then ori - 2 * pi
                    else ori)
         in (ori, ori - startOri > pi))
      else
        (let ori = ori + 2 * pi;
             ori = (if ori < endOri - pi * 3 / 2 then ori + 2 * pi
                    else if ori > endOri + pi / 2 then ori - 2 * pi
                    else ori)
         in (ori, True)))"

text \<open>The locals of the ingestion loop that outlive one iteration.\<close>

record ingest =
  halfPassed :: bool
  count :: int
  laserCloudScans :: "int \<Rightarrow> PointType list"

text \<open>Lines 320 to 442: one iteration of the loop over the raw points.\<close>

definition ingestPoint ::
    "real \<Rightarrow> real \<Rightarrow> real \<Rightarrow> int \<Rightarrow> PointXYZ \<Rightarrow> globals \<times> ingest \<Rightarrow> (globals \<times> ingest) option" where
  "ingestPoint timeScanCur startOri endOri i pin gs =
     (case gs of (g, st) \<Rightarrow>
     do {
       let point = \<lparr>x = y pin, y = z pin, z = x pin, intensity = 0\<rparr>;
       angle \<leftarrow> elevationAngle point;
       let scanID = scanIDOf angle;
       if scanID > (N_SCANS - 1) \<or> scanID < 0 then Some (g, st\<lparr>count := count st - 1\<rparr>)
       else do {
         let (ori, hp) = azimuthOf startOri endOri (halfPassed st) point;
         let relTime = (ori - startOri) / (endOri - startOri);
         let point = point\<lparr>intensity := real_of_int scanID + scanPeriod * relTime\<rparr>;
         (g, point) \<leftarrow> (if imuPointerLast g \<ge> 0
                          then imuCompensate timeScanCur relTime i point g
                          else Some (g, point));
         Some (g, st\<lparr>halfPassed := hp,
                      laserCloudScans := (laserCloudScans st)
                         (scanID := laserCloudScans st scanID @ [point])\<rparr>)
       }
     })"

fun ingestLoop ::
    "real \<Rightarrow> real \<Rightarrow> real \<Rightarrow> int \<Rightarrow> PointXYZ list \<Rightarrow> globals \<times> ingest \<Rightarrow> (globals \<times> ingest) option" where
  "ingestLoop timeScanCur startOri endOri i [] gs = Some gs"
| "ingestLoop timeScanCur startOri endOri i (pin # rest) gs =
     (case ingestPoint timeScanCur startOri endOri i pin gs of
        None \<Rightarrow> None
      | Some gs' \<Rightarrow> ingestLoop timeScanCur startOri endOri (i + 1) rest gs')"

text \<open>Lines 293 to 442: the callback from the NaN filter to the end of the ingestion loop.\<close>

definition ingestSweep :: "sweep_msg \<Rightarrow> globals \<Rightarrow> (globals \<times> ingest) option" where
  "ingestSweep laserCloudMsg g =
     do {
       let timeScanCur = header_stamp laserCloudMsg;
       let laserCloudIn = removeNaNFromPointCloud (raw_points laserCloudMsg);
       let cloudSize = int (length laserCloudIn);
       (startOri, endOri) \<leftarrow> azimuthFraming laserCloudIn;
       ingestLoop timeScanCur startOri endOri 0 laserCloudIn
         (g, \<lparr>halfPassed = False, count = cloudSize, laserCloudScans = (\<lambda>_. [])\<rparr>)
     }"

text \<open>
  Concrete inputs.  \<open>tiltedSample\<close> is the state after one IMU message with a roll of 0.1 rad.
  \<open>steepFirstSweep\<close> is a sweep of one point that is not finite, one point at 45 degrees of
  elevation and one point in the horizontal plane.  \<open>backwardSweep\<close> is a sweep of three
  points in the horizontal plane, the second one 45 degrees of azimuth behind the first.
\<close>

definition tiltedSample :: globals where
  "tiltedSample = imuHandler \<lparr>stamp = 5, rpy_roll = 1 / 10, rpy_pitch = 0, rpy_yaw = 0,
      linear_acceleration_x = 0, linear_acceleration_y = 0, linear_acceleration_z = 981 / 100\<rparr>
      init_globals"

definition steepFirstSweep :: sweep_msg where
  "steepFirstSweep = \<lparr>header_stamp = 10,
      raw_points = [None, Some (rayPoint 1 0 1), Some (rayPoint 1 0 0)]\<rparr>"

definition backwardSweep :: sweep_msg where
  "backwardSweep = \<lparr>header_stamp = 10,
      raw_points = [Some (rayPoint 1 0 0), Some (rayPoint 1 1 0), Some (rayPoint 1 0 0)]\<rparr>"

section \<open>The sweep callback: curvature and the two filters (lines 447 to 562)\<close>

text \<open>The locals \<open>scanStartInd\<close>, \<open>scanEndInd\<close> (vectors of \<open>N_SCANS\<close> zeros) and \<open>scanCount\<close>.\<close>

record beams =
  scanStartInd :: "int \<Rightarrow> int"
  scanEndInd :: "int \<Rightarrow> int"
  scanCount :: int

text \<open>Lines 452 to 490: one iteration of the curvature loop.\<close>

definition curvatureBody :: "PointType list \<Rightarrow> int \<Rightarrow> globals \<times> beams \<Rightarrow> (globals \<times> beams) ctl option" where
  "curvatureBody laserCloud i gb =
     (case gb of (g, b) \<Rightarrow>
     do {
       a5 \<leftarrow> points_at laserCloud (i - 5);
       a4 \<leftarrow> points_at laserCloud (i - 4);
       a3 \<leftarrow> points_at laserCloud (i - 3);
       a2 \<leftarrow> points_at laserCloud (i - 2);
       a1 \<leftarrow> points_at laserCloud (i - 1);
       p \<leftarrow> points_at laserCloud i;
       b1 \<leftarrow> points_at laserCloud (i + 1);
       b2 \<leftarrow> points_at laserCloud (i + 2);
       b3 \<leftarrow> points_at laserCloud (i + 3);
       b4 \<leftarrow> points_at laserCloud (i + 4);
       b5 \<leftarrow> points_at laserCloud (i + 5);
       let diffX = x a5 + x a4 + x a3 + x a2 + x a1 - 10 * x p
                   + x b1 + x b2 + x b3 + x b4 + x b5;
       let diffY = y a5 + y a4 + y a3 + y a2 + y a1 - 10 * y p
                   + y b1 + y b2 + y b3 + y b4 + y b5;
       let diffZ = z a5 + z a4 + z a3 + z a2 + z a1 - 10 * z p
                   + z b1 + z b2 + z b3 + z b4 + z b5;
       cc \<leftarrow> scratch_wr (cloudCurvature g) i (diffX * diffX + diffY * diffY + diffZ * diffZ);
       si \<leftarrow> scratch_wr (cloudSortInd g) i i;
       np \<leftarrow> scratch_wr (cloudNeighborPicked g) i 0;
       lb \<leftarrow> scratch_wr (cloudLabel g) i 0;
       let g = g\<lparr>cloudCurvature := cc, cloudSortInd := si, cloudNeighborPicked := np,
                  cloudLabel := lb\<rparr>;
       let b = (if c_int (intensity p) \<noteq> scanCount b then
                  (let b = b\<lparr>scanCount := c_int (intensity p)\<rparr> in
                   if scanCount b > 0 \<and> scanCount b < N_SCANS then
                     b\<lparr>scanStartInd := (scanStartInd b)(scanCount b := i + 5),
                       scanEndInd := (scanEndInd b)(scanCount b - 1 := i - 5)\<rparr>
                   else b)
                else b);
       Some (Next (g, b))
     })"

text \<open>The assignment \<open>cloudNeighborPicked[i] = 1\<close>.\<close>

definition mark_picked :: "int \<Rightarrow> globals \<Rightarrow> globals option" where
  "mark_picked i g =
     do {
       np \<leftarrow> scratch_wr (cloudNeighborPicked g) i 1;
       Some (g\<lparr>cloudNeighborPicked := np\<rparr>)
     }"

text \<open>Lines 497 to 561: one iteration of the occlusion and outlier filter.\<close>

definition occlusionBody :: "PointType list \<Rightarrow> int \<Rightarrow> globals \<Rightarrow> globals ctl option" where
  "occlusionBody laserCloud i g =
     do {
       p1 \<leftarrow> points_at laserCloud (i + 1);
       p \<leftarrow> points_at laserCloud i;
       let diffX = x p1 - x p;
       let diffY = y p1 - y p;
       let diffZ = z p1 - z p;
       let diff = diffX * diffX + diffY * diffY + diffZ * diffZ;
       g \<leftarrow> (if diff > 0.1 then
               (let depth1 = sqrt (x p * x p + y p * y p + z p * z p);
                    depth2 = sqrt (x p1 * x p1 + y p1 * y p1 + z p1 * z p1)
                in if depth1 > depth2 then
                     (let diffX = x p1 - x p * depth2 / depth1;
                          diffY = y p1 - y p * depth2 / depth1;
                          diffZ = z p1 - z p * depth2 / depth1
                      in if sqrt (diffX * diffX + diffY * diffY + diffZ * diffZ) / depth2 < 0.1 then
                           do {
                             g \<leftarrow> mark_picked (i - 5) g;
                             g \<leftarrow> mark_picked (i - 4) g;
                             g \<leftarrow> mark_picked (i - 3) g;
                             g \<leftarrow> mark_picked (i - 2) g;
                             g \<leftarrow> mark_picked (i - 1) g;
                             mark_picked i g
                           }
                         else Some g)
                   else
                     (let diffX = x p1 * depth1 / depth2 - x p;
                          diffY = y p1 * depth1 / depth2 - y p;
                          diffZ = z p1 * depth1 / depth2 - z p
                      in if sqrt (diffX * diffX + diffY * diffY + diffZ * diffZ) / depth1 < 0.1 then
                           do {
                             g \<leftarrow> mark_picked (i + 1) g;
                             g \<leftarrow> mark_picked (i + 2) g;
                             g \<leftarrow> mark_picked (i + 3) g;
                             g \<leftarrow> mark_picked (i + 4) g;
                             g \<leftarrow> mark_picked (i + 5) g;
                             mark_picked (i + 6) g
                           }
                         else Some g))
             else Some g);
       a1 \<leftarrow> points_at laserCloud (i - 1);
       let diffX2 = x p - x a1;
       let diffY2 = y p - y a1;
       let diffZ2 = z p - z a1;
       let diff2 = diffX2 * diffX2 + diffY2 * diffY2 + diffZ2 * diffZ2;
       let dis = x p * x p + y p * y p + z p * z p;
       g \<leftarrow> (if diff > 0.0002 * dis \<and> diff2 > 0.0002 * dis then mark_picked i g else Some g);
       Some (Next g)
     }"

section \<open>The sweep callback: feature selection (lines 565 to 709)\<close>

text \<open>
  The four feature clouds, the per-beam cloud \<open>surfPointsLessFlatScan\<close> and the two
  counters of a sector.
\<close>

record features =
  cornerPointsSharp :: "PointType list"
  cornerPointsLessSharp :: "PointType list"
  surfPointsFlat :: "PointType list"
  surfPointsLessFlat :: "PointType list"
  surfPointsLessFlatScan :: "PointType list"
  largestPickedNum :: int
  smallestPickedNum :: int

text \<open>Lines 582 to 589: one comparison of the bubble sort.\<close>

definition sortBody :: "int \<Rightarrow> globals \<Rightarrow> globals ctl option" where
  "sortBody l g =
     do {
       a \<leftarrow> scratch_rd (cloudSortInd g) l;
       ca \<leftarrow> scratch_rd (cloudCurvature g) a;
       b \<leftarrow> scratch_rd (cloudSortInd g) (l - 1);
       cb \<leftarrow> scratch_rd (cloudCurvature g) b;
       if ca < cb then
         do {
           let temp = b;
           s1 \<leftarrow> scratch_wr (cloudSortInd g) (l - 1) a;
           s2 \<leftarrow> scratch_wr s1 l temp;
           Some (Next (g\<lparr>cloudSortInd := s2\<rparr>))
         }
       else Some (Next g)
     }"

text \<open>Lines 616 to 628 (and 663 to 675): one step of the forward spread mask.\<close>

definition spreadFwdBody :: "PointType list \<Rightarrow> int \<Rightarrow> int \<Rightarrow> globals \<Rightarrow> globals ctl option" where
  "spreadFwdBody laserCloud ind l g =
     do {
       a \<leftarrow> points_at laserCloud (ind + l);
       b \<leftarrow> points_at laserCloud (ind + l - 1);
       let diffX = x a - x b;
       let diffY = y a - y b;
       let diffZ = z a - z b;
       if diffX * diffX + diffY * diffY + diffZ * diffZ > 0.05 then Some (Break g)
       else map_option Next (mark_picked (ind + l) g)
     }"

text \<open>Lines 629 to 641 (and 676 to 688): one step of the backward spread mask.\<close>

definition spreadBwdBody :: "PointType list \<Rightarrow> int \<Rightarrow> int \<Rightarrow> globals \<Rightarrow> globals ctl option" where
  "spreadBwdBody laserCloud ind l g =
     do {
       a \<leftarrow> points_at laserCloud (ind + l);
       b \<leftarrow> points_at laserCloud (ind + l + 1);
       let diffX = x a - x b;
       let diffY = y a - y b;
       let diffZ = z a - z b;
       if diffX * diffX + diffY * diffY + diffZ * diffZ > 0.05 then Some (Break g)
       else map_option Next (mark_picked (ind + l) g)
     }"

text \<open>Lines 613 to 641 (and 662 to 688): mark the point and spread to its neighbours.\<close>

definition markAndSpread :: "PointType list \<Rightarrow> int \<Rightarrow> globals \<Rightarrow> globals option" where
  "markAndSpread laserCloud ind g =
     do {
       g \<leftarrow> mark_picked ind g;
       g \<leftarrow> for_le 1 5 (spreadFwdBody laserCloud ind) g;
       for_ge (- 1) (- 5) (spreadBwdBody laserCloud ind) g
     }"

text \<open>Lines 595 to 642: one iteration of the corner loop.\<close>

definition cornerBody ::
    "PointType list \<Rightarrow> int \<Rightarrow> globals \<times> features \<Rightarrow> (globals \<times> features) ctl option" where
  "cornerBody laserCloud k gf =
     (case gf of (g, f) \<Rightarrow>
     do {
       ind \<leftarrow> scratch_rd (cloudSortInd g) k;
       picked \<leftarrow> scratch_rd (cloudNeighborPicked g) ind;
       curv \<leftarrow> scratch_rd (cloudCurvature g) ind;
       if picked = 0 \<and> curv > 0.1 then
         do {
           let f = f\<lparr>largestPickedNum := largestPickedNum f + 1\<rparr>;
           if largestPickedNum f \<le> 2 then
             do {
               lb \<leftarrow> scratch_wr (cloudLabel g) ind 2;
               let g = g\<lparr>cloudLabel := lb\<rparr>;
               p \<leftarrow> points_at laserCloud ind;
               let f = f\<lparr>cornerPointsSharp := cornerPointsSharp f @ [p]\<rparr>;
               let f = f\<lparr>cornerPointsLessSharp := cornerPointsLessSharp f @ [p]\<rparr>;
               g \<leftarrow> markAndSpread laserCloud ind g;
               Some (Next (g, f))
             }
           else if largestPickedNum f \<le> 20 then
             do {
               lb \<leftarrow> scratch_wr (cloudLabel g) ind 1;
               let g = g\<lparr>cloudLabel := lb\<rparr>;
               p \<leftarrow> points_at laserCloud ind;
               let f = f\<lparr>cornerPointsLessSharp := cornerPointsLessSharp f @ [p]\<rparr>;
               g \<leftarrow> markAndSpread laserCloud ind g;
               Some (Next (g, f))
             }
           else Some (Break (g, f))
         }
       else Some (Next (g, f))
     })"

text \<open>Lines 648 to 689: one iteration of the flat loop.\<close>

definition flatBody ::
    "PointType list \<Rightarrow> int \<Rightarrow> globals \<times> features \<Rightarrow> (globals \<times> features) ctl option" where
  "flatBody laserCloud k gf =
     (case gf of (g, f) \<Rightarrow>
     do {
       ind \<leftarrow> scratch_rd (cloudSortInd g) k;
       picked \<leftarrow> scratch_rd (cloudNeighborPicked g) ind;
       curv \<leftarrow> scratch_rd (cloudCurvature g) ind;
       if picked = 0 \<and> curv < 0.1 then
         do {
           lb \<leftarrow> scratch_wr (cloudLabel g) ind (- 1);
           let g = g\<lparr>cloudLabel := lb\<rparr>;
           p \<leftarrow> points_at laserCloud ind;
           let f = f\<lparr>surfPointsFlat := surfPointsFlat f @ [p]\<rparr>;
           let f = f\<lparr>smallestPickedNum := smallestPickedNum f + 1\<rparr>;
           if smallestPickedNum f \<ge> 4 then Some (Break (g, f))
           else
             do {
               g \<leftarrow> markAndSpread laserCloud ind g;
               Some (Next (g, f))
             }
         }
       else Some (Next (g, f))
     })"

text \<open>Lines 693 to 697: one iteration of the less-flat loop.\<close>

definition lessFlatBody ::
    "PointType list \<Rightarrow> int \<Rightarrow> globals \<times> features \<Rightarrow> (globals \<times> features) ctl option" where
  "lessFlatBody laserCloud k gf =
     (case gf of (g, f) \<Rightarrow>
     do {
       lb \<leftarrow> scratch_rd (cloudLabel g) k;
       if lb \<le> 0 then
         do {
           p \<leftarrow> points_at laserCloud k;
           Some (Next (g, f\<lparr>surfPointsLessFlatScan := surfPointsLessFlatScan f @ [p]\<rparr>))
         }
       else Some (Next (g, f))
     })"

text \<open>Lines 574 to 698: one sector \<open>j\<close> of beam \<open>i\<close>.\<close>

definition sectorBody ::
    "PointType list \<Rightarrow> beams \<Rightarrow> int \<Rightarrow> int \<Rightarrow> globals \<times> features \<Rightarrow> (globals \<times> features) ctl option" where
  "sectorBody laserCloud b i j gf =
     (case gf of (g, f) \<Rightarrow>
     do {
       let sp = (scanStartInd b i * (6 - j) + scanEndInd b i * j) sdiv 6;
       let ep = (scanStartInd b i * (5 - j) + scanEndInd b i * (j + 1)) sdiv 6 - 1;
       g \<leftarrow> for_le (sp + 1) ep (\<lambda>k g. map_option Next (for_ge k (sp + 1) sortBody g)) g;
       (g, f) \<leftarrow> for_ge ep sp (cornerBody laserCloud) (g, f\<lparr>largestPickedNum := 0\<rparr>);
       (g, f) \<leftarrow> for_le sp ep (flatBody laserCloud) (g, f\<lparr>smallestPickedNum := 0\<rparr>);
       (g, f) \<leftarrow> for_le sp ep (lessFlatBody laserCloud) (g, f);
       Some (Next (g, f))
     })"

text \<open>
  Lines 571 to 709: one beam.  The voxel grid filter of the PCL library is a parameter of
  the model, \<open>downSizeFilter\<close>.
\<close>

definition beamBody ::
    "(PointType list \<Rightarrow> PointType list) \<Rightarrow> PointType list \<Rightarrow> beams \<Rightarrow> int \<Rightarrow>
     globals \<times> features \<Rightarrow> (globals \<times> features) ctl option" where
  "beamBody downSizeFilter laserCloud b i gf =
     (case gf of (g, f) \<Rightarrow>
     do {
       let f = f\<lparr>surfPointsLessFlatScan := []\<rparr>;
       (g, f) \<leftarrow> for_lt 0 6 (sectorBody laserCloud b i) (g, f);
       let surfPointsLessFlatScanDS = downSizeFilter (surfPointsLessFlatScan f);
       Some (Next (g, f\<lparr>surfPointsLessFlat := surfPointsLessFlat f @ surfPointsLessFlatScanDS\<rparr>))
     })"

definition extractFeatures ::
    "(PointType list \<Rightarrow> PointType list) \<Rightarrow> PointType list \<Rightarrow> beams \<Rightarrow> globals \<Rightarrow>
     (globals \<times> features) option" where
  "extractFeatures downSizeFilter laserCloud b g =
     for_lt 0 N_SCANS (beamBody downSizeFilter laserCloud b)
       (g, \<lparr>cornerPointsSharp = [], cornerPointsLessSharp = [], surfPointsFlat = [],
            surfPointsLessFlat = [], surfPointsLessFlatScan = [],
            largestPickedNum = 0, smallestPickedNum = 0\<rparr>)"

section \<open>The sweep callback (lines 278 to 769)\<close>

text \<open>What one call publishes on the six topics.\<close>

record outputs =
  pubLaserCloud :: "PointType list"
  pubCornerPointsSharp :: "PointType list"
  pubCornerPointsLessSharp :: "PointType list"
  pubSurfPointsFlat :: "PointType list"
  pubSurfPointsLessFlat :: "PointType list"
  pubImuTrans :: "PointXYZ list"

text \<open>
  The callback returns \<open>None\<close> when it reads or writes outside an array or does not return,
  \<open>Some (g, None)\<close> when it returns without publishing (the first \<open>systemDelay\<close> sweeps), and
  \<open>Some (g, Some out)\<close> when it publishes \<open>out\<close>.
\<close>

definition laserCloudHandler ::
    "(PointType list \<Rightarrow> PointType list) \<Rightarrow> sweep_msg \<Rightarrow> globals \<Rightarrow> (globals \<times> outputs option) option" where
  "laserCloudHandler downSizeFilter laserCloudMsg g =
     (if \<not> systemInited g then
        (let g = g\<lparr>systemInitCount := systemInitCount g + 1\<rparr>;
             g = (if systemInitCount g \<ge> systemDelay then g\<lparr>systemInited := True\<rparr> else g)
         in Some (g, None))
      else
        do {
          (g, st) \<leftarrow> ingestSweep laserCloudMsg g;
          let cloudSize = count st;
          let laserCloud = concat (map (laserCloudScans st) [0..N_SCANS - 1]);
          (g, b) \<leftarrow> for_lt 5 (cloudSize - 5) (curvatureBody laserCloud)
                      (g, \<lparr>scanStartInd = (\<lambda>_. 0), scanEndInd = (\<lambda>_. 0), scanCount = - 1\<rparr>);
          let b = b\<lparr>scanStartInd := (scanStartInd b)(0 := 5)\<rparr>;
          let b = b\<lparr>scanEndInd := (scanEndInd b)(N_SCANS - 1 := cloudSize - 5)\<rparr>;
          g \<leftarrow> for_lt 5 (cloudSize - 6) (occlusionBody laserCloud) g;
          (g, f) \<leftarrow> extractFeatures downSizeFilter laserCloud b g;
          Some (g, Some
            \<lparr>pubLaserCloud = laserCloud,
             pubCornerPointsSharp = cornerPointsSharp f,
             pubCornerPointsLessSharp = cornerPointsLessSharp f,
             pubSurfPointsFlat = surfPointsFlat f,
             pubSurfPointsLessFlat = surfPointsLessFlat f,
             pubImuTrans =
               [\<lparr>x = imuPitchStart g, y = imuYawStart g, z = imuRollStart g\<rparr>,
                \<lparr>x = imuPitchCur g, y = imuYawCur g, z = imuRollCur g\<rparr>,
                \<lparr>x = imuShiftFromStartXCur g, y = imuShiftFromStartYCur g,
                 z = imuShiftFromStartZCur g\<rparr>,
                \<lparr>x = imuVeloFromStartXCur g, y = imuVeloFromStartYCur g,
                 z = imuVeloFromStartZCur g\<rparr>]\<rparr>)
        })"

text \<open>The invariant of the feature selection behind C7.\<close>

definition sharp_in_lessSharp :: "globals \<times> features \<Rightarrow> bool" where
  "sharp_in_lessSharp gf \<longleftrightarrow>
     mset (cornerPointsSharp (snd gf)) \<subseteq># mset (cornerPointsLessSharp (snd gf))"

text \<open>Concrete input: the file-scope state once the start-up delay is over.\<close>

definition warmGlobals :: globals where
  "warmGlobals = init_globals\<lparr>systemInitCount := 20, systemInited := True\<rparr>"

text \<open>A sweep whose two points are both not finite, so that the cloud is empty after the NaN filter.\<close>

definition emptySweep :: sweep_msg where
  "emptySweep = \<lparr>header_stamp = 10, raw_points = [None, None]\<rparr>"

text \<open>
  A sweep of seventeen points at one azimuth, 7 m from the sensor: eleven points 0.1 m
  above the horizontal plane (an elevation of about 0.8 degrees, beam 1) and six points in
  the plane (beam 15).  The beams 2 to 14 receive no point.
\<close>

definition gapSweep :: sweep_msg where
  "gapSweep = \<lparr>header_stamp = 10,
      raw_points = replicate 11 (Some (rayPoint 7 0 (1 / 10))) @ replicate 6 (Some (rayPoint 7 0 0))\<rparr>"

text \<open>The two kinds of points of \<open>gapSweep\<close> after ingestion, and the cloud assembled from them.\<close>

definition lowPt :: PointType where
  "lowPt = \<lparr>x = 0, y = 1 / 10, z = 7, intensity = 1\<rparr>"

definition planePt :: PointType where
  "planePt = \<lparr>x = 0, y = 0, z = 7, intensity = 15\<rparr>"

definition gapCloud :: "PointType list" where
  "gapCloud = [lowPt, lowPt, lowPt, lowPt, lowPt, lowPt, lowPt, lowPt, lowPt, lowPt, lowPt,
               planePt, planePt, planePt, planePt, planePt, planePt]"

text \<open>
  A sweep of 45 points on the x axis of the sensor, 0.3 m apart: the range grows from
  30 m to 39.6 m at point 32 and shrinks again after it.  \<open>kinkCloud\<close> is the cloud the
  ingestion makes of it.
\<close>

definition kinkRange :: "nat \<Rightarrow> real" where
  "kinkRange k = 30 + 3 / 10 * (if k \<le> 32 then real k else real (64 - k))"

definition kinkSweep :: sweep_msg where
  "kinkSweep = \<lparr>header_stamp = 10,
      raw_points = map (\<lambda>k. Some (rayPoint (kinkRange k) 0 0)) [0..<45]\<rparr>"

definition kinkCloud :: "PointType list" where
  "kinkCloud = map (\<lambda>k. \<lparr>x = 0, y = 0, z = kinkRange k, intensity = 15\<rparr>) [0..<45]"

section \<open>Properties of the IMU ring\<close>

lemma imuHandler_eq: "imuHandler m g = AccumulateIMUShift (imuStore m g)"
  by (simp add: imuHandler_def imuStore_def Let_def)

lemma AccumulateIMUShift_skip: "\<not> imuDt g < scanPeriod \<Longrightarrow> AccumulateIMUShift g = g"
  by (simp add: AccumulateIMUShift_def imuDt_def imuBack_def Let_def)

lemma AccumulateIMUShift_run:
  "imuDt g < scanPeriod \<Longrightarrow> accWorld g (imuPointerLast g) = (ax, ay, az) \<Longrightarrow> AccumulateIMUShift g =
        g\<lparr>imuShiftX := (imuShiftX g)(imuPointerLast g :=
              imuShiftX g (imuBack g) + imuVeloX g (imuBack g) * imuDt g + ax * imuDt g * imuDt g / 2),
          imuShiftY := (imuShiftY g)(imuPointerLast g :=
              imuShiftY g (imuBack g) + imuVeloY g (imuBack g) * imuDt g + ay * imuDt g * imuDt g / 2),
          imuShiftZ := (imuShiftZ g)(imuPointerLast g :=
              imuShiftZ g (imuBack g) + imuVeloZ g (imuBack g) * imuDt g + az * imuDt g * imuDt g / 2),
          imuVeloX := (imuVeloX g)(imuPointerLast g := imuVeloX g (imuBack g) + ax * imuDt g),
          imuVeloY := (imuVeloY g)(imuPointerLast g := imuVeloY g (imuBack g) + ay * imuDt g),
          imuVeloZ := (imuVeloZ g)(imuPointerLast g := imuVeloZ g (imuBack g) + az * imuDt g)\<rparr>"
  by (simp add: AccumulateIMUShift_def accWorld_def Rx_def Ry_def Rz_def imuDt_def imuBack_def Let_def)

lemma mod200_back:
  "0 \<le> l \<Longrightarrow> l < 200 \<Longrightarrow> (l + 199) mod 200 = (if l = 0 then 199 else l - (1::int))"
proof (cases "l = 0")
  case True then show ?thesis by simp
next
  case False
  assume "0 \<le> l" "l < 200"
  with False have "(l - 1) mod 200 = l - 1" by simp
  moreover have "(l + 199) mod 200 = ((l - 1) + 200) mod 200" by (simp add: add.commute)
  ultimately show ?thesis using False by (simp only: mod_add_self2 if_False)
qed

lemma mod200_next:
  "- 1 \<le> p \<Longrightarrow> p < 200 \<Longrightarrow> (p + 1) mod 200 = (if p = 199 then 0 else p + (1::int))"
  by (cases "p = 199") simp_all

lemma imuStore_last:
  "ring_ok g \<Longrightarrow> imuPointerLast (imuStore m g) = (imuPointerLast g + 1) mod 200"
  by (simp add: imuStore_def Let_def ring_ok_def imuQueLength_def smod_mod_positive)

lemma imuBack_val:
  assumes "0 \<le> imuPointerLast g" "imuPointerLast g < 200"
  shows "imuBack g = (if imuPointerLast g = 0 then 199 else imuPointerLast g - 1)"
proof -
  have "imuBack g = (imuPointerLast g + 199) mod 200"
    using assms by (simp add: imuBack_def imuQueLength_def smod_mod_positive add.commute)
  then show ?thesis by (simp only: mod200_back[OF assms])
qed

lemma imuBack_neq:
  assumes "0 \<le> imuPointerLast g" "imuPointerLast g < 200"
  shows "imuBack g \<noteq> imuPointerLast g"
  unfolding imuBack_val[OF assms] by simp

lemma imuBack_mod:
  assumes "0 \<le> imuPointerLast g" "imuPointerLast g < 200"
  shows "imuBack g = (imuPointerLast g - 1) mod imuQueLength"
proof (cases "imuPointerLast g = 0")
  case True
  then show ?thesis unfolding imuBack_val[OF assms] by (simp add: imuQueLength_def)
next
  case False
  with assms have "(imuPointerLast g - 1) mod 200 = imuPointerLast g - 1" by simp
  with False show ?thesis unfolding imuBack_val[OF assms] by (simp only: imuQueLength_def if_False)
qed

lemma imuStore_last_val:
  assumes "ring_ok g"
  shows "imuPointerLast (imuStore m g) = (if imuPointerLast g = 199 then 0 else imuPointerLast g + 1)"
proof -
  have "- 1 \<le> imuPointerLast g" "imuPointerLast g < 200"
    using assms by (simp_all add: ring_ok_def imuQueLength_def)
  then show ?thesis unfolding imuStore_last[OF assms] by (rule mod200_next)
qed

lemma imuStore_last_range:
  assumes "ring_ok g"
  shows "0 \<le> imuPointerLast (imuStore m g)" "imuPointerLast (imuStore m g) < 200"
  using assms unfolding imuStore_last_val[OF assms] by (simp_all add: ring_ok_def imuQueLength_def)

lemma imuBack_after_store:
  assumes "ring_ok g" "0 \<le> imuPointerLast g"
  shows "imuBack (imuStore m g) = imuPointerLast g"
  using assms unfolding imuBack_val[OF imuStore_last_range[OF assms(1)]] imuStore_last_val[OF assms(1)]
  by (simp add: ring_ok_def imuQueLength_def)

lemma AccumulateIMUShift_last [simp]: "imuPointerLast (AccumulateIMUShift g) = imuPointerLast g"
  by (simp add: AccumulateIMUShift_def Let_def)

lemma AccumulateIMUShift_time [simp]: "imuTime (AccumulateIMUShift g) = imuTime g"
  by (simp add: AccumulateIMUShift_def Let_def)

lemma imuHandler_last:
  "ring_ok g \<Longrightarrow> imuPointerLast (imuHandler m g) = (imuPointerLast g + 1) mod 200"
  by (simp add: imuHandler_eq imuStore_last)

lemma imuHandler_ring_ok: "ring_ok g \<Longrightarrow> ring_ok (imuHandler m g)"
  using imuHandler_last[of g m] by (simp add: ring_ok_def imuQueLength_def)




lemma AccumulateIMUShift_roll [simp]: "imuRoll (AccumulateIMUShift g) = imuRoll g"
  by (simp add: AccumulateIMUShift_def Let_def)
lemma AccumulateIMUShift_pitch [simp]: "imuPitch (AccumulateIMUShift g) = imuPitch g"
  by (simp add: AccumulateIMUShift_def Let_def)
lemma AccumulateIMUShift_yaw [simp]: "imuYaw (AccumulateIMUShift g) = imuYaw g"
  by (simp add: AccumulateIMUShift_def Let_def)
lemma AccumulateIMUShift_accX [simp]: "imuAccX (AccumulateIMUShift g) = imuAccX g"
  by (simp add: AccumulateIMUShift_def Let_def)
lemma AccumulateIMUShift_accY [simp]: "imuAccY (AccumulateIMUShift g) = imuAccY g"
  by (simp add: AccumulateIMUShift_def Let_def)
lemma AccumulateIMUShift_accZ [simp]: "imuAccZ (AccumulateIMUShift g) = imuAccZ g"
  by (simp add: AccumulateIMUShift_def Let_def)

lemma AccumulateIMUShift_accWorld [simp]: "accWorld (AccumulateIMUShift g) i = accWorld g i"
  by (simp add: accWorld_def)

lemma AccumulateIMUShift_back [simp]: "imuBack (AccumulateIMUShift g) = imuBack g"
  by (simp add: imuBack_def)

lemma AccumulateIMUShift_dt [simp]: "imuDt (AccumulateIMUShift g) = imuDt g"
  by (simp add: imuDt_def)

text \<open>The integration step, read off the state after \<open>AccumulateIMUShift\<close>.\<close>

lemma AccumulateIMUShift_formulas:
  assumes rng: "0 \<le> imuPointerLast g" "imuPointerLast g < 200"
    and dt: "imuDt g < scanPeriod"
    and a: "accWorld g (imuPointerLast g) = (ax, ay, az)"
    and g': "g' = AccumulateIMUShift g"
  shows "imuShiftX g' (imuPointerLast g) =
           imuShiftX g (imuBack g) + imuVeloX g (imuBack g) * imuDt g + ax * imuDt g * imuDt g / 2"
    and "imuShiftY g' (imuPointerLast g) =
           imuShiftY g (imuBack g) + imuVeloY g (imuBack g) * imuDt g + ay * imuDt g * imuDt g / 2"
    and "imuShiftZ g' (imuPointerLast g) =
           imuShiftZ g (imuBack g) + imuVeloZ g (imuBack g) * imuDt g + az * imuDt g * imuDt g / 2"
    and "imuVeloX g' (imuPointerLast g) = imuVeloX g (imuBack g) + ax * imuDt g"
    and "imuVeloY g' (imuPointerLast g) = imuVeloY g (imuBack g) + ay * imuDt g"
    and "imuVeloZ g' (imuPointerLast g) = imuVeloZ g (imuBack g) + az * imuDt g"
    and "imuShiftX g' (imuBack g) = imuShiftX g (imuBack g)"
    and "imuShiftY g' (imuBack g) = imuShiftY g (imuBack g)"
    and "imuShiftZ g' (imuBack g) = imuShiftZ g (imuBack g)"
    and "imuVeloX g' (imuBack g) = imuVeloX g (imuBack g)"
    and "imuVeloY g' (imuBack g) = imuVeloY g (imuBack g)"
    and "imuVeloZ g' (imuBack g) = imuVeloZ g (imuBack g)"
  unfolding g' AccumulateIMUShift_run[OF dt a] using imuBack_neq[OF rng] by simp_all


lemma imuStore_simps [simp]:
  "imuTime (imuStore m g) (imuPointerLast (imuStore m g)) = stamp m"
  "imuRoll (imuStore m g) (imuPointerLast (imuStore m g)) = rpy_roll m"
  "imuPitch (imuStore m g) (imuPointerLast (imuStore m g)) = rpy_pitch m"
  "imuYaw (imuStore m g) (imuPointerLast (imuStore m g)) = rpy_yaw m"
  "imuAccX (imuStore m g) (imuPointerLast (imuStore m g)) =
     linear_acceleration_y m - sin (rpy_roll m) * cos (rpy_pitch m) * 9.81"
  "imuAccY (imuStore m g) (imuPointerLast (imuStore m g)) =
     linear_acceleration_z m - cos (rpy_roll m) * cos (rpy_pitch m) * 9.81"
  "imuAccZ (imuStore m g) (imuPointerLast (imuStore m g)) =
     linear_acceleration_x m + sin (rpy_pitch m) * 9.81"
  "imuVeloX (imuStore m g) = imuVeloX g" "imuVeloY (imuStore m g) = imuVeloY g"
  "imuVeloZ (imuStore m g) = imuVeloZ g" "imuShiftX (imuStore m g) = imuShiftX g"
  "imuShiftY (imuStore m g) = imuShiftY g" "imuShiftZ (imuStore m g) = imuShiftZ g"
  by (simp_all add: imuStore_def Let_def)

lemma imuStore_time_other:
  "j \<noteq> imuPointerLast (imuStore m g) \<Longrightarrow> imuTime (imuStore m g) j = imuTime g j"
  by (simp add: imuStore_def Let_def)

lemma accWorld_level:
  "accWorld (imuStore (levelMsg t (ax, ay, az)) g) (imuPointerLast (imuStore (levelMsg t (ax, ay, az)) g))
     = (ax, ay, az)"
  by (simp add: accWorld_def Rx_def Ry_def Rz_def) (simp add: levelMsg_def)

text \<open>One sample after a slot that is already filled: the time difference is to that slot.\<close>

lemma imuDt_after_store:
  assumes "ring_ok g" "0 \<le> imuPointerLast g"
  shows "imuDt (imuStore m g) = stamp m - imuTime g (imuPointerLast g)"
proof -
  have b: "imuBack (imuStore m g) = imuPointerLast g" by (rule imuBack_after_store[OF assms])
  have "imuPointerLast g \<noteq> imuPointerLast (imuStore m g)"
    using imuBack_neq[OF imuStore_last_range[OF assms(1)], of m] b by simp
  then show ?thesis by (simp add: imuDt_def b imuStore_time_other)
qed

lemma imuHandler_level_step:
  assumes r: "ring_ok g" and p: "0 \<le> imuPointerLast g"
    and d: "t - imuTime g (imuPointerLast g) < scanPeriod"
    and g': "g' = imuHandler (levelMsg t (ax, ay, az)) g"
    and dt: "dt = t - imuTime g (imuPointerLast g)"
  shows "ring_ok g'" "0 \<le> imuPointerLast g'" "imuTime g' (imuPointerLast g') = t"
    "imuVeloX g' (imuPointerLast g') = imuVeloX g (imuPointerLast g) + ax * dt"
    "imuVeloY g' (imuPointerLast g') = imuVeloY g (imuPointerLast g) + ay * dt"
    "imuVeloZ g' (imuPointerLast g') = imuVeloZ g (imuPointerLast g) + az * dt"
    "imuShiftX g' (imuPointerLast g') =
       imuShiftX g (imuPointerLast g) + imuVeloX g (imuPointerLast g) * dt + ax * dt * dt / 2"
    "imuShiftY g' (imuPointerLast g') =
       imuShiftY g (imuPointerLast g) + imuVeloY g (imuPointerLast g) * dt + ay * dt * dt / 2"
    "imuShiftZ g' (imuPointerLast g') =
       imuShiftZ g (imuPointerLast g) + imuVeloZ g (imuPointerLast g) * dt + az * dt * dt / 2"
proof -
  define S where "S = imuStore (levelMsg t (ax, ay, az)) g"
  have rng: "0 \<le> imuPointerLast S" "imuPointerLast S < 200"
    using imuStore_last_range[OF r] by (simp_all add: S_def)
  have b: "imuBack S = imuPointerLast g" unfolding S_def by (rule imuBack_after_store[OF r p])
  have sdt: "imuDt S = dt"
    unfolding S_def dt using imuDt_after_store[OF r p, of "levelMsg t (ax, ay, az)"]
    by (simp add: levelMsg_def)
  have lt: "imuDt S < scanPeriod" using d sdt dt by simp
  have a: "accWorld S (imuPointerLast S) = (ax, ay, az)" unfolding S_def by (rule accWorld_level)
  have gS: "g' = AccumulateIMUShift S" by (simp add: g' imuHandler_eq S_def)
  have l: "imuPointerLast g' = imuPointerLast S" by (simp add: gS)
  show "ring_ok g'" unfolding g' by (rule imuHandler_ring_ok[OF r])
  show "0 \<le> imuPointerLast g'" using rng l by simp
  show "imuTime g' (imuPointerLast g') = t" by (simp add: gS) (simp add: S_def levelMsg_def)
  note f = AccumulateIMUShift_formulas[OF rng lt a gS, unfolded b sdt, folded l]
  show "imuVeloX g' (imuPointerLast g') = imuVeloX g (imuPointerLast g) + ax * dt"
    using f(4) by (simp add: S_def)
  show "imuVeloY g' (imuPointerLast g') = imuVeloY g (imuPointerLast g) + ay * dt"
    using f(5) by (simp add: S_def)
  show "imuVeloZ g' (imuPointerLast g') = imuVeloZ g (imuPointerLast g) + az * dt"
    using f(6) by (simp add: S_def)
  show "imuShiftX g' (imuPointerLast g') =
       imuShiftX g (imuPointerLast g) + imuVeloX g (imuPointerLast g) * dt + ax * dt * dt / 2"
    using f(1) by (simp add: S_def)
  show "imuShiftY g' (imuPointerLast g') =
       imuShiftY g (imuPointerLast g) + imuVeloY g (imuPointerLast g) * dt + ay * dt * dt / 2"
    using f(2) by (simp add: S_def)
  show "imuShiftZ g' (imuPointerLast g') =
       imuShiftZ g (imuPointerLast g) + imuVeloZ g (imuPointerLast g) * dt + az * dt * dt / 2"
    using f(3) by (simp add: S_def)
qed


lemma levelRun_Suc:
  "levelRun t0 dt a (Suc n) = levelRun t0 dt a n @ [levelMsg (t0 + real (Suc n) * dt) a]"
  by (simp add: levelRun_def)

lemma imuRun_snoc: "imuRun (ms @ [m]) g = imuHandler m (imuRun ms g)"
  by (simp add: imuRun_def)

lemma imuRun_level:
  assumes r: "ring_ok g" and p: "0 \<le> imuPointerLast g" and d: "dt < scanPeriod"
    and g': "g' = imuRun (levelRun (imuTime g (imuPointerLast g)) dt (ax, ay, az) n) g"
  shows "ring_ok g' \<and> 0 \<le> imuPointerLast g'
    \<and> imuTime g' (imuPointerLast g') = imuTime g (imuPointerLast g) + real n * dt
    \<and> imuVeloX g' (imuPointerLast g') = imuVeloX g (imuPointerLast g) + ax * (real n * dt)
    \<and> imuVeloY g' (imuPointerLast g') = imuVeloY g (imuPointerLast g) + ay * (real n * dt)
    \<and> imuVeloZ g' (imuPointerLast g') = imuVeloZ g (imuPointerLast g) + az * (real n * dt)
    \<and> imuShiftX g' (imuPointerLast g') = imuShiftX g (imuPointerLast g)
          + imuVeloX g (imuPointerLast g) * (real n * dt) + ax * (real n * dt)\<^sup>2 / 2
    \<and> imuShiftY g' (imuPointerLast g') = imuShiftY g (imuPointerLast g)
          + imuVeloY g (imuPointerLast g) * (real n * dt) + ay * (real n * dt)\<^sup>2 / 2
    \<and> imuShiftZ g' (imuPointerLast g') = imuShiftZ g (imuPointerLast g)
          + imuVeloZ g (imuPointerLast g) * (real n * dt) + az * (real n * dt)\<^sup>2 / 2"
  using g'
proof (induction n arbitrary: g')
  case 0
  then show ?case using r p by (simp add: levelRun_def imuRun_def)
next
  case (Suc n)
  define t0 where "t0 = imuTime g (imuPointerLast g)"
  define h where "h = imuRun (levelRun t0 dt (ax, ay, az) n) g"
  have ih: "ring_ok h" "0 \<le> imuPointerLast h"
    "imuTime h (imuPointerLast h) = t0 + real n * dt"
    "imuVeloX h (imuPointerLast h) = imuVeloX g (imuPointerLast g) + ax * (real n * dt)"
    "imuVeloY h (imuPointerLast h) = imuVeloY g (imuPointerLast g) + ay * (real n * dt)"
    "imuVeloZ h (imuPointerLast h) = imuVeloZ g (imuPointerLast g) + az * (real n * dt)"
    "imuShiftX h (imuPointerLast h) = imuShiftX g (imuPointerLast g)
          + imuVeloX g (imuPointerLast g) * (real n * dt) + ax * (real n * dt)\<^sup>2 / 2"
    "imuShiftY h (imuPointerLast h) = imuShiftY g (imuPointerLast g)
          + imuVeloY g (imuPointerLast g) * (real n * dt) + ay * (real n * dt)\<^sup>2 / 2"
    "imuShiftZ h (imuPointerLast h) = imuShiftZ g (imuPointerLast g)
          + imuVeloZ g (imuPointerLast g) * (real n * dt) + az * (real n * dt)\<^sup>2 / 2"
    using Suc.IH[of h] by (simp_all add: h_def t0_def)
  have gh: "g' = imuHandler (levelMsg (t0 + real (Suc n) * dt) (ax, ay, az)) h"
    using Suc.prems by (simp add: levelRun_Suc imuRun_snoc h_def t0_def)
  have e: "t0 + real (Suc n) * dt - imuTime h (imuPointerLast h) = dt"
    by (simp add: ih(3) algebra_simps)
  have lt: "t0 + real (Suc n) * dt - imuTime h (imuPointerLast h) < scanPeriod"
    using d e by simp
  note st = imuHandler_level_step[OF ih(1) ih(2) lt gh e[symmetric]]
  have "imuTime g' (imuPointerLast g') = t0 + real (Suc n) * dt" by (rule st(3))
  moreover have "imuVeloX g' (imuPointerLast g') = imuVeloX g (imuPointerLast g) + ax * (real (Suc n) * dt)"
    unfolding st(4) ih(4) by (simp add: algebra_simps)
  moreover have "imuVeloY g' (imuPointerLast g') = imuVeloY g (imuPointerLast g) + ay * (real (Suc n) * dt)"
    unfolding st(5) ih(5) by (simp add: algebra_simps)
  moreover have "imuVeloZ g' (imuPointerLast g') = imuVeloZ g (imuPointerLast g) + az * (real (Suc n) * dt)"
    unfolding st(6) ih(6) by (simp add: algebra_simps)
  moreover have "imuShiftX g' (imuPointerLast g') = imuShiftX g (imuPointerLast g)
          + imuVeloX g (imuPointerLast g) * (real (Suc n) * dt) + ax * (real (Suc n) * dt)\<^sup>2 / 2"
    unfolding st(7) ih(4) ih(7) by (simp add: algebra_simps power2_eq_square)
  moreover have "imuShiftY g' (imuPointerLast g') = imuShiftY g (imuPointerLast g)
          + imuVeloY g (imuPointerLast g) * (real (Suc n) * dt) + ay * (real (Suc n) * dt)\<^sup>2 / 2"
    unfolding st(8) ih(5) ih(8) by (simp add: algebra_simps power2_eq_square)
  moreover have "imuShiftZ g' (imuPointerLast g') = imuShiftZ g (imuPointerLast g)
          + imuVeloZ g (imuPointerLast g) * (real (Suc n) * dt) + az * (real (Suc n) * dt)\<^sup>2 / 2"
    unfolding st(9) ih(6) ih(9) by (simp add: algebra_simps power2_eq_square)
  ultimately show ?case using st(1) st(2) unfolding t0_def by blast
qed


lemma imuHandler_gap_step:
  assumes r: "ring_ok g" and p: "0 \<le> imuPointerLast g"
    and d: "scanPeriod \<le> stamp m - imuTime g (imuPointerLast g)"
  shows "imuHandler m g = imuStore m g"
  unfolding imuHandler_eq
  by (rule AccumulateIMUShift_skip) (use d in \<open>simp add: imuDt_after_store[OF r p]\<close>)

lemma imuRun_gap:
  assumes r: "ring_ok g" and p: "0 \<le> imuPointerLast g" and d: "scanPeriod \<le> dt"
    and g': "g' = imuRun (levelRun (imuTime g (imuPointerLast g)) dt a n) g"
  shows "ring_ok g' \<and> 0 \<le> imuPointerLast g'
    \<and> imuPointerLast g' = (imuPointerLast g + int n) mod 200
    \<and> imuTime g' (imuPointerLast g') = imuTime g (imuPointerLast g) + real n * dt
    \<and> (0 < n \<longrightarrow> imuDt g' = dt)
    \<and> imuVeloX g' = imuVeloX g \<and> imuVeloY g' = imuVeloY g \<and> imuVeloZ g' = imuVeloZ g
    \<and> imuShiftX g' = imuShiftX g \<and> imuShiftY g' = imuShiftY g \<and> imuShiftZ g' = imuShiftZ g"
  using g'
proof (induction n arbitrary: g')
  case 0
  then show ?case using r p by (simp add: levelRun_def imuRun_def ring_ok_def imuQueLength_def)
next
  case (Suc n)
  define t0 where "t0 = imuTime g (imuPointerLast g)"
  define h where "h = imuRun (levelRun t0 dt a n) g"
  define m where "m = levelMsg (t0 + real (Suc n) * dt) a"
  have ih: "ring_ok h" "0 \<le> imuPointerLast h"
    "imuPointerLast h = (imuPointerLast g + int n) mod 200"
    "imuTime h (imuPointerLast h) = t0 + real n * dt"
    "imuVeloX h = imuVeloX g" "imuVeloY h = imuVeloY g" "imuVeloZ h = imuVeloZ g"
    "imuShiftX h = imuShiftX g" "imuShiftY h = imuShiftY g" "imuShiftZ h = imuShiftZ g"
    using Suc.IH[OF refl, folded t0_def, folded h_def] by blast+
  have sm: "stamp m = t0 + real (Suc n) * dt"
    by (cases a) (simp add: m_def levelMsg_def)
  have e: "stamp m - imuTime h (imuPointerLast h) = dt"
    by (simp add: sm ih(4) algebra_simps)
  have gh: "g' = imuHandler m h"
    using Suc.prems by (simp add: levelRun_Suc imuRun_snoc h_def t0_def m_def)
  have gs: "g' = imuStore m h"
    unfolding gh by (rule imuHandler_gap_step[OF ih(1) ih(2)]) (simp add: e d)
  have l: "imuPointerLast g' = (imuPointerLast h + 1) mod 200"
    unfolding gs by (rule imuStore_last[OF ih(1)])
  have "((imuPointerLast g + int n) mod 200 + 1) mod 200 = (imuPointerLast g + int n + 1) mod 200"
    by (rule mod_add_left_eq)
  moreover have "imuPointerLast g + int n + 1 = imuPointerLast g + int (Suc n)" by simp
  ultimately have "imuPointerLast g' = (imuPointerLast g + int (Suc n)) mod 200"
    unfolding l ih(3) by (simp only:)
  moreover have "ring_ok g'" unfolding gh by (rule imuHandler_ring_ok[OF ih(1)])
  moreover have "0 \<le> imuPointerLast g'" using imuStore_last_range(1)[OF ih(1)] by (simp add: gs)
  moreover have "imuTime g' (imuPointerLast g') = t0 + real (Suc n) * dt"
    by (simp add: gs sm)
  moreover have "imuDt g' = dt" unfolding gs imuDt_after_store[OF ih(1) ih(2)] by (rule e)
  moreover have "imuVeloX g' = imuVeloX g" "imuVeloY g' = imuVeloY g" "imuVeloZ g' = imuVeloZ g"
    "imuShiftX g' = imuShiftX g" "imuShiftY g' = imuShiftY g" "imuShiftZ g' = imuShiftZ g"
    by (simp_all add: gs ih)
  ultimately show ?case unfolding t0_def by blast
qed

lemma ring_ok_init: "ring_ok init_globals"
  by (simp add: ring_ok_def init_globals_def imuQueLength_def)

lemma firstSample_eq: "firstSample = imuStore (levelMsg 1000 (1, 0, 0)) init_globals"
proof -
  have l: "imuPointerLast (imuStore (levelMsg 1000 (1, 0, 0)) init_globals) = 0"
    by (simp add: imuStore_def Let_def init_globals_def imuQueLength_def)
  have b: "imuBack (imuStore (levelMsg 1000 (1, 0, 0)) init_globals) = 199"
    by (simp add: imuBack_def l imuQueLength_def)
  have "imuDt (imuStore (levelMsg 1000 (1, 0, 0)) init_globals) = 1000"
    unfolding imuDt_def b l
    by (simp add: imuStore_def Let_def init_globals_def imuQueLength_def levelMsg_def)
  then show ?thesis
    unfolding firstSample_def imuHandler_eq
    by (intro AccumulateIMUShift_skip) (simp add: scanPeriod_def)
qed

lemma firstSample_facts:
  "ring_ok firstSample" "imuPointerLast firstSample = 0" "imuTime firstSample 0 = 1000"
  "imuVeloX firstSample = (\<lambda>_. 0)" "imuVeloY firstSample = (\<lambda>_. 0)"
  "imuVeloZ firstSample = (\<lambda>_. 0)" "imuShiftX firstSample = (\<lambda>_. 0)"
  "imuShiftY firstSample = (\<lambda>_. 0)" "imuShiftZ firstSample = (\<lambda>_. 0)"
proof -
  show "ring_ok firstSample"
    unfolding firstSample_def by (rule imuHandler_ring_ok[OF ring_ok_init])
  show l: "imuPointerLast firstSample = 0"
    unfolding firstSample_eq by (simp add: imuStore_def Let_def init_globals_def imuQueLength_def)
  show "imuTime firstSample 0 = 1000"
    using imuStore_simps(1)[of "levelMsg 1000 (1, 0, 0)" init_globals]
    unfolding firstSample_eq[symmetric] l by (simp add: levelMsg_def)
  show "imuVeloX firstSample = (\<lambda>_. 0)" "imuVeloY firstSample = (\<lambda>_. 0)"
  "imuVeloZ firstSample = (\<lambda>_. 0)" "imuShiftX firstSample = (\<lambda>_. 0)"
  "imuShiftY firstSample = (\<lambda>_. 0)" "imuShiftZ firstSample = (\<lambda>_. 0)"
    unfolding firstSample_eq by (simp_all add: init_globals_def)
qed

text \<open>
  C10.  One call of the IMU callback moves \<open>imuPointerLast\<close> forward by one modulo 200
  and writes that ring slot only.  The slot receives the time stamp, the three angles and
  the gravity-free acceleration of the message.  Its velocity and shift are written when
  the integration branch runs, that is when the message is less than \<open>scanPeriod\<close> after
  the time in the slot before, and then hold the integrated values; otherwise they keep
  what the slot held before the call.  Every other slot of the thirteen ring arrays keeps
  its value, and every other file-scope variable (\<open>imuPointerFront\<close>, the Start and Cur
  latches, the scratch arrays, the start-up counters) is unchanged.
\<close>

theorem imuHandler_frame:
  assumes "ring_ok g" and "g' = imuHandler m g"
  shows "imuPointerLast g' = (imuPointerLast g + 1) mod imuQueLength
    \<and> (let l = imuPointerLast g'; b = (l - 1) mod imuQueLength; dt = stamp m - imuTime g b in
         imuTime g' l = stamp m
       \<and> imuRoll g' l = rpy_roll m \<and> imuPitch g' l = rpy_pitch m \<and> imuYaw g' l = rpy_yaw m
       \<and> imuAccX g' l = linear_acceleration_y m - sin (rpy_roll m) * cos (rpy_pitch m) * 9.81
       \<and> imuAccY g' l = linear_acceleration_z m - cos (rpy_roll m) * cos (rpy_pitch m) * 9.81
       \<and> imuAccZ g' l = linear_acceleration_x m + sin (rpy_pitch m) * 9.81
       \<and> (dt < scanPeriod \<longrightarrow>
            (case accWorld g' l of (ax, ay, az) \<Rightarrow>
               imuShiftX g' l = imuShiftX g b + imuVeloX g b * dt + ax * dt * dt / 2
             \<and> imuShiftY g' l = imuShiftY g b + imuVeloY g b * dt + ay * dt * dt / 2
             \<and> imuShiftZ g' l = imuShiftZ g b + imuVeloZ g b * dt + az * dt * dt / 2
             \<and> imuVeloX g' l = imuVeloX g b + ax * dt
             \<and> imuVeloY g' l = imuVeloY g b + ay * dt
             \<and> imuVeloZ g' l = imuVeloZ g b + az * dt))
       \<and> (\<not> dt < scanPeriod \<longrightarrow>
             imuShiftX g' l = imuShiftX g l \<and> imuShiftY g' l = imuShiftY g l
           \<and> imuShiftZ g' l = imuShiftZ g l \<and> imuVeloX g' l = imuVeloX g l
           \<and> imuVeloY g' l = imuVeloY g l \<and> imuVeloZ g' l = imuVeloZ g l))
    \<and> (\<forall>j. j \<noteq> imuPointerLast g' \<longrightarrow>
          imuTime g' j = imuTime g j \<and> imuRoll g' j = imuRoll g j
        \<and> imuPitch g' j = imuPitch g j \<and> imuYaw g' j = imuYaw g j
        \<and> imuAccX g' j = imuAccX g j \<and> imuAccY g' j = imuAccY g j \<and> imuAccZ g' j = imuAccZ g j
        \<and> imuVeloX g' j = imuVeloX g j \<and> imuVeloY g' j = imuVeloY g j \<and> imuVeloZ g' j = imuVeloZ g j
        \<and> imuShiftX g' j = imuShiftX g j \<and> imuShiftY g' j = imuShiftY g j
        \<and> imuShiftZ g' j = imuShiftZ g j)
    \<and> g'\<lparr>imuPointerLast := imuPointerLast g, imuTime := imuTime g, imuRoll := imuRoll g,
          imuPitch := imuPitch g, imuYaw := imuYaw g, imuAccX := imuAccX g, imuAccY := imuAccY g,
          imuAccZ := imuAccZ g, imuVeloX := imuVeloX g, imuVeloY := imuVeloY g,
          imuVeloZ := imuVeloZ g, imuShiftX := imuShiftX g, imuShiftY := imuShiftY g,
          imuShiftZ := imuShiftZ g\<rparr> = g"
proof -
  define S where "S = imuStore m g"
  define l where "l = imuPointerLast S"
  define b where "b = (l - 1) mod imuQueLength"
  define dt where "dt = stamp m - imuTime g b"
  have Sl: "imuPointerLast S = l" by (simp add: l_def)
  have S: "S = g\<lparr>imuPointerLast := l,
       imuTime := (imuTime g)(l := stamp m),
       imuRoll := (imuRoll g)(l := rpy_roll m),
       imuPitch := (imuPitch g)(l := rpy_pitch m),
       imuYaw := (imuYaw g)(l := rpy_yaw m),
       imuAccX := (imuAccX g)(l := linear_acceleration_y m - sin (rpy_roll m) * cos (rpy_pitch m) * 9.81),
       imuAccY := (imuAccY g)(l := linear_acceleration_z m - cos (rpy_roll m) * cos (rpy_pitch m) * 9.81),
       imuAccZ := (imuAccZ g)(l := linear_acceleration_x m + sin (rpy_pitch m) * 9.81)\<rparr>"
    by (simp add: S_def l_def imuStore_def Let_def)
  have g': "g' = AccumulateIMUShift S" by (simp add: assms(2) imuHandler_eq S_def)
  have lst: "imuPointerLast g' = (imuPointerLast g + 1) mod imuQueLength"
    using imuHandler_last[OF assms(1), of m] by (simp add: assms(2) imuQueLength_def)
  have l': "imuPointerLast g' = l" by (simp add: g' Sl)
  have rng: "0 \<le> imuPointerLast S" "imuPointerLast S < 200"
    using imuStore_last_range[OF assms(1), of m] by (simp_all add: S_def)
  have bS: "imuBack S = b" unfolding b_def Sl[symmetric] by (rule imuBack_mod[OF rng])
  have bl: "b \<noteq> l" using imuBack_neq[OF rng] unfolding bS Sl .
  have dS: "imuDt S = dt" unfolding imuDt_def bS Sl dt_def using bl by (simp add: S)
  have slot: "imuTime g' l = stamp m \<and> imuRoll g' l = rpy_roll m \<and> imuPitch g' l = rpy_pitch m
       \<and> imuYaw g' l = rpy_yaw m
       \<and> imuAccX g' l = linear_acceleration_y m - sin (rpy_roll m) * cos (rpy_pitch m) * 9.81
       \<and> imuAccY g' l = linear_acceleration_z m - cos (rpy_roll m) * cos (rpy_pitch m) * 9.81
       \<and> imuAccZ g' l = linear_acceleration_x m + sin (rpy_pitch m) * 9.81"
    unfolding g' by (simp add: S)
  have run: "dt < scanPeriod \<longrightarrow>
            (case accWorld g' l of (ax, ay, az) \<Rightarrow>
               imuShiftX g' l = imuShiftX g b + imuVeloX g b * dt + ax * dt * dt / 2
             \<and> imuShiftY g' l = imuShiftY g b + imuVeloY g b * dt + ay * dt * dt / 2
             \<and> imuShiftZ g' l = imuShiftZ g b + imuVeloZ g b * dt + az * dt * dt / 2
             \<and> imuVeloX g' l = imuVeloX g b + ax * dt
             \<and> imuVeloY g' l = imuVeloY g b + ay * dt
             \<and> imuVeloZ g' l = imuVeloZ g b + az * dt)"
  proof
    assume d: "dt < scanPeriod"
    obtain ax ay az where a: "accWorld S (imuPointerLast S) = (ax, ay, az)"
      using prod_cases3 by blast
    have d': "imuDt S < scanPeriod" using d dS by simp
    have a': "accWorld g' l = (ax, ay, az)" using a by (simp add: g' Sl)
    have v: "imuShiftX S = imuShiftX g" "imuShiftY S = imuShiftY g" "imuShiftZ S = imuShiftZ g"
      "imuVeloX S = imuVeloX g" "imuVeloY S = imuVeloY g" "imuVeloZ S = imuVeloZ g"
      by (simp_all add: S_def)
    note f = AccumulateIMUShift_formulas(1-6)[OF rng d' a g', unfolded bS dS Sl v]
    show "case accWorld g' l of (ax, ay, az) \<Rightarrow>
               imuShiftX g' l = imuShiftX g b + imuVeloX g b * dt + ax * dt * dt / 2
             \<and> imuShiftY g' l = imuShiftY g b + imuVeloY g b * dt + ay * dt * dt / 2
             \<and> imuShiftZ g' l = imuShiftZ g b + imuVeloZ g b * dt + az * dt * dt / 2
             \<and> imuVeloX g' l = imuVeloX g b + ax * dt
             \<and> imuVeloY g' l = imuVeloY g b + ay * dt
             \<and> imuVeloZ g' l = imuVeloZ g b + az * dt"
      unfolding a' using f by simp
  qed
  have skip: "\<not> dt < scanPeriod \<longrightarrow>
             imuShiftX g' l = imuShiftX g l \<and> imuShiftY g' l = imuShiftY g l
           \<and> imuShiftZ g' l = imuShiftZ g l \<and> imuVeloX g' l = imuVeloX g l
           \<and> imuVeloY g' l = imuVeloY g l \<and> imuVeloZ g' l = imuVeloZ g l"
  proof
    assume "\<not> dt < scanPeriod"
    then have "\<not> imuDt S < scanPeriod" using dS by simp
    then have "g' = S" unfolding g' by (rule AccumulateIMUShift_skip)
    then show "imuShiftX g' l = imuShiftX g l \<and> imuShiftY g' l = imuShiftY g l
           \<and> imuShiftZ g' l = imuShiftZ g l \<and> imuVeloX g' l = imuVeloX g l
           \<and> imuVeloY g' l = imuVeloY g l \<and> imuVeloZ g' l = imuVeloZ g l"
      by (simp add: S_def)
  qed
  obtain sx sy sz vx vy vz where A: "g' = S \<or> g' = S\<lparr>imuShiftX := (imuShiftX S)(l := sx),
      imuShiftY := (imuShiftY S)(l := sy), imuShiftZ := (imuShiftZ S)(l := sz),
      imuVeloX := (imuVeloX S)(l := vx), imuVeloY := (imuVeloY S)(l := vy),
      imuVeloZ := (imuVeloZ S)(l := vz)\<rparr>"
  proof (cases "imuDt S < scanPeriod")
    case False
    then have "g' = S" by (simp add: g' AccumulateIMUShift_skip)
    then show ?thesis using that by blast
  next
    case True
    obtain ax ay az where a: "accWorld S (imuPointerLast S) = (ax, ay, az)"
      using prod_cases3 by blast
    show ?thesis using that AccumulateIMUShift_run[OF True a] unfolding g' Sl by blast
  qed
  from A have frame: "\<forall>j. j \<noteq> l \<longrightarrow>
          imuTime g' j = imuTime g j \<and> imuRoll g' j = imuRoll g j
        \<and> imuPitch g' j = imuPitch g j \<and> imuYaw g' j = imuYaw g j
        \<and> imuAccX g' j = imuAccX g j \<and> imuAccY g' j = imuAccY g j \<and> imuAccZ g' j = imuAccZ g j
        \<and> imuVeloX g' j = imuVeloX g j \<and> imuVeloY g' j = imuVeloY g j \<and> imuVeloZ g' j = imuVeloZ g j
        \<and> imuShiftX g' j = imuShiftX g j \<and> imuShiftY g' j = imuShiftY g j
        \<and> imuShiftZ g' j = imuShiftZ g j"
  proof
    assume "g' = S" then show ?thesis by (simp add: S)
  next
    assume "g' = S\<lparr>imuShiftX := (imuShiftX S)(l := sx),
      imuShiftY := (imuShiftY S)(l := sy), imuShiftZ := (imuShiftZ S)(l := sz),
      imuVeloX := (imuVeloX S)(l := vx), imuVeloY := (imuVeloY S)(l := vy),
      imuVeloZ := (imuVeloZ S)(l := vz)\<rparr>"
    then show ?thesis by (simp add: S)
  qed
  from A have rest: "g'\<lparr>imuPointerLast := imuPointerLast g, imuTime := imuTime g, imuRoll := imuRoll g,
          imuPitch := imuPitch g, imuYaw := imuYaw g, imuAccX := imuAccX g, imuAccY := imuAccY g,
          imuAccZ := imuAccZ g, imuVeloX := imuVeloX g, imuVeloY := imuVeloY g,
          imuVeloZ := imuVeloZ g, imuShiftX := imuShiftX g, imuShiftY := imuShiftY g,
          imuShiftZ := imuShiftZ g\<rparr> = g"
  proof
    assume "g' = S" then show ?thesis by (simp add: S)
  next
    assume "g' = S\<lparr>imuShiftX := (imuShiftX S)(l := sx),
      imuShiftY := (imuShiftY S)(l := sy), imuShiftZ := (imuShiftZ S)(l := sz),
      imuVeloX := (imuVeloX S)(l := vx), imuVeloY := (imuVeloY S)(l := vy),
      imuVeloZ := (imuVeloZ S)(l := vz)\<rparr>"
    then show ?thesis by (simp add: S)
  qed
  show ?thesis
    unfolding Let_def l' b_def[symmetric] dt_def[symmetric]
    using lst[unfolded l'] slot run skip frame rest by blast
qed

lemma firstSample_slot:
  "imuAccX firstSample 0 = 1" "imuPointerFront firstSample = 0"
proof -
  have l: "imuPointerLast (imuStore (levelMsg 1000 (1, 0, 0)) init_globals) = 0"
    using firstSample_facts(2) unfolding firstSample_eq .
  show "imuAccX firstSample 0 = 1"
    using imuStore_simps(5)[of "levelMsg 1000 (1, 0, 0)" init_globals]
    unfolding firstSample_eq l by (simp add: levelMsg_def)
  show "imuPointerFront firstSample = 0"
    unfolding firstSample_eq by (simp add: imuStore_def Let_def init_globals_def)
qed

theorem imuHandler_frame_witness:
  "ring_ok firstSample
   \<and> imuPointerLast rolledSample = 1
   \<and> imuTime rolledSample 1 = 1000 + 1 / 20 \<and> imuRoll rolledSample 1 = pi / 2
   \<and> imuAccX rolledSample 1 = 1 \<and> imuAccY rolledSample 1 = 2 \<and> imuAccZ rolledSample 1 = 3
   \<and> imuVeloX rolledSample 1 = - 1 / 10 \<and> imuVeloY rolledSample 1 = 1 / 20
   \<and> imuVeloZ rolledSample 1 = 3 / 20
   \<and> imuShiftX rolledSample 1 = - 1 / 400 \<and> imuShiftY rolledSample 1 = 1 / 800
   \<and> imuShiftZ rolledSample 1 = 3 / 800
   \<and> imuTime rolledSample 0 = 1000 \<and> imuAccX rolledSample 0 = 1
   \<and> imuPointerFront rolledSample = 0
   \<and> ring_ok wrappedRing \<and> imuPointerLast wrappedRing = 0
   \<and> imuPointerLast (imuHandler (rolledMsg 1300) wrappedRing) = 1
   \<and> imuTime (imuHandler (rolledMsg 1300) wrappedRing) 1 = 1300
   \<and> imuAccZ (imuHandler (rolledMsg 1300) wrappedRing) 1 = 3
   \<and> imuVeloX (imuHandler (rolledMsg 1300) wrappedRing) 1 = - 1 / 10
   \<and> imuVeloY (imuHandler (rolledMsg 1300) wrappedRing) 1 = 1 / 20
   \<and> imuShiftZ (imuHandler (rolledMsg 1300) wrappedRing) 1 = 3 / 800
   \<and> imuTime (imuHandler (rolledMsg 1300) wrappedRing) 0 = 1199 + 1 / 20"
proof -
  note f = imuHandler_frame[OF firstSample_facts(1) rolledSample_def]
  have m: "stamp (rolledMsg t) = t" "rpy_roll (rolledMsg t) = pi / 2"
    "rpy_pitch (rolledMsg t) = 0" "rpy_yaw (rolledMsg t) = 0"
    "linear_acceleration_x (rolledMsg t) = 3" "linear_acceleration_y (rolledMsg t) = 1 + 9.81"
    "linear_acceleration_z (rolledMsg t) = 2" for t
    by (simp_all add: rolledMsg_def)
  have l1: "imuPointerLast rolledSample = 1"
    using f by (simp add: firstSample_facts imuQueLength_def)
  have b1: "(imuPointerLast rolledSample - 1) mod imuQueLength = 0"
    by (simp add: l1 imuQueLength_def)
  have d1: "stamp (rolledMsg (1000 + 1 / 20)) - imuTime firstSample 0 = 1 / 20"
    by (simp add: m firstSample_facts)
  have sl: "imuTime rolledSample 1 = 1000 + 1 / 20" "imuRoll rolledSample 1 = pi / 2"
    "imuPitch rolledSample 1 = 0" "imuYaw rolledSample 1 = 0"
    "imuAccX rolledSample 1 = 1" "imuAccY rolledSample 1 = 2" "imuAccZ rolledSample 1 = 3"
    using f unfolding Let_def b1 d1 unfolding l1 by (simp_all add: m)
  have a1: "accWorld rolledSample 1 = (- 2, 1, 3)"
    by (simp add: accWorld_def Rx_def Ry_def Rz_def sl)
  have "(1::real) / 20 < scanPeriod" by (simp add: scanPeriod_def)
  with f have vs: "imuShiftX rolledSample 1 = - 1 / 400" "imuShiftY rolledSample 1 = 1 / 800"
    "imuShiftZ rolledSample 1 = 3 / 800" "imuVeloX rolledSample 1 = - 1 / 10"
    "imuVeloY rolledSample 1 = 1 / 20" "imuVeloZ rolledSample 1 = 3 / 20"
    unfolding Let_def b1 d1 unfolding l1 a1 by (simp_all add: firstSample_facts)
  have "(0::int) \<noteq> imuPointerLast rolledSample" by (simp add: l1)
  with f have o: "imuTime rolledSample 0 = imuTime firstSample 0"
    "imuAccX rolledSample 0 = imuAccX firstSample 0" by blast+
  from f have e: "rolledSample\<lparr>imuPointerLast := imuPointerLast firstSample,
          imuTime := imuTime firstSample, imuRoll := imuRoll firstSample,
          imuPitch := imuPitch firstSample, imuYaw := imuYaw firstSample,
          imuAccX := imuAccX firstSample, imuAccY := imuAccY firstSample,
          imuAccZ := imuAccZ firstSample, imuVeloX := imuVeloX firstSample,
          imuVeloY := imuVeloY firstSample, imuVeloZ := imuVeloZ firstSample,
          imuShiftX := imuShiftX firstSample, imuShiftY := imuShiftY firstSample,
          imuShiftZ := imuShiftZ firstSample\<rparr> = firstSample" by blast
  have pf: "imuPointerFront rolledSample = imuPointerFront firstSample"
    using arg_cong[OF e, of imuPointerFront] by simp
  have r1: "ring_ok rolledSample"
    unfolding rolledSample_def by (rule imuHandler_ring_ok[OF firstSample_facts(1)])
  have p1: "0 \<le> imuPointerLast rolledSample" by (simp add: l1)
  have sp: "scanPeriod \<le> 1" by (simp add: scanPeriod_def)
  have w: "wrappedRing = imuRun (levelRun (imuTime rolledSample (imuPointerLast rolledSample))
              1 (1, 0, 0) 199) rolledSample"
    unfolding l1 sl(1) by (rule wrappedRing_def)
  note gap = imuRun_gap[OF r1 p1 sp w]
  have rw: "ring_ok wrappedRing" using gap by blast
  have lw: "imuPointerLast wrappedRing = 0" using gap unfolding l1 by simp
  have tw: "imuTime wrappedRing 0 = 1199 + 1 / 20" using gap unfolding lw l1 sl(1) by simp
  have vw: "imuVeloX wrappedRing 1 = - 1 / 10" "imuVeloY wrappedRing 1 = 1 / 20"
    "imuShiftZ wrappedRing 1 = 3 / 800"
    using gap vs by simp_all
  note h = imuHandler_frame[OF rw refl, of "rolledMsg 1300"]
  have l2: "imuPointerLast (imuHandler (rolledMsg 1300) wrappedRing) = 1"
    using h by (simp add: lw imuQueLength_def)
  have b2: "(imuPointerLast (imuHandler (rolledMsg 1300) wrappedRing) - 1) mod imuQueLength = 0"
    by (simp add: l2 imuQueLength_def)
  have d2: "stamp (rolledMsg 1300) - imuTime wrappedRing 0 = 2019 / 20"
    by (simp add: m tw)
  have s2: "imuTime (imuHandler (rolledMsg 1300) wrappedRing) 1 = 1300"
    "imuAccZ (imuHandler (rolledMsg 1300) wrappedRing) 1 = 3"
    using h unfolding Let_def b2 d2 unfolding l2 by (simp_all add: m)
  have "\<not> (2019::real) / 20 < scanPeriod" by (simp add: scanPeriod_def)
  with h have k: "imuVeloX (imuHandler (rolledMsg 1300) wrappedRing) 1 = imuVeloX wrappedRing 1"
    "imuVeloY (imuHandler (rolledMsg 1300) wrappedRing) 1 = imuVeloY wrappedRing 1"
    "imuShiftZ (imuHandler (rolledMsg 1300) wrappedRing) 1 = imuShiftZ wrappedRing 1"
    unfolding Let_def b2 d2 unfolding l2 by simp_all
  have "(0::int) \<noteq> imuPointerLast (imuHandler (rolledMsg 1300) wrappedRing)" by (simp add: l2)
  with h have o2: "imuTime (imuHandler (rolledMsg 1300) wrappedRing) 0 = imuTime wrappedRing 0"
    by blast
  show ?thesis
    using firstSample_facts(1) l1 sl vs o pf rw lw l2 s2 k vw o2 tw
    by (simp add: firstSample_facts firstSample_slot)
qed

text \<open>
  C1.  The claim is that a sample arriving \<open>scanPeriod\<close> or more after its predecessor
  leaves zero velocity and position in its slot, also when the slot is reused.  On
  \<open>staleRun\<close> the last of 202 samples arrives one second after its predecessor, falls on
  slot 1, and the slot still holds the velocity and position integrated for the second
  sample: the skipped branch writes nothing.
\<close>

theorem imu_gap_keeps_stale_slot:
  "length staleRun = 202 \<and>
   imuPointerLast (imuRun staleRun init_globals) = 1 \<and>
   scanPeriod \<le> imuDt (imuRun staleRun init_globals) \<and>
   imuVeloX (imuRun staleRun init_globals) 1 = 1 / 20 \<and>
   imuShiftX (imuRun staleRun init_globals) 1 = 1 / 800"
proof -
  define g1 where "g1 = imuHandler (levelMsg (1000 + 1 / 20) (1, 0, 0)) firstSample"
  define g2 where "g2 = imuRun (levelRun (1000 + 1 / 20) 1 (1, 0, 0) 200) g1"
  have run: "imuRun staleRun init_globals = g2"
    by (simp add: staleRun_def imuRun_def g2_def g1_def firstSample_def)
  have d: "1000 + 1 / 20 - imuTime firstSample (imuPointerLast firstSample) < scanPeriod"
    by (simp add: firstSample_facts scanPeriod_def)
  note st = imuHandler_level_step[OF firstSample_facts(1) _ d g1_def refl]
  have l1: "imuPointerLast g1 = 1"
    unfolding g1_def imuHandler_last[OF firstSample_facts(1)] by (simp add: firstSample_facts)
  have r1: "ring_ok g1" by (rule st(1)) (simp add: firstSample_facts)
  have t1: "imuTime g1 (imuPointerLast g1) = 1000 + 1 / 20" by (rule st(3)) (simp add: firstSample_facts)
  have v1: "imuVeloX g1 1 = 1 / 20"
    using st(4) unfolding l1 by (simp add: firstSample_facts)
  have s1: "imuShiftX g1 1 = 1 / 800"
    using st(7) unfolding l1 by (simp add: firstSample_facts)
  have g2': "g2 = imuRun (levelRun (imuTime g1 (imuPointerLast g1)) 1 (1, 0, 0) 200) g1"
    unfolding t1 by (rule g2_def)
  have p1: "0 \<le> imuPointerLast g1" by (simp add: l1)
  have sp: "scanPeriod \<le> 1" by (simp add: scanPeriod_def)
  note gap = imuRun_gap[OF r1 p1 sp g2']
  have "imuPointerLast g2 = 1" using gap unfolding l1 by simp
  moreover have "scanPeriod \<le> imuDt g2" using gap sp by simp
  moreover have "imuVeloX g2 1 = 1 / 20" using gap v1 by simp
  moreover have "imuShiftX g2 1 = 1 / 800" using gap s1 by simp
  moreover have "length staleRun = 202" by (simp add: staleRun_def levelRun_def)
  ultimately show ?thesis unfolding run by blast
qed


lemma imuHandler_integrates:
  assumes r: "ring_ok g" and g': "g' = imuHandler m g"
    and lst: "lst = imuPointerLast g'" and bck: "bck = (lst - 1) mod imuQueLength"
    and dt: "dt = imuTime g' lst - imuTime g' bck" and lt: "dt < scanPeriod"
    and a: "accWorld g' lst = (ax, ay, az)"
  shows "imuShiftX g' lst = imuShiftX g' bck + imuVeloX g' bck * dt + 1 / 2 * ax * dt\<^sup>2
       \<and> imuShiftY g' lst = imuShiftY g' bck + imuVeloY g' bck * dt + 1 / 2 * ay * dt\<^sup>2
       \<and> imuShiftZ g' lst = imuShiftZ g' bck + imuVeloZ g' bck * dt + 1 / 2 * az * dt\<^sup>2
       \<and> imuVeloX g' lst = imuVeloX g' bck + ax * dt
       \<and> imuVeloY g' lst = imuVeloY g' bck + ay * dt
       \<and> imuVeloZ g' lst = imuVeloZ g' bck + az * dt"
proof -
  define S where "S = imuStore m g"
  have gS: "g' = AccumulateIMUShift S" by (simp add: g' imuHandler_eq S_def)
  have l: "imuPointerLast S = lst" by (simp add: lst gS)
  have rng: "0 \<le> imuPointerLast S" "imuPointerLast S < 200"
    using imuStore_last_range[OF r] by (simp_all add: S_def)
  have b: "imuBack S = bck" unfolding bck l[symmetric] by (rule imuBack_mod[OF rng])
  have sdt: "imuDt S = dt" by (simp add: imuDt_def b l dt gS)
  have lt': "imuDt S < scanPeriod" using lt sdt by simp
  have a': "accWorld S (imuPointerLast S) = (ax, ay, az)" using a by (simp add: gS l)
  note f = AccumulateIMUShift_formulas[OF rng lt' a' gS, unfolded b sdt l]
  show ?thesis
    unfolding f(1-6) f(7-12) by (simp add: power2_eq_square)
qed

text \<open>
  C8.  When the newest sample is less than \<open>scanPeriod\<close> after the sample in the slot
  before it, the handler leaves in the ring
  \<open>s[last] = s[back] + v[back] dt + a[last] dt\<^sup>2 / 2\<close> and \<open>v[last] = v[back] + a[last] dt\<close>,
  where \<open>a[last]\<close> is the stored acceleration rotated by \<open>Ry(yaw) Rx(pitch) Rz(roll)\<close>.
  Consequently \<open>n\<close> samples of a level platform with constant acceleration \<open>a\<close>,
  spaced \<open>dt < scanPeriod\<close> and following a sample at rest, end with
  \<open>v = a (n dt)\<close> and \<open>s = a (n dt)\<^sup>2 / 2\<close>.
\<close>

theorem imu_uniform_acceleration:
  assumes "ring_ok g"
  shows "(let g' = imuHandler m g; lst = imuPointerLast g';
              bck = (lst - 1) mod imuQueLength;
              dt = imuTime g' lst - imuTime g' bck
          in dt < scanPeriod \<longrightarrow>
             (case accWorld g' lst of (ax, ay, az) \<Rightarrow>
                imuShiftX g' lst = imuShiftX g' bck + imuVeloX g' bck * dt + 1 / 2 * ax * dt\<^sup>2
              \<and> imuShiftY g' lst = imuShiftY g' bck + imuVeloY g' bck * dt + 1 / 2 * ay * dt\<^sup>2
              \<and> imuShiftZ g' lst = imuShiftZ g' bck + imuVeloZ g' bck * dt + 1 / 2 * az * dt\<^sup>2
              \<and> imuVeloX g' lst = imuVeloX g' bck + ax * dt
              \<and> imuVeloY g' lst = imuVeloY g' bck + ay * dt
              \<and> imuVeloZ g' lst = imuVeloZ g' bck + az * dt))
       \<and> (0 \<le> imuPointerLast g
            \<and> imuVeloX g (imuPointerLast g) = 0 \<and> imuVeloY g (imuPointerLast g) = 0
            \<and> imuVeloZ g (imuPointerLast g) = 0 \<and> imuShiftX g (imuPointerLast g) = 0
            \<and> imuShiftY g (imuPointerLast g) = 0 \<and> imuShiftZ g (imuPointerLast g) = 0
            \<and> h < scanPeriod \<longrightarrow>
          (let g' = imuRun (levelRun (imuTime g (imuPointerLast g)) h (bx, b2, bz) n) g;
               lst = imuPointerLast g'
           in imuVeloX g' lst = bx * (real n * h) \<and> imuVeloY g' lst = b2 * (real n * h)
            \<and> imuVeloZ g' lst = bz * (real n * h)
            \<and> imuShiftX g' lst = 1 / 2 * bx * (real n * h)\<^sup>2
            \<and> imuShiftY g' lst = 1 / 2 * b2 * (real n * h)\<^sup>2
            \<and> imuShiftZ g' lst = 1 / 2 * bz * (real n * h)\<^sup>2))"
proof (intro conjI)
  show "let g' = imuHandler m g; lst = imuPointerLast g';
              bck = (lst - 1) mod imuQueLength;
              dt = imuTime g' lst - imuTime g' bck
          in dt < scanPeriod \<longrightarrow>
             (case accWorld g' lst of (ax, ay, az) \<Rightarrow>
                imuShiftX g' lst = imuShiftX g' bck + imuVeloX g' bck * dt + 1 / 2 * ax * dt\<^sup>2
              \<and> imuShiftY g' lst = imuShiftY g' bck + imuVeloY g' bck * dt + 1 / 2 * ay * dt\<^sup>2
              \<and> imuShiftZ g' lst = imuShiftZ g' bck + imuVeloZ g' bck * dt + 1 / 2 * az * dt\<^sup>2
              \<and> imuVeloX g' lst = imuVeloX g' bck + ax * dt
              \<and> imuVeloY g' lst = imuVeloY g' bck + ay * dt
              \<and> imuVeloZ g' lst = imuVeloZ g' bck + az * dt)"
    unfolding Let_def
  proof (intro impI)
    assume lt: "imuTime (imuHandler m g) (imuPointerLast (imuHandler m g))
        - imuTime (imuHandler m g) ((imuPointerLast (imuHandler m g) - 1) mod imuQueLength) < scanPeriod"
    obtain ax ay az where a: "accWorld (imuHandler m g) (imuPointerLast (imuHandler m g)) = (ax, ay, az)"
      using prod_cases3 by blast
    show "case accWorld (imuHandler m g) (imuPointerLast (imuHandler m g)) of (ax, ay, az) \<Rightarrow>
        imuShiftX (imuHandler m g) (imuPointerLast (imuHandler m g)) =
          imuShiftX (imuHandler m g) ((imuPointerLast (imuHandler m g) - 1) mod imuQueLength)
          + imuVeloX (imuHandler m g) ((imuPointerLast (imuHandler m g) - 1) mod imuQueLength)
            * (imuTime (imuHandler m g) (imuPointerLast (imuHandler m g))
        - imuTime (imuHandler m g) ((imuPointerLast (imuHandler m g) - 1) mod imuQueLength))
          + 1 / 2 * ax * (imuTime (imuHandler m g) (imuPointerLast (imuHandler m g))
        - imuTime (imuHandler m g) ((imuPointerLast (imuHandler m g) - 1) mod imuQueLength))\<^sup>2
      \<and> imuShiftY (imuHandler m g) (imuPointerLast (imuHandler m g)) =
          imuShiftY (imuHandler m g) ((imuPointerLast (imuHandler m g) - 1) mod imuQueLength)
          + imuVeloY (imuHandler m g) ((imuPointerLast (imuHandler m g) - 1) mod imuQueLength)
            * (imuTime (imuHandler m g) (imuPointerLast (imuHandler m g))
        - imuTime (imuHandler m g) ((imuPointerLast (imuHandler m g) - 1) mod imuQueLength))
          + 1 / 2 * ay * (imuTime (imuHandler m g) (imuPointerLast (imuHandler m g))
        - imuTime (imuHandler m g) ((imuPointerLast (imuHandler m g) - 1) mod imuQueLength))\<^sup>2
      \<and> imuShiftZ (imuHandler m g) (imuPointerLast (imuHandler m g)) =
          imuShiftZ (imuHandler m g) ((imuPointerLast (imuHandler m g) - 1) mod imuQueLength)
          + imuVeloZ (imuHandler m g) ((imuPointerLast (imuHandler m g) - 1) mod imuQueLength)
            * (imuTime (imuHandler m g) (imuPointerLast (imuHandler m g))
        - imuTime (imuHandler m g) ((imuPointerLast (imuHandler m g) - 1) mod imuQueLength))
          + 1 / 2 * az * (imuTime (imuHandler m g) (imuPointerLast (imuHandler m g))
        - imuTime (imuHandler m g) ((imuPointerLast (imuHandler m g) - 1) mod imuQueLength))\<^sup>2
      \<and> imuVeloX (imuHandler m g) (imuPointerLast (imuHandler m g)) =
          imuVeloX (imuHandler m g) ((imuPointerLast (imuHandler m g) - 1) mod imuQueLength)
          + ax * (imuTime (imuHandler m g) (imuPointerLast (imuHandler m g))
        - imuTime (imuHandler m g) ((imuPointerLast (imuHandler m g) - 1) mod imuQueLength))
      \<and> imuVeloY (imuHandler m g) (imuPointerLast (imuHandler m g)) =
          imuVeloY (imuHandler m g) ((imuPointerLast (imuHandler m g) - 1) mod imuQueLength)
          + ay * (imuTime (imuHandler m g) (imuPointerLast (imuHandler m g))
        - imuTime (imuHandler m g) ((imuPointerLast (imuHandler m g) - 1) mod imuQueLength))
      \<and> imuVeloZ (imuHandler m g) (imuPointerLast (imuHandler m g)) =
          imuVeloZ (imuHandler m g) ((imuPointerLast (imuHandler m g) - 1) mod imuQueLength)
          + az * (imuTime (imuHandler m g) (imuPointerLast (imuHandler m g))
        - imuTime (imuHandler m g) ((imuPointerLast (imuHandler m g) - 1) mod imuQueLength))"
      unfolding a prod.case
      by (rule imuHandler_integrates[OF assms refl refl refl refl lt a])
  qed
next
  show "0 \<le> imuPointerLast g
            \<and> imuVeloX g (imuPointerLast g) = 0 \<and> imuVeloY g (imuPointerLast g) = 0
            \<and> imuVeloZ g (imuPointerLast g) = 0 \<and> imuShiftX g (imuPointerLast g) = 0
            \<and> imuShiftY g (imuPointerLast g) = 0 \<and> imuShiftZ g (imuPointerLast g) = 0
            \<and> h < scanPeriod \<longrightarrow>
          (let g' = imuRun (levelRun (imuTime g (imuPointerLast g)) h (bx, b2, bz) n) g;
               lst = imuPointerLast g'
           in imuVeloX g' lst = bx * (real n * h) \<and> imuVeloY g' lst = b2 * (real n * h)
            \<and> imuVeloZ g' lst = bz * (real n * h)
            \<and> imuShiftX g' lst = 1 / 2 * bx * (real n * h)\<^sup>2
            \<and> imuShiftY g' lst = 1 / 2 * b2 * (real n * h)\<^sup>2
            \<and> imuShiftZ g' lst = 1 / 2 * bz * (real n * h)\<^sup>2)"
  proof (intro impI, elim conjE)
    assume p: "0 \<le> imuPointerLast g" and h: "h < scanPeriod"
      and z: "imuVeloX g (imuPointerLast g) = 0" "imuVeloY g (imuPointerLast g) = 0"
        "imuVeloZ g (imuPointerLast g) = 0" "imuShiftX g (imuPointerLast g) = 0"
        "imuShiftY g (imuPointerLast g) = 0" "imuShiftZ g (imuPointerLast g) = 0"
    show "let g' = imuRun (levelRun (imuTime g (imuPointerLast g)) h (bx, b2, bz) n) g;
               lst = imuPointerLast g'
           in imuVeloX g' lst = bx * (real n * h) \<and> imuVeloY g' lst = b2 * (real n * h)
            \<and> imuVeloZ g' lst = bz * (real n * h)
            \<and> imuShiftX g' lst = 1 / 2 * bx * (real n * h)\<^sup>2
            \<and> imuShiftY g' lst = 1 / 2 * b2 * (real n * h)\<^sup>2
            \<and> imuShiftZ g' lst = 1 / 2 * bz * (real n * h)\<^sup>2"
      using imuRun_level[OF assms p h refl, of bx b2 bz n] unfolding z Let_def by simp
  qed
qed


theorem imu_uniform_acceleration_witness:
  "ring_ok firstSample
   \<and> imuTime (imuHandler (levelMsg (1000 + 1 / 20) (1, 0, 0)) firstSample) 1
       - imuTime (imuHandler (levelMsg (1000 + 1 / 20) (1, 0, 0)) firstSample) 0 < scanPeriod
   \<and> imuVeloX (imuHandler (levelMsg (1000 + 1 / 20) (1, 0, 0)) firstSample) 1
       = imuVeloX (imuHandler (levelMsg (1000 + 1 / 20) (1, 0, 0)) firstSample) 0 + 1 * (1 / 20)
   \<and> (1 / 100 :: real) < scanPeriod
   \<and> imuVeloX (imuRun (levelRun 1000 (1 / 100) (1, 2, 3) 2) firstSample)
        (imuPointerLast (imuRun (levelRun 1000 (1 / 100) (1, 2, 3) 2) firstSample)) = 1 / 50
   \<and> imuShiftZ (imuRun (levelRun 1000 (1 / 100) (1, 2, 3) 2) firstSample)
        (imuPointerLast (imuRun (levelRun 1000 (1 / 100) (1, 2, 3) 2) firstSample)) = 3 / 5000"
proof -
  define m where "m = levelMsg (1000 + 1 / 20) (1, 0, 0)"
  define g1 where "g1 = imuHandler m firstSample"
  define g2 where "g2 = imuRun (levelRun 1000 (1 / 100) (1, 2, 3) 2) firstSample"
  note r = firstSample_facts(1)
  note ua = imu_uniform_acceleration[OF r, of m "1 / 100" 1 2 3 2, unfolded Let_def,
      folded g1_def, unfolded firstSample_facts, folded g2_def]
  have l1: "imuPointerLast g1 = 1"
    unfolding g1_def imuHandler_last[OF r] by (simp add: firstSample_facts)
  have b1: "(imuPointerLast g1 - 1) mod imuQueLength = 0" by (simp add: l1 imuQueLength_def)
  have S: "g1 = AccumulateIMUShift (imuStore m firstSample)" by (simp add: g1_def imuHandler_eq)
  have lS: "imuPointerLast (imuStore m firstSample) = 1" using l1 by (simp add: S)
  have sm: "stamp m = 1000 + 1 / 20" by (simp add: m_def levelMsg_def)
  have t1: "imuTime g1 1 = 1000 + 1 / 20"
    unfolding S AccumulateIMUShift_time using imuStore_simps(1)[of m firstSample]
    unfolding lS sm by simp
  have t0: "imuTime g1 0 = 1000"
    unfolding S AccumulateIMUShift_time using imuStore_time_other[of 0 m firstSample]
    unfolding lS by (simp add: firstSample_facts)
  have a: "accWorld g1 1 = (1, 0, 0)"
    unfolding S AccumulateIMUShift_accWorld
    using accWorld_level[of "1000 + 1 / 20" 1 0 0 firstSample, folded m_def]
    unfolding lS by simp
  have d: "imuTime g1 1 - imuTime g1 0 < scanPeriod" by (simp add: t1 t0 scanPeriod_def)
  have h: "(1 / 100 :: real) < scanPeriod" by (simp add: scanPeriod_def)
  from ua have p1: "imuTime g1 1 - imuTime g1 0 < scanPeriod \<longrightarrow>
      imuVeloX g1 1 = imuVeloX g1 0 + 1 * (imuTime g1 1 - imuTime g1 0)"
    unfolding l1 b1[unfolded l1] a by simp
  from ua h have p2: "imuVeloX g2 (imuPointerLast g2) = 1 * (real 2 * (1 / 100))"
    "imuShiftZ g2 (imuPointerLast g2) = 1 / 2 * 3 * (real 2 * (1 / 100))\<^sup>2"
    by simp_all
  have "imuVeloX g1 1 = imuVeloX g1 0 + 1 * (1 / 20)" using p1 d by (simp add: t1 t0)
  moreover have "imuVeloX g2 (imuPointerLast g2) = 1 / 50" using p2(1) by simp
  moreover have "imuShiftZ g2 (imuPointerLast g2) = 3 / 5000" using p2(2) by (simp add: power2_eq_square)
  ultimately show ?thesis using r d h unfolding g1_def g2_def m_def by blast
qed


section \<open>Properties of the binary rounding\<close>

text \<open>
  The rounding error is at most half a unit in the last place, a value strictly inside a
  rounding interval is rounded to its centre, and the digits of \<open>pi\<close>, \<open>cos 1\<close> and
  \<open>sin 1\<close> that decide the roundings below.
\<close>

lemma roundEven_err: "\<bar>of_int (roundEven r) - r\<bar> \<le> 1 / 2"
proof -
  have "of_int \<lfloor>r\<rfloor> \<le> r" "r < of_int \<lfloor>r\<rfloor> + 1" by linarith+
  then show ?thesis by (auto simp: roundEven_def Let_def)
qed

lemma roundEven_near:
  assumes "of_int n - 1 / 2 < r" "r < of_int n + 1 / 2"
  shows "roundEven r = n"
proof -
  have "\<bar>of_int (roundEven r) - of_int n\<bar> < (1::real)"
    using roundEven_err[of r] assms by linarith
  then have "\<bar>roundEven r - n\<bar> < 1" by linarith
  then show ?thesis by linarith
qed

lemma roundEven_int: "roundEven (of_int n) = n"
  by (rule roundEven_near) simp_all

lemma roundTo_err:
  assumes "\<bar>r\<bar> < 2 powr of_int k" "emin < k"
  shows "\<bar>roundTo p emin r - r\<bar> \<le> 2 powr of_int (k - int p) / 2"
proof (cases "r = 0")
  case True
  then show ?thesis by (simp add: roundTo_def)
next
  case False
  define e where "e = max \<lfloor>log 2 \<bar>r\<bar>\<rfloor> emin"
  define u where "u = (2::real) powr of_int (e + 1 - int p)"
  have u0: "0 < u" by (simp add: u_def)
  have "log 2 \<bar>r\<bar> < of_int k"
    using assms(1) False by (simp add: log_less_iff)
  then have "\<lfloor>log 2 \<bar>r\<bar>\<rfloor> < k" by linarith
  then have "e + 1 \<le> k" using assms(2) by (simp add: e_def)
  then have "(of_int (e + 1 - int p) :: real) \<le> of_int (k - int p)" by simp
  then have ule: "u \<le> 2 powr of_int (k - int p)"
    unfolding u_def by (rule powr_mono) simp
  have r: "roundTo p emin r = of_int (roundEven (r / u)) * u"
    using False by (simp add: roundTo_def Let_def e_def u_def)
  have "\<bar>of_int (roundEven (r / u)) * u - r\<bar> = \<bar>of_int (roundEven (r / u)) - r / u\<bar> * u"
  proof -
    have "of_int (roundEven (r / u)) * u - r = (of_int (roundEven (r / u)) - r / u) * u"
      using u0 by (simp add: algebra_simps)
    then show ?thesis using u0 by (simp add: abs_mult)
  qed
  also have "\<dots> \<le> 1 / 2 * u"
    by (rule mult_right_mono[OF roundEven_err]) (use u0 in simp)
  also have "\<dots> \<le> 2 powr of_int (k - int p) / 2" using ule by simp
  finally show ?thesis unfolding r .
qed

lemma roundTo_eval:
  assumes "2 powr of_int e \<le> \<bar>r\<bar>" "\<bar>r\<bar> < 2 powr of_int (e + 1)" "emin \<le> e"
  shows "roundTo p emin r
       = of_int (roundEven (r / 2 powr of_int (e + 1 - int p))) * 2 powr of_int (e + 1 - int p)"
proof -
  have "0 < \<bar>r\<bar>" using assms(1) by (smt (verit) powr_gt_zero)
  then have n: "r \<noteq> 0" by simp
  have "\<lfloor>log 2 \<bar>r\<bar>\<rfloor> = e"
    using assms(1,2) \<open>0 < \<bar>r\<bar>\<close> by (subst floor_log_eq_powr_iff) simp_all
  then show ?thesis using n assms(3) by (simp add: roundTo_def Let_def max_def)
qed


lemma roundTo_val:
  assumes "2 powr of_int e \<le> \<bar>r\<bar>" "\<bar>r\<bar> < 2 powr of_int (e + 1)" "emin \<le> e"
    and "u = 2 powr of_int (e + 1 - int p)"
    and "of_int n - 1 / 2 < r / u" "r / u < of_int n + 1 / 2"
  shows "roundTo p emin r = of_int n * u"
  unfolding roundTo_eval[OF assms(1-3)] assms(4)[symmetric]
  by (simp add: roundEven_near[OF assms(5,6)])

lemma fl32_err4: "\<bar>r\<bar> < 4 \<Longrightarrow> \<bar>fl32 r - r\<bar> \<le> 1 / 8388608"
  using roundTo_err[of r 2 "- 126" 24] by (simp add: fl32_def powr_neg_numeral)

lemma fl32_err16: "\<bar>r\<bar> < 16 \<Longrightarrow> \<bar>fl32 r - r\<bar> \<le> 1 / 2097152"
  using roundTo_err[of r 4 "- 126" 24] by (simp add: fl32_def powr_neg_numeral)

lemma fl64_err16: "\<bar>r\<bar> < 16 \<Longrightarrow> \<bar>fl64 r - r\<bar> \<le> 1 / 1125899906842624"
  using roundTo_err[of r 4 "- 1022" 53] by (simp add: fl64_def powr_neg_numeral)

lemma arctan_partial_sums:
  assumes "0 < u" "u \<le> 1"
  shows "(\<Sum>k<2 * n. (- 1) ^ k * (1 / real (k * 2 + 1) * u ^ (k * 2 + 1))) \<le> arctan u"
    and "arctan u \<le> (\<Sum>k<2 * n + 1. (- 1) ^ k * (1 / real (k * 2 + 1) * u ^ (k * 2 + 1)))"
proof -
  have a: "\<bar>u\<bar> \<le> 1" using assms by simp
  have p: "0 < 1 / real (0 * 2 + 1) * u ^ (0 * 2 + 1)" using assms by simp
  from summable_Leibniz(2)[OF zeroseq_arctan_series[OF a] monoseq_arctan_series[OF a]] p
  have "(\<Sum>i. (- 1) ^ i * (1 / real (i * 2 + 1) * u ^ (i * 2 + 1)))
      \<in> {\<Sum>i<2 * n. (- 1) ^ i * (1 / real (i * 2 + 1) * u ^ (i * 2 + 1)) ..
          \<Sum>i<2 * n + 1. (- 1) ^ i * (1 / real (i * 2 + 1) * u ^ (i * 2 + 1))}"
    by blast
  then show "(\<Sum>k<2 * n. (- 1) ^ k * (1 / real (k * 2 + 1) * u ^ (k * 2 + 1))) \<le> arctan u"
    and "arctan u \<le> (\<Sum>k<2 * n + 1. (- 1) ^ k * (1 / real (k * 2 + 1) * u ^ (k * 2 + 1)))"
    unfolding arctan_series[OF a] by simp_all
qed

lemma pi_digits: "31415926535 / 10000000000 < pi" "pi < 31415926536 / 10000000000"
proof -
  have m: "pi = 16 * arctan (1 / 5) - 4 * arctan (1 / 239)" using machin by simp
  show "31415926535 / 10000000000 < pi" "pi < 31415926536 / 10000000000"
    unfolding m
    using arctan_partial_sums[of "1 / 5" 4] arctan_partial_sums[of "1 / 239" 4]
    by (simp_all add: eval_nat_numeral)
qed


lemma fl32_zero: "fl32 0 = 0"
  by (simp add: fl32_def roundTo_def)











section \<open>Properties of the motion compensation\<close>














section \<open>Properties of the azimuth framing\<close>

text \<open>
  In exact arithmetic \<open>startOri\<close> lies in \<open>[-pi, pi]\<close>, the uncorrected \<open>endOri\<close> in
  \<open>[pi, 3 pi]\<close>, and the single correction leaves \<open>endOri - startOri\<close> in \<open>[pi, 3 pi]\<close>.
  In the source \<open>startOri\<close> and \<open>endOri\<close> are binary32 values compared with multiples of the
  binary64 constant \<open>M_PI\<close>; what happens at the two bounds is decided by these roundings,
  which \<open>azimuthFramingFloat\<close> models.
\<close>

lemma atan2_bounds: "- pi \<le> atan2 b a \<and> atan2 b a \<le> pi"
proof -
  have l: "- (pi / 2) < arctan (b / a)" and u: "arctan (b / a) < pi / 2"
    by (rule arctan_lbound, rule arctan_ubound)
  consider "0 < a" | "a < 0" "0 \<le> b" | "a < 0" "b < 0" | "a = 0"
    by linarith
  then show ?thesis
  proof cases
    case 1
    then have "atan2 b a = arctan (b / a)" by (simp add: atan2_def)
    then show ?thesis using l u pi_gt_zero by linarith
  next
    case 2
    then have "b / a \<le> 0" by (simp add: divide_nonneg_neg)
    then have "arctan (b / a) \<le> 0" using arctan_le_zero_iff by blast
    moreover have "atan2 b a = arctan (b / a) + pi" using 2 by (simp add: atan2_def)
    ultimately show ?thesis using l pi_gt_zero by linarith
  next
    case 3
    then have "0 < b / a" by (simp add: divide_neg_neg)
    then have "0 < arctan (b / a)" using zero_less_arctan_iff by blast
    moreover have "atan2 b a = arctan (b / a) - pi" using 3 by (simp add: atan2_def)
    ultimately show ?thesis using u pi_gt_zero by linarith
  next
    case 4
    then have "atan2 b a = pi / 2 \<or> atan2 b a = - pi / 2 \<or> atan2 b a = 0"
      by (simp add: atan2_def)
    then show ?thesis using pi_gt_zero by linarith
  qed
qed

lemma normalizeEndOri_window:
  assumes "- pi \<le> s" "s \<le> pi" "pi \<le> e" "e \<le> 3 * pi"
  shows "pi \<le> normalizeEndOri s e - s \<and> normalizeEndOri s e - s \<le> 3 * pi"
  using assms pi_gt_zero by (auto simp: normalizeEndOri_def)

lemma azimuthFraming_nonempty:
  assumes "cloud \<noteq> []"
  shows "azimuthFraming cloud =
    Some (- atan2 (y (hd cloud)) (x (hd cloud)),
          normalizeEndOri (- atan2 (y (hd cloud)) (x (hd cloud)))
             (- atan2 (y (last cloud)) (x (last cloud)) + 2 * pi))"
proof -
  have n: "0 < length cloud" using assms by simp
  have a: "points_at cloud 0 = Some (hd cloud)"
    using assms by (simp add: points_at_def hd_conv_nth)
  have "nat (int (length cloud) - 1) = length cloud - 1" by simp
  then have b: "points_at cloud (int (length cloud) - 1) = Some (last cloud)"
    using assms n by (simp add: points_at_def last_conv_nth)
  show ?thesis by (simp add: azimuthFraming_def a b Let_def)
qed

lemma atan2_axis: "atan2 0 1 = 0" "atan2 0 (- 1) = pi"
  by (simp_all add: atan2_def)

lemma fl64_two_pi: "fl64 (2 * M_PI) = 884279719003555 / 140737488355328"
  unfolding fl64_def M_PI_def
  by (subst roundTo_val[where e = 2 and n = 7074237752028440 and u = "1 / 1125899906842624"])
    (simp_all add: powr_neg_numeral)

lemma fl64_three_pi: "fl64 (3 * M_PI) = 2652839157010665 / 281474976710656"
  unfolding fl64_def M_PI_def
  by (subst roundTo_val[where e = 3 and n = 5305678314021330 and u = "1 / 562949953421312"])
    (simp_all add: powr_neg_numeral)

lemma fl32_pi: "fl32 pi = 13176795 / 4194304"
proof -
  have "roundTo 24 (- 126) pi = of_int 13176795 * (1 / 4194304)"
  proof (rule roundTo_val[where e = 1])
    show "2 powr real_of_int 1 \<le> \<bar>pi\<bar>" using pi_ge_two by simp
    show "\<bar>pi\<bar> < 2 powr real_of_int (1 + 1)" using pi_less_4 by simp
    show "(- 126::int) \<le> 1" by simp
    show "(1::real) / 4194304 = 2 powr real_of_int (1 + 1 - int 24)"
      by (simp add: powr_neg_numeral)
    show "real_of_int 13176795 - 1 / 2 < pi / (1 / 4194304)" using pi_digits(1) by simp
    show "pi / (1 / 4194304) < real_of_int 13176795 + 1 / 2" using pi_digits(2) by simp
  qed
  then show ?thesis by (simp add: fl32_def)
qed

lemma fl64_boundary_a:
  "fl64 (- (13176795 / 4194304) + 884279719003555 / 140737488355328)
     = 442139847198115 / 140737488355328"
  unfolding fl64_def
  by (subst roundTo_val[where e = 1 and n = 7074237555169840 and u = "1 / 2251799813685248"])
    (simp_all add: powr_neg_numeral)

lemma fl32_boundary_a: "fl32 (442139847198115 / 140737488355328) = 6588397 / 2097152"
  unfolding fl32_def
  by (subst roundTo_val[where e = 1 and n = 13176794 and u = "1 / 4194304"])
    (simp_all add: powr_neg_numeral)

lemma fl32_boundary_b: "fl32 (6588397 / 2097152) = 6588397 / 2097152"
  unfolding fl32_def
  by (subst roundTo_val[where e = 1 and n = 13176794 and u = "1 / 4194304"])
    (simp_all add: powr_neg_numeral)

lemma fl64_boundary_c:
  "fl64 (6588397 / 2097152 + 884279719003555 / 140737488355328)
     = 1326419557254563 / 140737488355328"
  unfolding fl64_def
  by (subst roundTo_val[where e = 3 and n = 5305678229018252 and u = "1 / 562949953421312"])
    (simp_all add: powr_neg_numeral)

lemma fl32_boundary_c: "fl32 (1326419557254563 / 140737488355328) = 2470649 / 262144"
  unfolding fl32_def
  by (subst roundTo_val[where e = 3 and n = 9882596 and u = "1 / 1048576"])
    (simp_all add: powr_neg_numeral)

lemma framing_boundary:
  "azimuthFramingFloat [rayPoint 1 0 0, rayPoint (- 1) 0 0] = Some (0, 2470649 / 262144)"
proof -
  have p: "points_at [rayPoint 1 0 0, rayPoint (- 1) 0 0] 0 = Some (rayPoint 1 0 0)"
    "points_at [rayPoint 1 0 0, rayPoint (- 1) 0 0]
       (int (length [rayPoint 1 0 0, rayPoint (- 1) 0 0]) - 1) = Some (rayPoint (- 1) 0 0)"
    by (simp_all add: points_at_def)
  have c: "x (rayPoint 1 0 0) = 1" "y (rayPoint 1 0 0) = 0"
    "x (rayPoint (- 1) 0 0) = - 1" "y (rayPoint (- 1) 0 0) = 0"
    by (simp_all add: rayPoint_def)
  have s: "- atan2f 0 1 = 0" by (simp add: atan2f_def atan2_axis fl32_zero)
  have a: "atan2f 0 (- 1) = 13176795 / 4194304" by (simp add: atan2f_def atan2_axis fl32_pi)
  have e0: "fl32 (fl64 (- atan2f 0 (- 1) + fl64 (2 * M_PI))) = 6588397 / 2097152"
    by (simp only: a fl64_two_pi fl64_boundary_a fl32_boundary_a)
  have d: "fl32 (6588397 / 2097152 - 0) = 6588397 / 2097152"
    by (simp add: fl32_boundary_b)
  have c1: "\<not> fl64 (3 * M_PI) < 6588397 / 2097152" by (simp add: fl64_three_pi)
  have c2: "6588397 / 2097152 < M_PI" by (simp add: M_PI_def)
  have e1: "fl32 (fl64 (6588397 / 2097152 + fl64 (2 * M_PI))) = 2470649 / 262144"
    by (simp only: fl64_two_pi fl64_boundary_c fl32_boundary_c)
  show ?thesis
    by (simp only: azimuthFramingFloat_def Let_def p c s e0 d c1 c2 e1 bind.bind_lunit
        if_True if_False)
qed

lemma abs_lt_16:
  fixes r :: real
  assumes "- 16 < r" "r < 16"
  shows "\<bar>r\<bar> < 16"
  using assms by (simp add: abs_less_iff)

lemma fl32_near4:
  assumes "- pi \<le> t" "t \<le> pi"
  shows "t - 1 / 8388608 \<le> fl32 t" "fl32 t \<le> t + 1 / 8388608"
proof -
  have "\<bar>t\<bar> < 4" using assms pi_less_4 by (simp add: abs_less_iff)
  from fl32_err4[OF this] show "t - 1 / 8388608 \<le> fl32 t" "fl32 t \<le> t + 1 / 8388608"
    by linarith+
qed

lemma fl32_near16:
  assumes "- 16 < r" "r < 16"
  shows "r - 1 / 2097152 \<le> fl32 r" "fl32 r \<le> r + 1 / 2097152"
  using fl32_err16[OF abs_lt_16[OF assms]] by linarith+

lemma fl64_near16:
  assumes "- 16 < r" "r < 16"
  shows "r - 1 / 1125899906842624 \<le> fl64 r" "fl64 r \<le> r + 1 / 1125899906842624"
  using fl64_err16[OF abs_lt_16[OF assms]] by linarith+

lemma fl32_fl64_near16:
  assumes "- 159 / 10 < r" "r < 159 / 10"
  shows "r - 1 / 2000000 \<le> fl32 (fl64 r)" "fl32 (fl64 r) \<le> r + 1 / 2000000"
proof -
  have a: "- 16 < r" "r < 16" using assms by simp_all
  note f = fl64_near16[OF a]
  have b: "- 16 < fl64 r" "fl64 r < 16" using f assms by linarith+
  note g = fl32_near16[OF b]
  show "r - 1 / 2000000 \<le> fl32 (fl64 r)" "fl32 (fl64 r) \<le> r + 1 / 2000000"
    using f g by linarith+
qed



lemma M_PI_near: "31415926535 / 10000000000 < M_PI" "M_PI < 31415926536 / 10000000000"
  by (simp_all add: M_PI_def)

lemma fl64_pi_multiples: "fl64 (2 * M_PI) = 2 * M_PI" "fl64 (3 * M_PI) = 3 * M_PI"
  unfolding fl64_two_pi fl64_three_pi by (simp_all add: M_PI_def)

lemma framing_window:
  assumes t0: "- pi \<le> t0" "t0 \<le> pi" and tN: "- pi \<le> tN" "tN \<le> pi"
    and s: "s = - fl32 t0"
    and e0: "e0 = fl32 (fl64 (- fl32 tN + fl64 (2 * M_PI)))"
    and e1: "e1 = (if fl32 (e0 - s) > fl64 (3 * M_PI) then fl32 (fl64 (e0 - fl64 (2 * M_PI)))
                   else if fl32 (e0 - s) < M_PI then fl32 (fl64 (e0 + fl64 (2 * M_PI)))
                   else e0)"
  shows "pi - 1 / 1000000 \<le> e1 - s \<and> e1 - s \<le> 3 * pi + 1 / 1000000"
proof -
  note P = pi_digits and M = M_PI_near
  note a0 = fl32_near4[OF t0] and aN = fl32_near4[OF tN]
  define w where "w = - fl32 tN + 2 * M_PI"
  have wb: "- 159 / 10 < w" "w < 159 / 10"
    unfolding w_def using aN tN P M by linarith+
  note f0 = fl32_fl64_near16[OF wb]
  have e0w: "e0 = fl32 (fl64 w)" by (simp add: e0 w_def fl64_pi_multiples)
  have lo0: "2 * M_PI - fl32 tN - 1 / 2000000 \<le> e0" and hi0: "e0 \<le> 2 * M_PI - fl32 tN + 1 / 2000000"
    using f0 unfolding e0w w_def by linarith+
  have db: "- 16 < e0 - s" "e0 - s < 16"
    using lo0 hi0 a0 aN t0 tN P M unfolding s by linarith+
  note d = fl32_near16[OF db]
  consider (hi) "fl32 (e0 - s) > 3 * M_PI"
    | (lo) "\<not> fl32 (e0 - s) > 3 * M_PI" "fl32 (e0 - s) < M_PI"
    | (mid) "\<not> fl32 (e0 - s) > 3 * M_PI" "\<not> fl32 (e0 - s) < M_PI"
    by blast
  then show ?thesis
  proof cases
    case hi
    have v: "e1 = fl32 (fl64 (e0 - 2 * M_PI))" using hi by (simp add: e1 fl64_pi_multiples)
    have b: "- 159 / 10 < e0 - 2 * M_PI" "e0 - 2 * M_PI < 159 / 10"
      using lo0 hi0 aN tN P M by linarith+
    note g = fl32_fl64_near16[OF b]
    have "pi - 1 / 1000000 \<le> e1 - s" using g d hi P M unfolding v by linarith
    moreover have "e1 - s \<le> 3 * pi + 1 / 1000000"
      using g hi0 a0 aN t0 tN P M unfolding v s by linarith
    ultimately show ?thesis by blast
  next
    case lo
    have v: "e1 = fl32 (fl64 (e0 + 2 * M_PI))" using lo by (simp add: e1 fl64_pi_multiples)
    have b: "- 159 / 10 < e0 + 2 * M_PI" "e0 + 2 * M_PI < 159 / 10"
      using lo0 hi0 aN tN P M by linarith+
    note g = fl32_fl64_near16[OF b]
    have "pi - 1 / 1000000 \<le> e1 - s"
      using g lo0 a0 aN t0 tN P M unfolding v s by linarith
    moreover have "e1 - s \<le> 3 * pi + 1 / 1000000" using g d lo P M unfolding v by linarith
    ultimately show ?thesis by blast
  next
    case mid
    have v: "e1 = e0" using mid by (simp add: e1 fl64_pi_multiples)
    show ?thesis using d mid P M unfolding v by linarith
  qed
qed

lemma fl64_turn_a:
  "fl64 (884279719003555 / 140737488355328) = 884279719003555 / 140737488355328"
  unfolding fl64_def
  by (subst roundTo_val[where e = 2 and n = 7074237752028440 and u = "1 / 1125899906842624"])
    (simp_all add: powr_neg_numeral)

lemma fl32_turn_a: "fl32 (884279719003555 / 140737488355328) = 13176795 / 2097152"
  unfolding fl32_def
  by (subst roundTo_val[where e = 2 and n = 13176795 and u = "1 / 2097152"])
    (simp_all add: powr_neg_numeral)

lemma fl32_turn_b: "fl32 (39530385 / 4194304) = 2470649 / 262144"
  unfolding fl32_def
  by (subst roundTo_val[where e = 3 and n = 9882596 and u = "1 / 1048576"])
    (simp_all add: powr_neg_numeral)

lemma fl64_turn_c: "fl64 (24607325 / 140737488355328) = 24607325 / 140737488355328"
  unfolding fl64_def
  by (subst roundTo_val[where e = "- 23" and n = 6605478507315200
        and u = "1 / 37778931862957161709568"])
    (simp_all add: powr_neg_numeral)

text \<open>A tie: \<open>24607325 / 2\<close> units of \<open>2\<^sup>-\<^sup>4\<^sup>6\<close> lie halfway between two neighbours.\<close>

lemma fl32_turn_c: "fl32 (24607325 / 140737488355328) = 6151831 / 35184372088832"
proof -
  have r: "roundEven (24607325 / 2) = 12303662"
    by (simp add: roundEven_def Let_def)
  have u: "(2::real) powr real_of_int (- 23 + 1 - int 24) = 1 / 70368744177664"
    by (simp add: powr_neg_numeral)
  have "roundTo 24 (- 126) (24607325 / 140737488355328)
      = of_int (roundEven (24607325 / 140737488355328 / (1 / 70368744177664))) * (1 / 70368744177664)"
    unfolding u[symmetric]
    by (rule roundTo_eval) (simp_all add: powr_neg_numeral)
  then show ?thesis by (simp add: fl32_def r)
qed

lemma framing_turn:
  "azimuthFramingFloat [rayPoint (- 1) 0 0, rayPoint 1 0 0]
     = Some (- (13176795 / 4194304), 6151831 / 35184372088832)"
proof -
  have p: "points_at [rayPoint (- 1) 0 0, rayPoint 1 0 0] 0 = Some (rayPoint (- 1) 0 0)"
    "points_at [rayPoint (- 1) 0 0, rayPoint 1 0 0]
       (int (length [rayPoint (- 1) 0 0, rayPoint 1 0 0]) - 1) = Some (rayPoint 1 0 0)"
    by (simp_all add: points_at_def)
  have c: "x (rayPoint 1 0 0) = 1" "y (rayPoint 1 0 0) = 0"
    "x (rayPoint (- 1) 0 0) = - 1" "y (rayPoint (- 1) 0 0) = 0"
    by (simp_all add: rayPoint_def)
  have s: "atan2f 0 (- 1) = 13176795 / 4194304" by (simp add: atan2f_def atan2_axis fl32_pi)
  have a: "- atan2f 0 1 = 0" by (simp add: atan2f_def atan2_axis fl32_zero)
  have t: "fl64 (2 * M_PI) = 884279719003555 / 140737488355328" by (rule fl64_two_pi)
  have e0: "fl32 (fl64 (0 + 884279719003555 / 140737488355328)) = 13176795 / 2097152"
    by (simp add: fl64_turn_a fl32_turn_a)
  have d: "fl32 (13176795 / 2097152 - - (13176795 / 4194304)) = 2470649 / 262144"
    using fl32_turn_b by simp
  have c1: "fl64 (3 * M_PI) < 2470649 / 262144" by (simp add: fl64_three_pi)
  have e1: "fl32 (fl64 (13176795 / 2097152 - 884279719003555 / 140737488355328))
      = 6151831 / 35184372088832"
    using fl32_turn_c by (simp add: fl64_turn_c)
  show ?thesis
    by (simp only: azimuthFramingFloat_def Let_def p c s a t e0 d c1 e1 bind.bind_lunit if_True)
qed

text \<open>
  C5.  The claim is that after the single correction \<open>pi < endOri - startOri < 3 pi\<close>.  For
  a cloud whose first point lies on the positive and whose last point lies on the
  negative x axis, \<open>startOri\<close> is \<open>0\<close> and \<open>endOri\<close> is first
  \<open>float(2 M_PI - float(pi)) = 3.1415925\<close>, which is below \<open>M_PI\<close>; the second comparison of
  the source fires and \<open>endOri\<close> becomes \<open>float(3.1415925 + 2 M_PI) = 9.42477798\<close>, which is
  above \<open>3 pi = 9.42477796\<close>.
\<close>

theorem azimuth_window_counterexample:
  "azimuthFramingFloat [rayPoint 1 0 0, rayPoint (- 1) 0 0] = Some (0, 2470649 / 262144)
   \<and> \<not> (pi < 2470649 / 262144 - 0 \<and> 2470649 / 262144 - 0 < 3 * pi)"
  using framing_boundary pi_digits(2) by simp

text \<open>
  C5, as amended.  For every non-empty cloud the framing returns \<open>startOri\<close> and \<open>endOri\<close>
  with \<open>pi - 10\<^sup>-\<^sup>6 \<le> endOri - startOri \<le> 3 pi + 10\<^sup>-\<^sup>6\<close>: the window holds up to the rounding of
  the binary32 angles.
\<close>

theorem azimuth_window:
  assumes "cloud \<noteq> []"
  shows "\<exists>startOri endOri. azimuthFramingFloat cloud = Some (startOri, endOri)
          \<and> pi - 1 / 1000000 \<le> endOri - startOri \<and> endOri - startOri \<le> 3 * pi + 1 / 1000000"
proof -
  have n: "0 < length cloud" using assms by simp
  have "nat (int (length cloud) - 1) = length cloud - 1" by simp
  then have p: "points_at cloud 0 = Some (hd cloud)"
    "points_at cloud (int (length cloud) - 1) = Some (last cloud)"
    using assms n by (simp_all add: points_at_def hd_conv_nth last_conv_nth)
  define s where "s = - fl32 (atan2 (y (hd cloud)) (x (hd cloud)))"
  define e0 where "e0 = fl32 (fl64 (- fl32 (atan2 (y (last cloud)) (x (last cloud))) + fl64 (2 * M_PI)))"
  define e1 where "e1 = (if fl32 (e0 - s) > fl64 (3 * M_PI) then fl32 (fl64 (e0 - fl64 (2 * M_PI)))
                   else if fl32 (e0 - s) < M_PI then fl32 (fl64 (e0 + fl64 (2 * M_PI)))
                   else e0)"
  have "azimuthFramingFloat cloud = Some (s, e1)"
    by (simp add: azimuthFramingFloat_def p atan2f_def Let_def s_def e0_def e1_def)
  moreover have "pi - 1 / 1000000 \<le> e1 - s \<and> e1 - s \<le> 3 * pi + 1 / 1000000"
    using atan2_bounds[of "y (hd cloud)" "x (hd cloud)"]
      atan2_bounds[of "y (last cloud)" "x (last cloud)"]
    by (intro framing_window[OF _ _ _ _ s_def e0_def e1_def]) simp_all
  ultimately show ?thesis by blast
qed

theorem azimuth_window_witness:
  "[rayPoint 1 0 0, rayPoint (- 1) 0 0] \<noteq> []
   \<and> azimuthFramingFloat [rayPoint 1 0 0, rayPoint (- 1) 0 0] = Some (0, 2470649 / 262144)
   \<and> pi - 1 / 1000000 \<le> 2470649 / 262144 - 0 \<and> 2470649 / 262144 - 0 \<le> 3 * pi + 1 / 1000000
   \<and> [rayPoint (- 1) 0 0, rayPoint 1 0 0] \<noteq> []
   \<and> azimuthFramingFloat [rayPoint (- 1) 0 0, rayPoint 1 0 0]
        = Some (- (13176795 / 4194304), 6151831 / 35184372088832)
   \<and> pi - 1 / 1000000 \<le> 6151831 / 35184372088832 - - (13176795 / 4194304)
   \<and> 6151831 / 35184372088832 - - (13176795 / 4194304) \<le> 3 * pi + 1 / 1000000"
proof -
  have n: "[rayPoint 1 0 0, rayPoint (- 1) 0 0] \<noteq> []" "[rayPoint (- 1) 0 0, rayPoint 1 0 0] \<noteq> []"
    by simp_all
  from azimuth_window[OF n(1)] obtain s e where
    h: "azimuthFramingFloat [rayPoint 1 0 0, rayPoint (- 1) 0 0] = Some (s, e)"
    and w: "pi - 1 / 1000000 \<le> e - s" "e - s \<le> 3 * pi + 1 / 1000000"
    by blast
  from h have "(s, e) = (0, 2470649 / 262144)"
    unfolding framing_boundary by (simp only: option.inject)
  then have v: "s = 0" "e = 2470649 / 262144" by blast+
  have a: "pi - 1 / 1000000 \<le> 2470649 / 262144 - 0 \<and> 2470649 / 262144 - 0 \<le> 3 * pi + 1 / 1000000"
    using w unfolding v by (rule conjI)
  from azimuth_window[OF n(2)] obtain s' e' where
    h': "azimuthFramingFloat [rayPoint (- 1) 0 0, rayPoint 1 0 0] = Some (s', e')"
    and w': "pi - 1 / 1000000 \<le> e' - s'" "e' - s' \<le> 3 * pi + 1 / 1000000"
    by blast
  from h' have "(s', e') = (- (13176795 / 4194304), 6151831 / 35184372088832)"
    unfolding framing_turn by (simp only: option.inject)
  then have v': "s' = - (13176795 / 4194304)" "e' = 6151831 / 35184372088832" by blast+
  have b: "pi - 1 / 1000000 \<le> 6151831 / 35184372088832 - - (13176795 / 4194304)
     \<and> 6151831 / 35184372088832 - - (13176795 / 4194304) \<le> 3 * pi + 1 / 1000000"
    using w' unfolding v' by (rule conjI)
  show ?thesis using n a b framing_boundary framing_turn by blast
qed

section \<open>The ingestion on concrete sweeps\<close>

lemma elevation_vals:
  "elevationAngle \<lparr>x = 0, y = 1, z = 1, intensity = 0\<rparr> = Some 45"
  "elevationAngle \<lparr>x = 0, y = 0, z = 1, intensity = 0\<rparr> = Some 0"
  "elevationAngle \<lparr>x = 1, y = 0, z = 1, intensity = 0\<rparr> = Some 0"
  by (simp_all add: elevationAngle_def Let_def arctan_one)

lemma scanID_vals: "scanIDOf 45 = 45" "scanIDOf 0 = 15"
  by (simp_all add: scanIDOf_def Let_def c_int_def N_SCANS_def)

lemma atan2_diag: "atan2 1 1 = pi / 4"
  by (simp add: atan2_def arctan_one)

lemma removeNaN_simps:
  "removeNaNFromPointCloud [] = []"
  "removeNaNFromPointCloud (None # ps) = removeNaNFromPointCloud ps"
  "removeNaNFromPointCloud (Some p # ps) = p # removeNaNFromPointCloud ps"
  by (simp_all add: removeNaNFromPointCloud_def)

lemma framing_vals:
  "azimuthFraming [rayPoint 1 0 0, rayPoint 1 1 0, rayPoint 1 0 0] = Some (0, 2 * pi)"
  "azimuthFraming [rayPoint 1 0 1, rayPoint 1 0 0] = Some (0, 2 * pi)"
  using pi_gt_zero
  by (simp_all add: azimuthFraming_def points_at_def rayPoint_def atan2_axis normalizeEndOri_def Let_def)

lemma pi_cmp:
  "\<not> pi * 3 < - (pi / 2)" "\<not> - (pi / 4) < - (pi / 2)" "\<not> pi * 3 < - (pi / 4) * 2"
  "\<not> pi * 3 / 2 < - (pi / 4)" "\<not> pi < - (pi / 4)" "\<not> pi * 3 < 0" "\<not> pi * 3 / 2 < 0"
  using pi_gt_zero by linarith+

lemma backwardSweep_loop:
  "ingestSweep backwardSweep g = ingestLoop 10 0 (2 * pi) 0
      [rayPoint 1 0 0, rayPoint 1 1 0, rayPoint 1 0 0]
      (g, \<lparr>halfPassed = False, count = 3, laserCloudScans = (\<lambda>_. [])\<rparr>)"
  by (simp add: ingestSweep_def backwardSweep_def removeNaN_simps framing_vals Let_def)

lemma ingestPoint_level_front:
  assumes "imuPointerLast g = - 1"
  shows "ingestPoint 10 0 (2 * pi) i (rayPoint 1 0 0) (g, \<lparr>halfPassed = False, count = c, laserCloudScans = sc\<rparr>)
    = Some (g, \<lparr>halfPassed = False, count = c,
          laserCloudScans = sc(15 := sc 15 @ [\<lparr>x = 0, y = 0, z = 1, intensity = 15\<rparr>])\<rparr>)"
  using pi_gt_zero assms
  by (simp add: ingestPoint_def rayPoint_def elevation_vals scanID_vals N_SCANS_def azimuthOf_def
      atan2_axis Let_def pi_cmp)

lemma ingestPoint_level_behind:
  assumes "imuPointerLast g = - 1"
  shows "ingestPoint 10 0 (2 * pi) i (rayPoint 1 1 0) (g, \<lparr>halfPassed = False, count = c, laserCloudScans = sc\<rparr>)
    = Some (g, \<lparr>halfPassed = False, count = c,
          laserCloudScans = sc(15 := sc 15 @ [\<lparr>x = 1, y = 0, z = 1, intensity = 1199 / 80\<rparr>])\<rparr>)"
  using pi_gt_zero assms
  by (simp add: ingestPoint_def rayPoint_def elevation_vals scanID_vals N_SCANS_def azimuthOf_def
      atan2_diag Let_def scanPeriod_def pi_cmp)

text \<open>
  C6.  The claim is that the integer part of the stored intensity is the beam index and
  that the fractional part divided by \<open>scanPeriod\<close> lies in \<open>[-0.5, 1.5]\<close>.  In
  \<open>backwardSweep\<close> all three points are put into the container of beam 15; the second
  has \<open>relTime = -1/8\<close>, so its intensity is \<open>15 - 1/80\<close>: its integer part is 14 and its
  fractional part divided by \<open>scanPeriod\<close> is \<open>9.875\<close>.
\<close>

theorem intensity_decoding_backward_point:
  "map_option (\<lambda>gs. map intensity (laserCloudScans (snd gs) 15))
      (ingestSweep backwardSweep init_globals) = Some [15, 1199 / 80, 15]
   \<and> \<lfloor>1199 / 80 :: real\<rfloor> = 14
   \<and> (1199 / 80 - real_of_int \<lfloor>1199 / 80 :: real\<rfloor>) / scanPeriod = 79 / 8"
proof -
  have l: "imuPointerLast init_globals = - 1" by (simp add: init_globals_def)
  have "map_option (\<lambda>gs. map intensity (laserCloudScans (snd gs) 15))
      (ingestSweep backwardSweep init_globals) = Some [15, 1199 / 80, 15]"
    by (simp add: backwardSweep_loop ingestPoint_level_front[OF l] ingestPoint_level_behind[OF l])
  moreover have "\<lfloor>1199 / 80 :: real\<rfloor> = 14" by simp
  ultimately show ?thesis by (simp add: scanPeriod_def)
qed

lemma tiltedSample_eq:
  "tiltedSample = imuStore \<lparr>stamp = 5, rpy_roll = 1 / 10, rpy_pitch = 0, rpy_yaw = 0,
      linear_acceleration_x = 0, linear_acceleration_y = 0, linear_acceleration_z = 981 / 100\<rparr>
      init_globals"
proof -
  define m where "m = \<lparr>stamp = 5, rpy_roll = 1 / 10, rpy_pitch = 0, rpy_yaw = 0,
      linear_acceleration_x = 0, linear_acceleration_y = 0, linear_acceleration_z = 981 / 100\<rparr>"
  have l: "imuPointerLast (imuStore m init_globals) = 0"
    by (simp add: imuStore_def Let_def init_globals_def imuQueLength_def)
  have b: "imuBack (imuStore m init_globals) = 199"
    by (simp add: imuBack_def l imuQueLength_def)
  have "imuDt (imuStore m init_globals) = 5"
    unfolding imuDt_def b l
    by (simp add: imuStore_def Let_def init_globals_def imuQueLength_def m_def)
  then have "AccumulateIMUShift (imuStore m init_globals) = imuStore m init_globals"
    by (intro AccumulateIMUShift_skip) (simp add: scanPeriod_def)
  then show ?thesis unfolding tiltedSample_def imuHandler_eq m_def .
qed

lemma tiltedSample_facts:
  "imuPointerLast tiltedSample = 0" "imuPointerFront tiltedSample = 0"
  "imuTime tiltedSample 0 = 5" "imuRoll tiltedSample 0 = 1 / 10"
  "imuRollStart tiltedSample = 0" "imuRollCur tiltedSample = 0"
  unfolding tiltedSample_eq
  by (simp_all add: imuStore_def Let_def init_globals_def imuQueLength_def)

lemma steepFirstSweep_loop:
  "ingestSweep steepFirstSweep g = ingestLoop 10 0 (2 * pi) 0
      [rayPoint 1 0 1, rayPoint 1 0 0]
      (g, \<lparr>halfPassed = False, count = 2, laserCloudScans = (\<lambda>_. [])\<rparr>)"
  by (simp add: ingestSweep_def steepFirstSweep_def removeNaN_simps framing_vals Let_def)

lemma ingestPoint_steep:
  "ingestPoint 10 0 (2 * pi) i (rayPoint 1 0 1) (g, \<lparr>halfPassed = False, count = c, laserCloudScans = sc\<rparr>)
    = Some (g, \<lparr>halfPassed = False, count = c - 1, laserCloudScans = sc\<rparr>)"
  by (simp add: ingestPoint_def rayPoint_def elevation_vals scanID_vals N_SCANS_def Let_def)

lemma imuCompensate_tilted:
  "map_option (\<lambda>gp. (imuRollStart (fst gp), imuRollCur (fst gp)))
     (imuCompensate 10 0 1 p tiltedSample) = Some (0, 1 / 10)"
proof -
  have a: "advanceFront 10 tiltedSample = Some tiltedSample"
    by (subst advanceFront.simps) (simp add: tiltedSample_facts)
  have s: "map_option imuRollCur (imuStateAt 10 tiltedSample) = Some (1 / 10)"
    "map_option imuRollStart (imuStateAt 10 tiltedSample) = Some 0"
    by (simp_all add: imuStateAt_def ring_rd_def imuQueLength_def tiltedSample_facts Let_def)
  obtain h where h: "imuStateAt 10 tiltedSample = Some h" "imuRollCur h = 1 / 10" "imuRollStart h = 0"
    using s by auto
  have c: "imuRollCur (VeloToStartIMU (ShiftToStartIMU t h)) = imuRollCur h"
    "imuRollStart (VeloToStartIMU (ShiftToStartIMU t h)) = imuRollStart h" for t
    by (simp_all add: VeloToStartIMU_def ShiftToStartIMU_def Let_def)
  show ?thesis
    by (simp add: imuCompensate_def a h c Let_def)
qed

text \<open>
  C2.  The claim is that the start state of a sweep is the IMU state at the time of its
  first kept point.  In \<open>steepFirstSweep\<close> the first finite point is outside the field of
  view and the second is kept; with one IMU sample of roll 0.1 in the ring the kept point
  is compensated with the current roll 0.1 while the start roll keeps its old value 0,
  because the latch tests the loop index \<open>i == 0\<close>, which the rejected point used up.
\<close>

theorem start_latch_skipped_when_first_point_rejected:
  "map_option (\<lambda>gs. (imuRollStart (fst gs), imuRollCur (fst gs), count (snd gs),
                       length (laserCloudScans (snd gs) 15)))
     (ingestSweep steepFirstSweep tiltedSample) = Some (0, 1 / 10, 1, 1)"
proof -
  define sc :: "int \<Rightarrow> PointType list" where "sc = (\<lambda>_. [])"
  have k: "ingestPoint 10 0 (2 * pi) 1 (rayPoint 1 0 0)
          (tiltedSample, \<lparr>halfPassed = False, count = 1, laserCloudScans = sc\<rparr>)
        = map_option (\<lambda>gp. (fst gp, \<lparr>halfPassed = False, count = 1,
              laserCloudScans = sc(15 := sc 15 @ [snd gp])\<rparr>))
            (imuCompensate 10 0 1 \<lparr>x = 0, y = 0, z = 1, intensity = 15\<rparr> tiltedSample)"
    using pi_gt_zero
    by (cases "imuCompensate 10 0 1 \<lparr>x = 0, y = 0, z = 1, intensity = 15\<rparr> tiltedSample")
       (simp_all add: ingestPoint_def rayPoint_def elevation_vals scanID_vals N_SCANS_def
          azimuthOf_def atan2_axis Let_def pi_cmp tiltedSample_facts split_beta)
  obtain h q where c: "imuCompensate 10 0 1 \<lparr>x = 0, y = 0, z = 1, intensity = 15\<rparr> tiltedSample
        = Some (h, q)" and r: "imuRollStart h = 0" "imuRollCur h = 1 / 10"
    using imuCompensate_tilted[of "\<lparr>x = 0, y = 0, z = 1, intensity = 15\<rparr>"] by auto
  show ?thesis
    by (simp add: steepFirstSweep_loop ingestPoint_steep sc_def[symmetric] k c r) (simp add: sc_def)
qed

section \<open>Invariants of the feature selection\<close>

declare for_lt.simps [simp del] for_le.simps [simp del] for_ge.simps [simp del]

text \<open>A property kept by every iteration, whether it ends in \<open>break\<close> or not, is kept by the loop.\<close>

lemma for_lt_inv:
  assumes "\<forall>i s r. P s \<longrightarrow> body i s = Some r \<longrightarrow> (case r of Next s' \<Rightarrow> P s' | Break s' \<Rightarrow> P s')"
    and "P s" and "for_lt i n body s = Some s'"
  shows "P s'"
  using assms
proof (induction i n body s rule: for_lt.induct)
  case (1 i n body s)
  note step = "1.prems"(1)
  show ?case
  proof (cases "i < n")
    case False
    with "1.prems" show ?thesis by (simp add: for_lt.simps)
  next
    case True
    show ?thesis
    proof (cases "body i s")
      case None
      with True "1.prems" show ?thesis by (simp add: for_lt.simps)
    next
      case (Some r)
      show ?thesis
      proof (cases r)
        case (Next t)
        have "P t" using step "1.prems"(2) Some Next by fastforce
        moreover have "for_lt (i + 1) n body t = Some s'"
          using "1.prems"(3) True Some Next by (simp add: for_lt.simps)
        ultimately show ?thesis using "1.IH"[OF True Some Next step] by blast
      next
        case (Break t)
        have "P t" using step "1.prems"(2) Some Break by fastforce
        moreover have "t = s'" using "1.prems"(3) True Some Break by (simp add: for_lt.simps)
        ultimately show ?thesis by simp
      qed
    qed
  qed
qed

lemma for_le_inv:
  assumes "\<forall>i s r. P s \<longrightarrow> body i s = Some r \<longrightarrow> (case r of Next s' \<Rightarrow> P s' | Break s' \<Rightarrow> P s')"
    and "P s" and "for_le i n body s = Some s'"
  shows "P s'"
  using assms
proof (induction i n body s rule: for_le.induct)
  case (1 i n body s)
  note step = "1.prems"(1)
  show ?case
  proof (cases "i \<le> n")
    case False
    with "1.prems" show ?thesis by (simp add: for_le.simps)
  next
    case True
    show ?thesis
    proof (cases "body i s")
      case None
      with True "1.prems" show ?thesis by (simp add: for_le.simps)
    next
      case (Some r)
      show ?thesis
      proof (cases r)
        case (Next t)
        have "P t" using step "1.prems"(2) Some Next by fastforce
        moreover have "for_le (i + 1) n body t = Some s'"
          using "1.prems"(3) True Some Next by (simp add: for_le.simps)
        ultimately show ?thesis using "1.IH"[OF True Some Next step] by blast
      next
        case (Break t)
        have "P t" using step "1.prems"(2) Some Break by fastforce
        moreover have "t = s'" using "1.prems"(3) True Some Break by (simp add: for_le.simps)
        ultimately show ?thesis by simp
      qed
    qed
  qed
qed

lemma for_ge_inv:
  assumes "\<forall>i s r. P s \<longrightarrow> body i s = Some r \<longrightarrow> (case r of Next s' \<Rightarrow> P s' | Break s' \<Rightarrow> P s')"
    and "P s" and "for_ge i n body s = Some s'"
  shows "P s'"
  using assms
proof (induction i n body s rule: for_ge.induct)
  case (1 i n body s)
  note step = "1.prems"(1)
  show ?case
  proof (cases "n \<le> i")
    case False
    with "1.prems" show ?thesis by (simp add: for_ge.simps)
  next
    case True
    show ?thesis
    proof (cases "body i s")
      case None
      with True "1.prems" show ?thesis by (simp add: for_ge.simps)
    next
      case (Some r)
      show ?thesis
      proof (cases r)
        case (Next t)
        have "P t" using step "1.prems"(2) Some Next by fastforce
        moreover have "for_ge (i - 1) n body t = Some s'"
          using "1.prems"(3) True Some Next by (simp add: for_ge.simps)
        ultimately show ?thesis using "1.IH"[OF True Some Next step] by blast
      next
        case (Break t)
        have "P t" using step "1.prems"(2) Some Break by fastforce
        moreover have "t = s'" using "1.prems"(3) True Some Break by (simp add: for_ge.simps)
        ultimately show ?thesis by simp
      qed
    qed
  qed
qed

lemma subseteq_add_mset_right: "A \<subseteq># B \<Longrightarrow> A \<subseteq># add_mset p B"
proof -
  assume "A \<subseteq># B"
  then obtain C where "B = A + C" by (auto simp: mset_subset_eq_exists_conv)
  then have "add_mset p B = A + add_mset p C" by simp
  then show ?thesis by (simp only: mset_subset_eq_add_left)
qed

lemma cornerBody_sharp:
  assumes "sharp_in_lessSharp gf" "cornerBody laserCloud k gf = Some r"
  shows "case r of Next gf' \<Rightarrow> sharp_in_lessSharp gf' | Break gf' \<Rightarrow> sharp_in_lessSharp gf'"
proof -
  obtain g f where gf: "gf = (g, f)" by (cases gf)
  show ?thesis
    using assms unfolding gf cornerBody_def sharp_in_lessSharp_def
    by (auto simp: Let_def subseteq_add_mset_right split: Option.bind_splits if_splits)
qed

lemma flatBody_sharp:
  assumes "sharp_in_lessSharp gf" "flatBody laserCloud k gf = Some r"
  shows "case r of Next gf' \<Rightarrow> sharp_in_lessSharp gf' | Break gf' \<Rightarrow> sharp_in_lessSharp gf'"
proof -
  obtain g f where gf: "gf = (g, f)" by (cases gf)
  show ?thesis
    using assms unfolding gf flatBody_def sharp_in_lessSharp_def
    by (auto simp: Let_def split: Option.bind_splits if_splits)
qed

lemma lessFlatBody_sharp:
  assumes "sharp_in_lessSharp gf" "lessFlatBody laserCloud k gf = Some r"
  shows "case r of Next gf' \<Rightarrow> sharp_in_lessSharp gf' | Break gf' \<Rightarrow> sharp_in_lessSharp gf'"
proof -
  obtain g f where gf: "gf = (g, f)" by (cases gf)
  show ?thesis
    using assms unfolding gf lessFlatBody_def sharp_in_lessSharp_def
    by (auto simp: Let_def split: Option.bind_splits if_splits)
qed

lemma sharp_in_lessSharp_cong:
  "cornerPointsSharp f' = cornerPointsSharp f \<Longrightarrow>
   cornerPointsLessSharp f' = cornerPointsLessSharp f \<Longrightarrow>
   sharp_in_lessSharp (g, f) \<Longrightarrow> sharp_in_lessSharp (g', f')"
  by (simp add: sharp_in_lessSharp_def)

lemma sectorBody_sharp:
  assumes "sharp_in_lessSharp gf" "sectorBody laserCloud b i j gf = Some r"
  shows "case r of Next gf' \<Rightarrow> sharp_in_lessSharp gf' | Break gf' \<Rightarrow> sharp_in_lessSharp gf'"
proof -
  obtain g f where gf: "gf = (g, f)" by (cases gf)
  define sp where "sp = (scanStartInd b i * (6 - j) + scanEndInd b i * j) sdiv 6"
  define ep where "ep = (scanStartInd b i * (5 - j) + scanEndInd b i * (j + 1)) sdiv 6 - 1"
  from assms(2) obtain g1 g2 f2 g3 f3 g4 f4 where
    c: "for_ge ep sp (cornerBody laserCloud) (g1, f\<lparr>largestPickedNum := 0\<rparr>) = Some (g2, f2)"
    and fl: "for_le sp ep (flatBody laserCloud) (g2, f2\<lparr>smallestPickedNum := 0\<rparr>) = Some (g3, f3)"
    and lf: "for_le sp ep (lessFlatBody laserCloud) (g3, f3) = Some (g4, f4)"
    and r: "r = Next (g4, f4)"
    unfolding sectorBody_def gf sp_def ep_def
    by (auto simp: Let_def split: Option.bind_splits prod.splits)
  have "sharp_in_lessSharp (g1, f\<lparr>largestPickedNum := 0\<rparr>)"
    using assms(1) unfolding gf by (simp add: sharp_in_lessSharp_def)
  then have "sharp_in_lessSharp (g2, f2)"
    using for_ge_inv[OF _ _ c, of sharp_in_lessSharp] cornerBody_sharp by blast
  then have "sharp_in_lessSharp (g2, f2\<lparr>smallestPickedNum := 0\<rparr>)"
    by (simp add: sharp_in_lessSharp_def)
  then have "sharp_in_lessSharp (g3, f3)"
    using for_le_inv[OF _ _ fl, of sharp_in_lessSharp] flatBody_sharp by blast
  then have "sharp_in_lessSharp (g4, f4)"
    using for_le_inv[OF _ _ lf, of sharp_in_lessSharp] lessFlatBody_sharp by blast
  then show ?thesis by (simp add: r)
qed

lemma beamBody_sharp:
  assumes "sharp_in_lessSharp gf" "beamBody downSizeFilter laserCloud b i gf = Some r"
  shows "case r of Next gf' \<Rightarrow> sharp_in_lessSharp gf' | Break gf' \<Rightarrow> sharp_in_lessSharp gf'"
proof -
  obtain g f where gf: "gf = (g, f)" by (cases gf)
  from assms(2) obtain g1 f1 where
    s: "for_lt 0 6 (sectorBody laserCloud b i) (g, f\<lparr>surfPointsLessFlatScan := []\<rparr>) = Some (g1, f1)"
    and r: "r = Next (g1, f1\<lparr>surfPointsLessFlat :=
                 surfPointsLessFlat f1 @ downSizeFilter (surfPointsLessFlatScan f1)\<rparr>)"
    unfolding beamBody_def gf
    by (auto simp: Let_def split: Option.bind_splits prod.splits)
  have "sharp_in_lessSharp (g, f\<lparr>surfPointsLessFlatScan := []\<rparr>)"
    using assms(1) unfolding gf by (simp add: sharp_in_lessSharp_def)
  then have "sharp_in_lessSharp (g1, f1)"
    using for_lt_inv[OF _ _ s, of sharp_in_lessSharp] sectorBody_sharp by blast
  then show ?thesis by (simp add: r sharp_in_lessSharp_def)
qed

lemma extractFeatures_sharp:
  assumes "extractFeatures downSizeFilter laserCloud b g = Some (g', f)"
  shows "mset (cornerPointsSharp f) \<subseteq># mset (cornerPointsLessSharp f)"
proof -
  have "sharp_in_lessSharp (g, \<lparr>cornerPointsSharp = [], cornerPointsLessSharp = [], surfPointsFlat = [],
            surfPointsLessFlat = [], surfPointsLessFlatScan = [],
            largestPickedNum = 0, smallestPickedNum = 0\<rparr>)"
    by (simp add: sharp_in_lessSharp_def)
  then have "sharp_in_lessSharp (g', f)"
    using for_lt_inv[OF _ _ assms[unfolded extractFeatures_def], of sharp_in_lessSharp]
      beamBody_sharp by blast
  then show ?thesis by (simp add: sharp_in_lessSharp_def)
qed

text \<open>
  C7.  Whenever the sweep callback publishes, every point of the published sharp cloud is
  in the published less-sharp cloud, with at least the same multiplicity.
\<close>

theorem sharp_subset_lessSharp:
  assumes "laserCloudHandler downSizeFilter laserCloudMsg g = Some (g', Some out)"
  shows "mset (pubCornerPointsSharp out) \<subseteq># mset (pubCornerPointsLessSharp out)"
proof -
  from assms obtain laserCloud b g1 f where
    e: "extractFeatures downSizeFilter laserCloud b g1 = Some (g', f)"
    and o: "pubCornerPointsSharp out = cornerPointsSharp f"
      "pubCornerPointsLessSharp out = cornerPointsLessSharp f"
    unfolding laserCloudHandler_def
    by (auto simp: Let_def split: if_splits Option.bind_splits prod.splits)
  show ?thesis unfolding o by (rule extractFeatures_sharp[OF e])
qed

section \<open>The sweep callback on concrete inputs\<close>

lemma upto_beams: "[0..N_SCANS - 1] = [0,1,2,3,4,5,6,7,8,9,10,11,12,13,14,15]"
  by (simp add: N_SCANS_def upto_rec1)

lemma for_empty:
  "n \<le> i \<Longrightarrow> for_lt i n body s = Some s"
  "n < i \<Longrightarrow> for_le i n body s = Some s"
  "i < n \<Longrightarrow> for_ge i n body s = Some s"
  by (simp_all add: for_lt.simps for_le.simps for_ge.simps)

lemma sectorBody_empty:
  assumes "(scanStartInd b i * (5 - j) + scanEndInd b i * (j + 1)) sdiv 6 - 1
         < (scanStartInd b i * (6 - j) + scanEndInd b i * j) sdiv 6"
  shows "sectorBody laserCloud b i j (g, f)
       = Some (Next (g, f\<lparr>largestPickedNum := 0, smallestPickedNum := 0\<rparr>))"
  using assms by (simp add: sectorBody_def Let_def for_empty)


section \<open>A sweep with an empty beam between two beams\<close>

lemma sqrt_49: "sqrt 49 = 7"
  by (rule real_sqrt_unique) simp_all

lemma arctan_double_le:
  assumes "\<bar>u\<bar> < 1" "2 * u / (1 - u\<^sup>2) \<le> v"
  shows "2 * arctan u \<le> arctan v"
  using arctan_double[OF assms(1)] assms(2) by (simp add: arctan_le_iff)

lemma arctan_seventieth_upper: "arctan (1 / 70) < pi / 120"
proof -
  have "2 * arctan (1 / 70) \<le> arctan (1 / 34)"
    by (rule arctan_double_le) (simp_all add: power2_eq_square)
  moreover have "2 * arctan (1 / 34) \<le> arctan (1 / 16)"
    by (rule arctan_double_le) (simp_all add: power2_eq_square)
  moreover have "2 * arctan (1 / 16) \<le> arctan (1 / 7)"
    by (rule arctan_double_le) (simp_all add: power2_eq_square)
  moreover have "2 * arctan (1 / 7) \<le> arctan (1 / 3)"
    by (rule arctan_double_le) (simp_all add: power2_eq_square)
  moreover have "2 * arctan (1 / 3) \<le> arctan (3 / 4)"
    by (rule arctan_double_le) (simp_all add: power2_eq_square)
  moreover have "arctan (3 / 4) < arctan 1" by (simp add: arctan_less_iff)
  ultimately have "32 * arctan (1 / 70) < pi / 4" unfolding arctan_one by linarith
  then show ?thesis using pi_gt_zero by linarith
qed

lemma arctan_seventieth_lower: "pi / 360 \<le> arctan (1 / 70)"
proof -
  have "sqrt (1 + (1 / 70)\<^sup>2) \<le> 9 / 7"
    by (rule real_le_lsqrt) (simp_all add: power2_eq_square)
  moreover have "0 < sqrt (1 + (1 / 70 :: real)\<^sup>2)" by (simp add: power2_eq_square)
  ultimately have "(1 / 70) / (9 / 7) \<le> (1 / 70) / sqrt (1 + (1 / 70)\<^sup>2)"
    by (intro divide_left_mono) simp_all
  moreover have "sin (arctan (1 / 70)) \<le> arctan (1 / 70)"
    by (rule sin_x_le_x) simp
  ultimately have "1 / 90 \<le> arctan (1 / 70)"
    unfolding sin_arctan by simp
  then show ?thesis using pi_less_4 by linarith
qed

lemma scanID_low: "scanIDOf (arctan (1 / 70) * 180 / pi) = 1"
proof -
  define a where "a = arctan (1 / 70) * 180 / pi"
  have "1 / 2 \<le> a" "a < 3 / 2"
    using arctan_seventieth_lower arctan_seventieth_upper pi_gt_zero
    by (simp_all add: a_def field_simps)
  then have "\<lfloor>a + 1 / 2\<rfloor> = 1" "\<not> a < 0" "0 \<le> a + 1 / 2" by (simp_all add: floor_unique)
  then show ?thesis unfolding a_def[symmetric] by (simp add: scanIDOf_def c_int_def Let_def)
qed

lemma atan2_zero_seven: "atan2 0 7 = 0"
  by (simp add: atan2_def)

lemma ingestPoint_low:
  assumes "imuPointerLast g = - 1"
  shows "ingestPoint 10 0 (2 * pi) i (rayPoint 7 0 (1 / 10))
           (g, \<lparr>halfPassed = False, count = c, laserCloudScans = sc\<rparr>)
    = Some (g, \<lparr>halfPassed = False, count = c,
          laserCloudScans = sc(1 := sc 1 @ [\<lparr>x = 0, y = 1 / 10, z = 7, intensity = 1\<rparr>])\<rparr>)"
proof -
  have e: "elevationAngle \<lparr>x = 0, y = 1 / 10, z = 7, intensity = 0\<rparr> = Some (arctan (1 / 70) * 180 / pi)"
    by (simp add: elevationAngle_def Let_def sqrt_49)
  show ?thesis
    using pi_gt_zero assms
    by (simp add: ingestPoint_def rayPoint_def e scanID_low N_SCANS_def azimuthOf_def
        atan2_zero_seven Let_def pi_cmp)
qed

lemma ingestPoint_plane:
  assumes "imuPointerLast g = - 1"
  shows "ingestPoint 10 0 (2 * pi) i (rayPoint 7 0 0)
           (g, \<lparr>halfPassed = False, count = c, laserCloudScans = sc\<rparr>)
    = Some (g, \<lparr>halfPassed = False, count = c,
          laserCloudScans = sc(15 := sc 15 @ [\<lparr>x = 0, y = 0, z = 7, intensity = 15\<rparr>])\<rparr>)"
proof -
  have e: "elevationAngle \<lparr>x = 0, y = 0, z = 7, intensity = 0\<rparr> = Some 0"
    by (simp add: elevationAngle_def Let_def sqrt_49)
  show ?thesis
    using pi_gt_zero assms
    by (simp add: ingestPoint_def rayPoint_def e scanID_vals N_SCANS_def azimuthOf_def
        atan2_zero_seven Let_def pi_cmp)
qed

lemma framing_gap:
  "azimuthFraming (removeNaNFromPointCloud (raw_points gapSweep)) = Some (0, 2 * pi)"
  using pi_gt_zero
  by (simp add: gapSweep_def eval_nat_numeral removeNaN_simps azimuthFraming_def points_at_def
      rayPoint_def atan2_zero_seven normalizeEndOri_def Let_def)

lemma ingest_gap:
  "ingestSweep gapSweep warmGlobals = Some (warmGlobals,
     \<lparr>halfPassed = False, count = 17,
      laserCloudScans = (\<lambda>_. [])(1 := replicate 11 lowPt, 15 := replicate 6 planePt)\<rparr>)"
proof -
  have l: "imuPointerLast warmGlobals = - 1" by (simp add: warmGlobals_def init_globals_def)
  have r: "removeNaNFromPointCloud (raw_points gapSweep)
      = replicate 11 (rayPoint 7 0 (1 / 10)) @ replicate 6 (rayPoint 7 0 0)"
    by (simp add: gapSweep_def eval_nat_numeral removeNaN_simps)
  have h: "header_stamp gapSweep = 10" by (simp add: gapSweep_def)
  show ?thesis
    unfolding ingestSweep_def Let_def framing_gap h
    by (simp add: r eval_nat_numeral ingestPoint_low[OF l] ingestPoint_plane[OF l]
        lowPt_def planePt_def)
qed

lemma laserCloud_gap:
  "concat (map ((\<lambda>_. [])(1 := replicate 11 lowPt, 15 := replicate 6 planePt)) [0..N_SCANS - 1])
     = gapCloud"
  by (simp add: upto_beams gapCloud_def eval_nat_numeral)

lemma gapCloud_at:
  "points_at gapCloud (- 1) = None"
  "points_at gapCloud 0 = Some lowPt" "points_at gapCloud 1 = Some lowPt"
  "points_at gapCloud 2 = Some lowPt" "points_at gapCloud 3 = Some lowPt"
  "points_at gapCloud 4 = Some lowPt" "points_at gapCloud 5 = Some lowPt"
  "points_at gapCloud 6 = Some lowPt" "points_at gapCloud 7 = Some lowPt"
  "points_at gapCloud 8 = Some lowPt" "points_at gapCloud 9 = Some lowPt"
  "points_at gapCloud 10 = Some lowPt" "points_at gapCloud 11 = Some planePt"
  "points_at gapCloud 12 = Some planePt" "points_at gapCloud 13 = Some planePt"
  "points_at gapCloud 14 = Some planePt" "points_at gapCloud 15 = Some planePt"
  "points_at gapCloud 16 = Some planePt"
  by (simp_all add: points_at_def gapCloud_def)

lemma pt_fields:
  "x lowPt = 0" "y lowPt = 1 / 10" "z lowPt = 7" "intensity lowPt = 1"
  "x planePt = 0" "y planePt = 0" "z planePt = 7" "intensity planePt = 15"
  by (simp_all add: lowPt_def planePt_def)

lemma c_int_vals: "c_int 1 = 1" "c_int 15 = 15"
  by (simp_all add: c_int_def)

lemma curvature_gap:
  "\<exists>g1 b1. for_lt 5 12 (curvatureBody gapCloud)
       (warmGlobals, \<lparr>scanStartInd = (\<lambda>_. 0), scanEndInd = (\<lambda>_. 0), scanCount = - 1\<rparr>) = Some (g1, b1)
     \<and> scanStartInd b1 = (\<lambda>_. 0)(1 := 10, 15 := 16)
     \<and> scanEndInd b1 = (\<lambda>_. 0)(0 := 0, 14 := 6)
     \<and> cloudSortInd g1 0 = 0 \<and> cloudCurvature g1 0 = 0 \<and> cloudNeighborPicked g1 0 = 0"
proof -
  have w: "cloudSortInd warmGlobals = (\<lambda>_. 0)" "cloudCurvature warmGlobals = (\<lambda>_. 0)"
    "cloudNeighborPicked warmGlobals = (\<lambda>_. 0)"
    by (simp_all add: warmGlobals_def init_globals_def)
  show ?thesis
    by (simp add: for_lt.simps curvatureBody_def gapCloud_at pt_fields c_int_vals scratch_wr_def
        Let_def N_SCANS_def w fun_upd_twist)
qed

lemma occlusion_gap:
  "for_lt 5 11 (occlusionBody gapCloud) g = Some g"
  by (simp add: for_lt.simps occlusionBody_def gapCloud_at pt_fields Let_def)

lemma beam_empty:
  assumes "\<forall>j\<in>{0,1,2,3,4,5}. (scanStartInd b i * (5 - j) + scanEndInd b i * (j + 1)) sdiv 6 - 1
         < (scanStartInd b i * (6 - j) + scanEndInd b i * j) sdiv 6"
  shows "\<exists>f'. beamBody downSizeFilter laserCloud b i (g, f) = Some (Next (g, f'))
     \<and> cornerPointsSharp f' = cornerPointsSharp f \<and> cornerPointsLessSharp f' = cornerPointsLessSharp f"
  using assms
  by (simp add: beamBody_def Let_def for_lt.simps sectorBody_empty)

lemma markAndSpread_gap: "markAndSpread gapCloud 0 g = None"
  by (simp add: markAndSpread_def mark_picked_def scratch_wr_def for_le.simps for_ge.simps
      spreadFwdBody_def spreadBwdBody_def gapCloud_at pt_fields Let_def)

lemma sector_gap:
  assumes "scanStartInd b 14 = 0" "scanEndInd b 14 = 6"
    "cloudSortInd g 0 = 0" "cloudCurvature g 0 = 0" "cloudNeighborPicked g 0 = 0"
  shows "sectorBody gapCloud b 14 0 (g, f) = None"
proof -
  have c: "cornerBody gapCloud 0 (g, f') = Some (Next (g, f'))" for f'
    using assms by (simp add: cornerBody_def scratch_rd_def)
  have fl: "flatBody gapCloud 0 (g, f'\<lparr>smallestPickedNum := 0\<rparr>) = None" for f'
    using assms
    by (simp add: flatBody_def scratch_rd_def scratch_wr_def gapCloud_at Let_def markAndSpread_gap)
  show ?thesis
    using assms(1,2)
    by (simp add: sectorBody_def Let_def for_empty for_ge.simps[of 0] for_le.simps[of 0] c fl)
qed

lemma extract_gap:
  assumes "scanStartInd b = (\<lambda>_. 0)(1 := 10, 15 := 16, 0 := 5)"
    "scanEndInd b = (\<lambda>_. 0)(0 := 0, 14 := 6, 15 := 12)"
    "cloudSortInd g 0 = 0" "cloudCurvature g 0 = 0" "cloudNeighborPicked g 0 = 0"
  shows "extractFeatures downSizeFilter gapCloud b g = None"
proof -
  have s: "sectorBody gapCloud b 14 0 (g, f) = None" for f
    by (rule sector_gap) (simp_all add: assms)
  have e: "sectorBody gapCloud b i j (g, f)
       = Some (Next (g, f\<lparr>largestPickedNum := 0, smallestPickedNum := 0\<rparr>))"
    if "i \<in> {0,1,2,3,4,5,6,7,8,9,10,11,12,13}" "j \<in> {0,1,2,3,4,5}" for i j f
    by (rule sectorBody_empty) (use that in \<open>auto simp: assms(1,2)\<close>)
  show ?thesis
    by (simp add: extractFeatures_def N_SCANS_def for_lt.simps beamBody_def Let_def e s)
qed

text \<open>
  C4.  The claim is that the callback completes on every cloud with all accesses in
  bounds, also on a cloud that is empty after the NaN filter and on one in which a beam
  receives no points.  On \<open>emptySweep\<close> line 303 reads \<open>laserCloudIn.points[0]\<close> of an empty
  vector.  On \<open>gapSweep\<close> the ingestion succeeds; beam 14, which has no points, gets the
  bounds \<open>scanStartInd = 0\<close> and \<open>scanEndInd = 6\<close>, its first sector is the index 0, the flat
  loop selects point 0 and the backward spread mask reads \<open>laserCloud->points[-1]\<close>.  In
  both cases the model has no result.
\<close>

theorem sweep_callback_reads_outside:
  "removeNaNFromPointCloud (raw_points emptySweep) = []
   \<and> azimuthFraming (removeNaNFromPointCloud (raw_points emptySweep)) = None
   \<and> laserCloudHandler downSizeFilter emptySweep warmGlobals = None
   \<and> map_option (\<lambda>gs. map length (map (laserCloudScans (snd gs)) [0..N_SCANS - 1]))
         (ingestSweep gapSweep warmGlobals)
       = Some [0, 11, 0, 0, 0, 0, 0, 0, 0, 0, 0, 0, 0, 0, 0, 6]
   \<and> points_at gapCloud (0 + - 1) = None
   \<and> laserCloudHandler downSizeFilter gapSweep warmGlobals = None"
proof -
  have e: "removeNaNFromPointCloud (raw_points emptySweep) = []"
    by (simp add: emptySweep_def removeNaN_simps)
  have a: "azimuthFraming [] = None" by (simp add: azimuthFraming_def points_at_def)
  have i: "ingestSweep emptySweep warmGlobals = None"
    by (simp add: ingestSweep_def e a Let_def)
  have w: "systemInited warmGlobals" by (simp add: warmGlobals_def)
  have h1: "laserCloudHandler downSizeFilter emptySweep warmGlobals = None"
    by (simp add: laserCloudHandler_def w i)
  have n: "map_option (\<lambda>gs. map length (map (laserCloudScans (snd gs)) [0..N_SCANS - 1]))
         (ingestSweep gapSweep warmGlobals)
       = Some [0, 11, 0, 0, 0, 0, 0, 0, 0, 0, 0, 0, 0, 0, 0, 6]"
    by (simp add: ingest_gap upto_beams)
  obtain g1 b1 where c: "for_lt 5 12 (curvatureBody gapCloud)
       (warmGlobals, \<lparr>scanStartInd = (\<lambda>_. 0), scanEndInd = (\<lambda>_. 0), scanCount = - 1\<rparr>) = Some (g1, b1)"
    and b: "scanStartInd b1 = (\<lambda>_. 0)(1 := 10, 15 := 16)" "scanEndInd b1 = (\<lambda>_. 0)(0 := 0, 14 := 6)"
    and g: "cloudSortInd g1 0 = 0" "cloudCurvature g1 0 = 0" "cloudNeighborPicked g1 0 = 0"
    using curvature_gap by blast
  have x: "extractFeatures downSizeFilter gapCloud
       (b1\<lparr>scanStartInd := (scanStartInd b1)(0 := 5),
           scanEndInd := (scanEndInd b1)(N_SCANS - 1 := 12)\<rparr>) g1 = None"
    by (rule extract_gap) (simp_all add: b g N_SCANS_def)
  have h2: "laserCloudHandler downSizeFilter gapSweep warmGlobals = None"
    by (simp add: laserCloudHandler_def w ingest_gap laserCloud_gap c occlusion_gap x Let_def)
  show ?thesis using e a h1 n h2 by (simp add: gapCloud_at)
qed

section \<open>A sweep with a kink in the range\<close>

lemma kinkRange_pos: "0 < kinkRange k"
  by (simp add: kinkRange_def add_pos_nonneg)

lemma ingestPoint_axis:
  assumes "imuPointerLast g = - 1" "0 < r" "halfPassed st = False"
  shows "ingestPoint 10 0 (2 * pi) i (rayPoint r 0 0) (g, st)
    = Some (g, st\<lparr>laserCloudScans := (laserCloudScans st)
               (15 := laserCloudScans st 15 @ [\<lparr>x = 0, y = 0, z = r, intensity = 15\<rparr>])\<rparr>)"
proof -
  have e: "elevationAngle \<lparr>x = 0, y = 0, z = r, intensity = 0\<rparr> = Some 0"
    using assms(2) by (simp add: elevationAngle_def Let_def)
  have a: "atan2 0 r = 0" using assms(2) by (simp add: atan2_def)
  show ?thesis
    using pi_gt_zero assms
    by (simp add: ingestPoint_def rayPoint_def e scanID_vals N_SCANS_def azimuthOf_def
        a Let_def pi_cmp)
qed

lemma ingestLoop_axis:
  assumes "imuPointerLast g = - 1" "\<forall>r\<in>set rs. 0 < r" "halfPassed st = False"
  shows "ingestLoop 10 0 (2 * pi) i (map (\<lambda>r. rayPoint r 0 0) rs) (g, st)
    = Some (g, st\<lparr>laserCloudScans := (laserCloudScans st)
               (15 := laserCloudScans st 15 @ map (\<lambda>r. \<lparr>x = 0, y = 0, z = r, intensity = 15\<rparr>) rs)\<rparr>)"
  using assms(2,3)
proof (induction rs arbitrary: st i)
  case Nil
  then show ?case by simp
next
  case (Cons r rs)
  have r: "0 < r" using Cons.prems by simp
  have h: "halfPassed (st\<lparr>laserCloudScans := (laserCloudScans st)
               (15 := laserCloudScans st 15 @ [\<lparr>x = 0, y = 0, z = r, intensity = 15\<rparr>])\<rparr>) = False"
    using Cons.prems by simp
  have p: "\<forall>r\<in>set rs. 0 < r" using Cons.prems by simp
  show ?case
    unfolding list.map ingestLoop.simps ingestPoint_axis[OF assms(1) r Cons.prems(2)] option.case
      Cons.IH[OF p h]
    by (simp add: fun_upd_def cong: if_cong)
qed

lemma ingest_kink:
  "ingestSweep kinkSweep warmGlobals = Some (warmGlobals,
     \<lparr>halfPassed = False, count = 45, laserCloudScans = (\<lambda>_. [])(15 := kinkCloud)\<rparr>)"
proof -
  have l: "imuPointerLast warmGlobals = - 1" by (simp add: warmGlobals_def init_globals_def)
  have r: "removeNaNFromPointCloud (raw_points kinkSweep)
      = map (\<lambda>r. rayPoint r 0 0) (map kinkRange [0..<45])"
    by (simp add: kinkSweep_def removeNaNFromPointCloud_def map_filter_map_filter
          List.map_filter_def comp_def)
  have k0: "kinkRange 0 = 30" "kinkRange 44 = 36" by (simp_all add: kinkRange_def)
  have f: "azimuthFraming (map (\<lambda>r. rayPoint r 0 0) (map kinkRange [0..<45])) = Some (0, 2 * pi)"
    using pi_gt_zero
    by (simp add: azimuthFraming_def points_at_def Let_def rayPoint_def k0 atan2_def
          normalizeEndOri_def)
  have h: "header_stamp kinkSweep = 10" by (simp add: kinkSweep_def)
  have p: "\<forall>r\<in>set (map kinkRange [0..<45]). 0 < r" by (simp add: kinkRange_pos)
  have c: "map (\<lambda>r. \<lparr>x = 0, y = 0, z = r, intensity = 15\<rparr>) (map kinkRange [0..<45]) = kinkCloud"
    unfolding kinkCloud_def map_map comp_def ..
  define st0 where "st0 = \<lparr>halfPassed = False, count = 45, laserCloudScans = (\<lambda>_. [])\<rparr>"
  have L: "ingestLoop 10 0 (2 * pi) 0 (map (\<lambda>r. rayPoint r 0 0) (map kinkRange [0..<45]))
       (warmGlobals, st0)
     = Some (warmGlobals, st0\<lparr>laserCloudScans := (laserCloudScans st0)
               (15 := laserCloudScans st0 15
                  @ map (\<lambda>r. \<lparr>x = 0, y = 0, z = r, intensity = 15\<rparr>) (map kinkRange [0..<45]))\<rparr>)"
    by (rule ingestLoop_axis[OF l p]) (simp add: st0_def)
  have E: "st0\<lparr>laserCloudScans := (laserCloudScans st0)
               (15 := laserCloudScans st0 15
                  @ map (\<lambda>r. \<lparr>x = 0, y = 0, z = r, intensity = 15\<rparr>) (map kinkRange [0..<45]))\<rparr>
      = \<lparr>halfPassed = False, count = 45, laserCloudScans = (\<lambda>_. [])(15 := kinkCloud)\<rparr>"
    unfolding c by (simp add: st0_def)
  show ?thesis
    unfolding ingestSweep_def Let_def r f h
    using L unfolding E st0_def by (simp del: map_map add: c)
qed

lemma kinkCloud_at:
  assumes "0 \<le> i" "i < 45"
  shows "points_at kinkCloud i = Some \<lparr>x = 0, y = 0, z = kinkRange (nat i), intensity = 15\<rparr>"
proof -
  have "nat i < 45" using assms by simp
  then have "kinkCloud ! nat i = \<lparr>x = 0, y = 0, z = kinkRange (nat i), intensity = 15\<rparr>"
    by (simp add: kinkCloud_def)
  then show ?thesis using assms by (simp add: points_at_def kinkCloud_def)
qed

lemma handler_kink:
  "\<exists>g' out. laserCloudHandler (\<lambda>ps. ps) kinkSweep warmGlobals = Some (g', Some out)
     \<and> pubLaserCloud out = kinkCloud
     \<and> map z (pubCornerPointsSharp out) = map kinkRange [29, 28, 32, 33, 35, 36]
     \<and> map z (pubCornerPointsLessSharp out) = map kinkRange [29, 28, 32, 33, 31, 34, 30, 35, 36]
     \<and> map z (pubSurfPointsFlat out)
          = map kinkRange [10, 11, 12, 13, 15, 16, 17, 18, 20, 21, 22, 23, 25, 26, 27, 37, 38, 39]
     \<and> map (cloudLabel g') [10, 11, 12, 13] = [- 1, - 1, - 1, - 1]
     \<and> map (cloudNeighborPicked g') [10, 11, 12, 13] = [1, 1, 1, 0]
     \<and> map (cloudLabel g') [28, 29, 30, 31, 32, 33, 34, 35, 36] = [2, 2, 1, 1, 2, 2, 1, 2, 2]
     \<and> map (cloudNeighborPicked g') [28, 29, 30, 31, 32, 33, 34, 35, 36] = [1, 1, 1, 1, 1, 1, 1, 1, 1]"
proof -
  have w: "systemInited warmGlobals" by (simp add: warmGlobals_def)
  have l: "concat (map ((\<lambda>_. [])(15 := kinkCloud)) [0..N_SCANS - 1]) = kinkCloud"
    by (simp add: upto_beams)
  show ?thesis
    unfolding laserCloudHandler_def Let_def
    apply (simp add: w ingest_kink l)
    apply (simp add: for_lt.simps curvatureBody_def kinkCloud_at kinkRange_def c_int_vals
        scratch_wr_def Let_def N_SCANS_def)
    apply (simp add: for_lt.simps occlusionBody_def kinkCloud_at kinkRange_def Let_def)
    apply (simp add: extractFeatures_def N_SCANS_def for_lt.simps for_le.simps for_ge.simps
        beamBody_def sectorBody_def sortBody_def cornerBody_def flatBody_def lessFlatBody_def
        markAndSpread_def spreadFwdBody_def spreadBwdBody_def mark_picked_def
        scratch_wr_def scratch_rd_def kinkCloud_at kinkRange_def Let_def)
    done
qed


theorem sharp_subset_lessSharp_witness:
  "laserCloudHandler (\<lambda>ps. ps) kinkSweep warmGlobals \<noteq> None
   \<and> snd (the (laserCloudHandler (\<lambda>ps. ps) kinkSweep warmGlobals)) \<noteq> None
   \<and> map z (pubCornerPointsSharp
          (the (snd (the (laserCloudHandler (\<lambda>ps. ps) kinkSweep warmGlobals)))))
       = [387 / 10, 192 / 5, 198 / 5, 393 / 10, 387 / 10, 192 / 5]
   \<and> length (pubCornerPointsLessSharp
          (the (snd (the (laserCloudHandler (\<lambda>ps. ps) kinkSweep warmGlobals))))) = 9
   \<and> mset (pubCornerPointsSharp
          (the (snd (the (laserCloudHandler (\<lambda>ps. ps) kinkSweep warmGlobals)))))
       \<subseteq># mset (pubCornerPointsLessSharp
          (the (snd (the (laserCloudHandler (\<lambda>ps. ps) kinkSweep warmGlobals)))))"
proof -
  from handler_kink obtain g' out where k:
    "laserCloudHandler (\<lambda>ps. ps) kinkSweep warmGlobals = Some (g', Some out)
     \<and> pubLaserCloud out = kinkCloud
     \<and> map z (pubCornerPointsSharp out) = map kinkRange [29, 28, 32, 33, 35, 36]
     \<and> map z (pubCornerPointsLessSharp out) = map kinkRange [29, 28, 32, 33, 31, 34, 30, 35, 36]
     \<and> map z (pubSurfPointsFlat out)
          = map kinkRange [10, 11, 12, 13, 15, 16, 17, 18, 20, 21, 22, 23, 25, 26, 27, 37, 38, 39]
     \<and> map (cloudLabel g') [10, 11, 12, 13] = [- 1, - 1, - 1, - 1]
     \<and> map (cloudNeighborPicked g') [10, 11, 12, 13] = [1, 1, 1, 0]
     \<and> map (cloudLabel g') [28, 29, 30, 31, 32, 33, 34, 35, 36] = [2, 2, 1, 1, 2, 2, 1, 2, 2]
     \<and> map (cloudNeighborPicked g') [28, 29, 30, 31, 32, 33, 34, 35, 36] = [1, 1, 1, 1, 1, 1, 1, 1, 1]"
    by (elim exE)
  note h = k[THEN conjunct1]
  note s = k[THEN conjunct2, THEN conjunct2, THEN conjunct1]
  note t = k[THEN conjunct2, THEN conjunct2, THEN conjunct2, THEN conjunct1]
  have "map z (pubCornerPointsSharp out) = [387 / 10, 192 / 5, 198 / 5, 393 / 10, 387 / 10, 192 / 5]"
    unfolding s by (simp add: kinkRange_def)
  moreover have "length (pubCornerPointsLessSharp out) = 9"
    using arg_cong[OF t, of length] by simp
  ultimately show ?thesis using sharp_subset_lessSharp[OF h] by (simp add: h)
qed

end
